theory Spec2Isabelle
  imports Complex_Main
begin

section \<open>Data model (actions.ts, type definitions)\<close>

text \<open>
  The records follow the TypeScript types of \<^verbatim>\<open>actions.ts\<close>. Two conventions hold
  throughout. An instant is an \<^typ>\<open>int\<close>: the milliseconds since the Unix epoch that
  JavaScript's \<^verbatim>\<open>Date.getTime()\<close> returns. The fields the source keeps as ISO strings
  written by \<^verbatim>\<open>toISOString()\<close> (\<^verbatim>\<open>registrationWeekStart\<close>, \<^verbatim>\<open>weekStart\<close>,
  \<^verbatim>\<open>registrationTime\<close>) hold the instant the string denotes: the program only ever
  writes them with \<^verbatim>\<open>toISOString()\<close> and reads them back with \<^verbatim>\<open>new Date(s)\<close>, and
  on such strings equality of strings is equality of instants. Strings are ASCII.
\<close>

record Player =
  player_id :: string
  level :: rat

record TeamRegistrationData =
  teamName :: string
  players :: "Player list"
  contactEmail :: string
  contactPhone :: string
  utrNumber :: string
  screenshotHash :: string
  registrationTime :: int

record RegistrationState =
  registrationWeekStart :: int
  registeredTeamsCount :: int

record WeeklyData =
  weekly_registrationWeekStart :: int
  teams :: "TeamRegistrationData list"

datatype rank = First | Second

record WinnerInfo =
  winner_rank :: rank
  winner_teamName :: string

record WeeklyWinner =
  weekStart :: int
  winners :: "WinnerInfo list"
  totalTeams :: int

text \<open>An uploaded \<^verbatim>\<open>File\<close>: its bytes and its MIME type; \<^verbatim>\<open>file.size\<close> is the number of bytes.\<close>

record File =
  file_bytes :: string
  file_type :: string

definition file_size :: "File \<Rightarrow> nat" where
  "file_size f = length (file_bytes f)"

datatype formEntry = Text string | Blob File

type_synonym FormData = "string \<Rightarrow> formEntry option"

text \<open>
  Modelled from the spec: the type \<^verbatim>\<open>VerifyUtrOutput\<close> is declared in
  \<^verbatim>\<open>@/ai/flows/verify-payment-flow\<close>, which is not among the sources. The spec gives the
  adapter's output as \<^verbatim>\<open>{ isUtrMatch: bool, reason?: string, transactionDate?: ISO-string }\<close>,
  and these are the three fields \<^verbatim>\<open>registerTeam\<close> reads.
\<close>

record VerifyUtrOutput =
  isUtrMatch :: bool
  reason :: "string option"
  transactionDate :: "string option"

datatype exn = IOError | Error string

datatype jsnumber = NaN | NegInfinity | Finite rat | Infinity

datatype mail =
    NewRegistrationMail string "string option"
  | ConfirmationMail string
  | WinnerMail rank string

section \<open>The environment and the persisted world\<close>

text \<open>
  \<open>env\<close> collects what the program takes from outside and does not change: the server's
  time zone (a constant offset from UTC in minutes, east positive, so local time is
  \<open>UTC + tzOffset\<close>; daylight saving is not modelled), the process environment variables,
  and the external collaborators as functions. \<open>ioFails n\<close> says whether the \<open>n\<close>-th file
  operation of the run raises an I/O error other than ENOENT (a full disk, a read-only
  file system, a file that is not JSON). \<^verbatim>\<open>resend.emails.send\<close> has three outcomes: it
  throws (\<open>resendThrows\<close>), or it resolves with an error object, the mail refused and
  not sent (\<open>resendRefuses\<close>), or it resolves with the mail accepted.
  \<open>verifyUtrFromScreenshot\<close> and \<open>uploadFileToStorage\<close> return \<open>Inl\<close> when they throw.
  \<open>sha256\<close>, \<open>isEmail\<close> (zod's e-mail format), \<open>toNumber\<close> (JavaScript's \<^verbatim>\<open>Number(s)\<close>),
  \<open>dateParse\<close> (\<^verbatim>\<open>new Date(s).getTime()\<close>, \<open>None\<close> for an invalid date) and
  \<open>zodFirstIssue\<close> (the text of the first validation issue) are library functions.
\<close>

record env =
  tzOffset :: int
  RESEND_API_KEY :: "string option"
  ADMIN_EMAIL :: "string option"
  EMAIL_USER :: "string option"
  ioFails :: "nat \<Rightarrow> bool"
  resendThrows :: "string \<Rightarrow> mail \<Rightarrow> bool"
  resendRefuses :: "string \<Rightarrow> mail \<Rightarrow> bool"
  verifyUtrFromScreenshot :: "File \<Rightarrow> string \<Rightarrow> exn + VerifyUtrOutput"
  uploadFileToStorage :: "File \<Rightarrow> string \<Rightarrow> exn + string"
  sha256 :: "string \<Rightarrow> string"
  isEmail :: "string \<Rightarrow> bool"
  toNumber :: "string \<Rightarrow> jsnumber"
  dateParse :: "string \<Rightarrow> int option"
  zodFirstIssue :: "FormData \<Rightarrow> string"

text \<open>
  \<open>world\<close> is what the program changes: the four kinds of JSON file under
  \<^verbatim>\<open>src/data\<close> (\<open>None\<close> is a file that does not exist; a file that exists holds a
  document of its type; the archive directory is a map from file names), the mails
  the mail API has accepted, and the number of file operations performed so far.
\<close>

record world =
  stateFile :: "RegistrationState option"
  registrationsFile :: "WeeklyData option"
  winnersFile :: "WeeklyWinner list option"
  archiveFiles :: "string \<Rightarrow> WeeklyData option"
  outbox :: "(string \<times> mail) list"
  ioCount :: nat

type_synonym 'a io = "world \<Rightarrow> (exn + 'a) \<times> world"

text \<open>\<^verbatim>\<open>await\<close> of a promise that may reject: the rest runs on the value, a rejection propagates.\<close>

definition await :: "'a io \<Rightarrow> ('a \<Rightarrow> 'b io) \<Rightarrow> 'b io" where
  "await m f w = (case m w of (Inl e, w') \<Rightarrow> (Inl e, w') | (Inr x, w') \<Rightarrow> f x w')"

definition return :: "'a \<Rightarrow> 'a io" where
  "return x w = (Inr x, w)"

section \<open>Time and week calculation\<close>

definition localMs :: "int \<Rightarrow> int \<Rightarrow> int" where
  "localMs tz t = t + tz * 60000"

text \<open>\<^verbatim>\<open>getDay()\<close>: Sunday is 0; 1 January 1970 was a Thursday.\<close>

definition getDay :: "int \<Rightarrow> int \<Rightarrow> int" where
  "getDay tz t = (localMs tz t div 86400000 + 4) mod 7"

definition getHours :: "int \<Rightarrow> int \<Rightarrow> int" where
  "getHours tz t = (localMs tz t div 3600000) mod 24"

definition getMinutes :: "int \<Rightarrow> int \<Rightarrow> int" where
  "getMinutes tz t = (localMs tz t div 60000) mod 60"

text \<open>
  \<^verbatim>\<open>monday.setDate(now.getDate() - distanceToMonday)\<close> moves the local calendar date back
  by that many days and keeps the time of day; \<^verbatim>\<open>setHours(0, 0, 0, 0)\<close> then goes to local
  midnight of that day.
\<close>

definition getRegistrationWeekStart :: "int \<Rightarrow> int \<Rightarrow> int" where
  "getRegistrationWeekStart tz now =
     (let currentDay = getDay tz now;
          distanceToMonday = (currentDay + 6) mod 7;
          monday = now - distanceToMonday * 86400000
      in (localMs tz monday div 86400000) * 86400000 - tz * 60000)"

definition isRegistrationWindowOpen :: "int \<Rightarrow> int \<Rightarrow> bool" where
  "isRegistrationWindowOpen tz now =
     (let day = getDay tz now; hours = getHours tz now; minutes = getMinutes tz now
      in if day = 0 \<and> hours \<ge> 22 then False
         else if day = 1 \<and> (hours = 0 \<and> minutes < 30) then False
         else True)"

subsection \<open>\<^verbatim>\<open>Date.prototype.toISOString\<close>\<close>

text \<open>
  The UTC calendar date of a day number (days since the epoch), by the usual
  era/day-of-era computation on the proleptic Gregorian calendar.
\<close>

definition civilFromDays :: "int \<Rightarrow> int \<times> int \<times> int" where
  "civilFromDays z0 =
     (let z = z0 + 719468;
          era = z div 146097;
          doe = z - era * 146097;
          yoe = (doe - doe div 1460 + doe div 36524 - doe div 146096) div 365;
          y = yoe + era * 400;
          doy = doe - (365 * yoe + yoe div 4 - yoe div 100);
          mp = (5 * doy + 2) div 153;
          d = doy - (153 * mp + 2) div 5 + 1;
          m = (if mp < 10 then mp + 3 else mp - 9)
      in (if m \<le> 2 then y + 1 else y, m, d))"

definition digit :: "int \<Rightarrow> char" where
  "digit n = ''0123456789'' ! nat (n mod 10)"

definition pad2 :: "int \<Rightarrow> string" where
  "pad2 n = [digit (n div 10), digit n]"

definition pad3 :: "int \<Rightarrow> string" where
  "pad3 n = [digit (n div 100), digit (n div 10), digit n]"

definition pad4 :: "int \<Rightarrow> string" where
  "pad4 n = [digit (n div 1000), digit (n div 100), digit (n div 10), digit n]"

definition pad6 :: "int \<Rightarrow> string" where
  "pad6 n = [digit (n div 100000), digit (n div 10000)] @ pad4 n"

definition isoYear :: "int \<Rightarrow> string" where
  "isoYear y = (if 0 \<le> y \<and> y \<le> 9999 then pad4 y
                else if y < 0 then ''-'' @ pad6 (- y) else ''+'' @ pad6 y)"

definition isoDate :: "int \<Rightarrow> string" where
  "isoDate t = (case civilFromDays (t div 86400000) of
                  (y, m, d) \<Rightarrow> isoYear y @ ''-'' @ pad2 m @ ''-'' @ pad2 d)"

text \<open>
  The time values formatted here are those of persisted week starts, which are valid
  dates, so the RangeError of an invalid date does not arise.
\<close>

definition toISOString :: "int \<Rightarrow> string" where
  "toISOString t =
     (let r = t mod 86400000
      in isoDate t @ ''T'' @ pad2 (r div 3600000) @ '':'' @ pad2 (r div 60000 mod 60)
         @ '':'' @ pad2 (r div 1000 mod 60) @ ''.'' @ pad3 (r mod 1000) @ ''Z'')"

section \<open>Strings\<close>

definition isWhiteSpace :: "char \<Rightarrow> bool" where
  "isWhiteSpace c = ((of_char c :: nat) \<in> {9, 10, 11, 12, 13, 32})"

definition trim :: "string \<Rightarrow> string" where
  "trim s = rev (dropWhile isWhiteSpace (rev (dropWhile isWhiteSpace s)))"

definition lowerChar :: "char \<Rightarrow> char" where
  "lowerChar c = (if 65 \<le> (of_char c :: nat) \<and> (of_char c :: nat) \<le> 90
                  then char_of (of_char c + 32 :: nat) else c)"

definition toLowerCase :: "string \<Rightarrow> string" where
  "toLowerCase s = map lowerChar s"

text \<open>\<^verbatim>\<open>!v\<close> for a \<^verbatim>\<open>string | undefined\<close>: undefined and the empty string are falsy.\<close>

definition falsy :: "string option \<Rightarrow> bool" where
  "falsy v = (case v of None \<Rightarrow> True | Some s \<Rightarrow> s = [])"

section \<open>Data access\<close>

text \<open>
  A file is named by its selector on \<open>world\<close> (\<open>stateFile\<close> for \<^verbatim>\<open>statePath\<close>, and so on).
  \<open>readJsonFile\<close> returns \<open>None\<close> for a file that does not exist (the ENOENT branch) and
  rethrows any other error; \<open>writeJsonFile\<close> replaces the file or throws, and a write
  that throws leaves the file as it was. Creating the directories is part of the
  operation.
\<close>

definition readJsonFile :: "env \<Rightarrow> (world \<Rightarrow> 'a option) \<Rightarrow> 'a option io" where
  "readJsonFile e filePath w =
     (if ioFails e (ioCount w) then (Inl IOError, w\<lparr>ioCount := Suc (ioCount w)\<rparr>)
      else (Inr (filePath w), w\<lparr>ioCount := Suc (ioCount w)\<rparr>))"

definition writeJsonFile :: "env \<Rightarrow> (world \<Rightarrow> world) \<Rightarrow> unit io" where
  "writeJsonFile e put w =
     (if ioFails e (ioCount w) then (Inl IOError, w\<lparr>ioCount := Suc (ioCount w)\<rparr>)
      else (Inr (), (put w)\<lparr>ioCount := Suc (ioCount w)\<rparr>))"

definition putState :: "RegistrationState \<Rightarrow> world \<Rightarrow> world" where
  "putState s w = w\<lparr>stateFile := Some s\<rparr>"

definition putRegistrations :: "WeeklyData \<Rightarrow> world \<Rightarrow> world" where
  "putRegistrations d w = w\<lparr>registrationsFile := Some d\<rparr>"

definition putWinners :: "WeeklyWinner list \<Rightarrow> world \<Rightarrow> world" where
  "putWinners ws w = w\<lparr>winnersFile := Some ws\<rparr>"

definition putArchive :: "string \<Rightarrow> WeeklyData \<Rightarrow> world \<Rightarrow> world" where
  "putArchive name d w = w\<lparr>archiveFiles := (archiveFiles w)(name := Some d)\<rparr>"

section \<open>Notification mails of a registration\<close>

text \<open>
  Both skip silently when the mail configuration is missing and swallow a send error.
  The value that \<^verbatim>\<open>resend.emails.send\<close> resolves to is not looked at.
\<close>

definition sendNewRegistrationEmail ::
    "env \<Rightarrow> string \<Rightarrow> string option \<Rightarrow> world \<Rightarrow> world" where
  "sendNewRegistrationEmail e team screenshotUrl w =
     (if falsy (RESEND_API_KEY e) \<or> falsy (ADMIN_EMAIL e) \<or> falsy (EMAIL_USER e) then w
      else case ADMIN_EMAIL e of
             None \<Rightarrow> w
           | Some admin \<Rightarrow>
               if resendThrows e admin (NewRegistrationMail team screenshotUrl) then w
               else if resendRefuses e admin (NewRegistrationMail team screenshotUrl) then w
               else w\<lparr>outbox := outbox w @ [(admin, NewRegistrationMail team screenshotUrl)]\<rparr>)"

definition sendConfirmationEmailToUser :: "env \<Rightarrow> TeamRegistrationData \<Rightarrow> world \<Rightarrow> world" where
  "sendConfirmationEmailToUser e teamData w =
     (if falsy (RESEND_API_KEY e) \<or> falsy (EMAIL_USER e) then w
      else if resendThrows e (contactEmail teamData) (ConfirmationMail (teamName teamData)) then w
      else if resendRefuses e (contactEmail teamData) (ConfirmationMail (teamName teamData)) then w
      else w\<lparr>outbox := outbox w @ [(contactEmail teamData, ConfirmationMail (teamName teamData))]\<rparr>)"

section \<open>Weekly state\<close>

definition archiveName :: "string \<Rightarrow> string" where
  "archiveName dateString = ''registrations-'' @ dateString @ ''.json''"

text \<open>An error of the archive write is caught and logged; the caller goes on.\<close>

definition archiveWeeklyData :: "env \<Rightarrow> WeeklyData \<Rightarrow> unit io" where
  "archiveWeeklyData e weeklyData w =
     (if teams weeklyData = [] then (Inr (), w)
      else let weekStartDate = weekly_registrationWeekStart weeklyData;
               dateString = takeWhile (\<lambda>c. c \<noteq> CHR ''T'') (toISOString weekStartDate)
           in case writeJsonFile e (putArchive (archiveName dateString) weeklyData) w of
                (Inl err, w') \<Rightarrow> (Inr (), w')
              | (Inr u, w') \<Rightarrow> (Inr (), w'))"

text \<open>
  The two places where \<^verbatim>\<open>manageWeeklyState\<close> builds and writes an empty current week
  (first use, and after archiving) are the same statements; \<open>startWeek\<close> is that block.
\<close>

definition startWeek :: "env \<Rightarrow> int \<Rightarrow> (RegistrationState \<times> WeeklyData) io" where
  "startWeek e currentWeekStart =
     (let newState = \<lparr>registrationWeekStart = currentWeekStart, registeredTeamsCount = 0\<rparr>;
          newWeeklyData = \<lparr>weekly_registrationWeekStart = currentWeekStart, teams = []\<rparr>
      in await (writeJsonFile e (putState newState)) (\<lambda>u.
         await (writeJsonFile e (putRegistrations newWeeklyData)) (\<lambda>u.
         return (newState, newWeeklyData))))"

definition manageWeeklyState :: "env \<Rightarrow> int \<Rightarrow> (RegistrationState \<times> WeeklyData) io" where
  "manageWeeklyState e now =
     (let currentWeekStart = getRegistrationWeekStart (tzOffset e) now
      in await (readJsonFile e stateFile) (\<lambda>state.
         await (readJsonFile e registrationsFile) (\<lambda>weeklyData.
           case state of
             None \<Rightarrow> startWeek e currentWeekStart
           | Some st \<Rightarrow>
              (case weeklyData of
                 None \<Rightarrow> startWeek e currentWeekStart
               | Some wd \<Rightarrow>
                   if registrationWeekStart st < currentWeekStart
                   then await (archiveWeeklyData e wd) (\<lambda>u. startWeek e currentWeekStart)
                   else if registeredTeamsCount st \<noteq> int (length (teams wd))
                   then let st' = st\<lparr>registeredTeamsCount := int (length (teams wd))\<rparr>
                        in await (writeJsonFile e (putState st')) (\<lambda>u. return (st', wd))
                   else return (st, wd)))))"

section \<open>Public server actions\<close>

record RegistrationStatus =
  slotsFilled :: int
  totalSlots :: int
  isOpen :: bool
  status_weekStart :: int

text \<open>The clock is read twice: inside \<^verbatim>\<open>manageWeeklyState\<close> and for the window test.\<close>

definition getRegistrationStatus :: "env \<Rightarrow> int \<Rightarrow> int \<Rightarrow> RegistrationStatus io" where
  "getRegistrationStatus e now1 now2 =
     await (manageWeeklyState e now1) (\<lambda>(state, weeklyData).
       let totalSlots = 12;
           isWindowOpen = isRegistrationWindowOpen (tzOffset e) now2;
           areSlotsAvailable = registeredTeamsCount state < totalSlots
       in return \<lparr>slotsFilled = registeredTeamsCount state, totalSlots = totalSlots,
                   isOpen = (isWindowOpen \<and> areSlotsAvailable),
                   status_weekStart = registrationWeekStart state\<rparr>)"

subsection \<open>The registration schema\<close>

definition MAX_FILE_SIZE :: nat where
  "MAX_FILE_SIZE = 10 * 1024 * 1024"

definition ACCEPTED_IMAGE_TYPES :: "string list" where
  "ACCEPTED_IMAGE_TYPES = [''image/jpeg'', ''image/jpg'', ''image/png'', ''image/webp'']"

record ValidatedForm =
  v_teamName :: string
  v_players :: "Player list"
  v_contactEmail :: string
  v_contactPhone :: string
  v_utrNumber :: string
  v_screenshot :: File

definition textField :: "FormData \<Rightarrow> string \<Rightarrow> string option" where
  "textField formData key = (case formData key of Some (Text s) \<Rightarrow> Some s | _ \<Rightarrow> None)"

definition fileField :: "FormData \<Rightarrow> string \<Rightarrow> File option" where
  "fileField formData key = (case formData key of Some (Blob f) \<Rightarrow> Some f | _ \<Rightarrow> None)"

definition lengthWithin :: "nat \<Rightarrow> nat \<Rightarrow> string \<Rightarrow> bool" where
  "lengthWithin lo hi s = (lo \<le> length s \<and> length s \<le> hi)"

text \<open>\<^verbatim>\<open>z.coerce.number()\<close>: \<^verbatim>\<open>Number(x)\<close>, which is NaN for a missing field and for a file.\<close>

definition coerceNumber :: "env \<Rightarrow> formEntry option \<Rightarrow> jsnumber" where
  "coerceNumber e x = (case x of Some (Text s) \<Rightarrow> toNumber e s | _ \<Rightarrow> NaN)"

definition playerSchema :: "env \<Rightarrow> FormData \<Rightarrow> string \<Rightarrow> Player option" where
  "playerSchema e formData slot =
     (case textField formData (''players.'' @ slot @ ''.id'') of
        None \<Rightarrow> None
      | Some pid \<Rightarrow>
          if \<not> lengthWithin 1 30 pid then None
          else case coerceNumber e (formData (''players.'' @ slot @ ''.level'')) of
                 Finite lv \<Rightarrow> if 30 \<le> lv \<and> lv \<le> 100
                               then Some \<lparr>player_id = pid, level = lv\<rparr> else None
               | _ \<Rightarrow> None)"

definition isPhone :: "string \<Rightarrow> bool" where
  "isPhone s = (length s = 10 \<and> list_all (\<lambda>c. c \<in> set ''0123456789'') s)"

definition screenshotSchema :: "FormData \<Rightarrow> File option" where
  "screenshotSchema formData =
     (case fileField formData ''screenshot'' of
        None \<Rightarrow> None
      | Some f \<Rightarrow> if file_size f > 0 \<and> file_size f \<le> MAX_FILE_SIZE
                      \<and> file_type f \<in> set ACCEPTED_IMAGE_TYPES
                   then Some f else None)"

text \<open>
  \<open>registrationSchema\<close> is what the schema accepts and the data it yields; the array of
  players is built from the four fixed slots, so its length is 4.
\<close>

definition registrationSchema :: "env \<Rightarrow> FormData \<Rightarrow> ValidatedForm option" where
  "registrationSchema e formData =
     (case textField formData ''teamName'' of None \<Rightarrow> None | Some name \<Rightarrow>
      case those (map (playerSchema e formData) [''0'', ''1'', ''2'', ''3'']) of
        None \<Rightarrow> None | Some ps \<Rightarrow>
      case textField formData ''contactEmail'' of None \<Rightarrow> None | Some email \<Rightarrow>
      case textField formData ''contactPhone'' of None \<Rightarrow> None | Some phone \<Rightarrow>
      case textField formData ''utrNumber'' of None \<Rightarrow> None | Some utr \<Rightarrow>
      case screenshotSchema formData of None \<Rightarrow> None | Some shot \<Rightarrow>
        if lengthWithin 1 30 name \<and> isEmail e email \<and> isPhone phone \<and> lengthWithin 5 30 utr
        then Some \<lparr>v_teamName = name, v_players = ps, v_contactEmail = email,
                    v_contactPhone = phone, v_utrNumber = utr, v_screenshot = shot\<rparr>
        else None)"

definition safeParse :: "env \<Rightarrow> FormData \<Rightarrow> string + ValidatedForm" where
  "safeParse e formData =
     (case registrationSchema e formData of
        Some v \<Rightarrow> Inr v
      | None \<Rightarrow> Inl (zodFirstIssue e formData))"

subsection \<open>Payment verification\<close>

definition runAIVerification :: "env \<Rightarrow> File \<Rightarrow> string \<Rightarrow> VerifyUtrOutput" where
  "runAIVerification e screenshot utr =
     (case verifyUtrFromScreenshot e screenshot utr of
        Inr verdict \<Rightarrow> verdict
      | Inl err \<Rightarrow>
          \<lparr>isUtrMatch = False,
           reason = Some ''AI verification service is currently unavailable. Please try again later.'',
           transactionDate = None\<rparr>)"

subsection \<open>registerTeam\<close>

text \<open>
  The reasons for which \<^verbatim>\<open>registerTeam\<close> returns \<^verbatim>\<open>success: false\<close>, one for each
  \<^verbatim>\<open>return\<close> of the source: registrations closed; the first validation issue; the
  verification verdict's reason; no transaction date; a transaction date before the week;
  the four duplicate checks; and the catch-all around the whole action.
\<close>

datatype rejection =
    Closed
  | Invalid string
  | NotVerified "string option"
  | NoTransactionDate
  | PreviousWeek
  | DuplicateUtr
  | DuplicateEmail
  | DuplicatePhone
  | DuplicateScreenshot
  | Unexpected exn

datatype registerResult = Success TeamRegistrationData | Failure rejection

text \<open>\<^verbatim>\<open>transactionDate < weekStartDate\<close> on two Dates; an invalid date compares false.\<close>

definition dateBefore :: "int option \<Rightarrow> int \<Rightarrow> bool" where
  "dateBefore d weekStartDate = (case d of None \<Rightarrow> False | Some t \<Rightarrow> t < weekStartDate)"

text \<open>
  Steps 5 to 9, after the checks on the verdict. \<open>now\<close> is the clock read for
  \<^verbatim>\<open>registrationTime\<close>.
\<close>

definition saveRegistration ::
    "env \<Rightarrow> int \<Rightarrow> RegistrationState \<Rightarrow> WeeklyData \<Rightarrow> ValidatedForm \<Rightarrow> registerResult io" where
  "saveRegistration e now state weeklyData v =
     (let hash = sha256 e (file_bytes (v_screenshot v))
      in if list_ex (\<lambda>team. toLowerCase (trim (utrNumber team)) = toLowerCase (trim (v_utrNumber v)))
              (teams weeklyData)
         then return (Failure DuplicateUtr)
         else if list_ex (\<lambda>team. toLowerCase (trim (contactEmail team))
                                    = toLowerCase (trim (v_contactEmail v))) (teams weeklyData)
         then return (Failure DuplicateEmail)
         else if list_ex (\<lambda>team. trim (contactPhone team) = trim (v_contactPhone v)) (teams weeklyData)
         then return (Failure DuplicatePhone)
         else if list_ex (\<lambda>team. screenshotHash team = hash) (teams weeklyData)
         then return (Failure DuplicateScreenshot)
         else
           let screenshotUrl = (case uploadFileToStorage e (v_screenshot v) ''screenshots/'' of
                                  Inl uploadError \<Rightarrow> None | Inr url \<Rightarrow> Some url);
               registrationData =
                 \<lparr>teamName = v_teamName v, players = v_players v,
                  contactEmail = v_contactEmail v, contactPhone = v_contactPhone v,
                  utrNumber = v_utrNumber v, screenshotHash = hash, registrationTime = now\<rparr>;
               weeklyData' = weeklyData\<lparr>teams := teams weeklyData @ [registrationData]\<rparr>;
               updatedState = state\<lparr>registeredTeamsCount := int (length (teams weeklyData'))\<rparr>
           in await (writeJsonFile e (putRegistrations weeklyData')) (\<lambda>u.
              await (writeJsonFile e (putState updatedState)) (\<lambda>u.
              (\<lambda>w. (Inr (Success registrationData),
                     sendConfirmationEmailToUser e registrationData
                       (sendNewRegistrationEmail e (v_teamName v) screenshotUrl w))))))"

text \<open>
  Steps 3 and 4: the payment verification and the check of the transaction date against
  the week start of \<open>state\<close>; then the saving.
\<close>

definition verifyAndSave ::
    "env \<Rightarrow> int \<Rightarrow> RegistrationState \<Rightarrow> WeeklyData \<Rightarrow> ValidatedForm \<Rightarrow> registerResult io" where
  "verifyAndSave e now state weeklyData v =
     (let verificationResult = runAIVerification e (v_screenshot v) (v_utrNumber v)
      in if \<not> isUtrMatch verificationResult
         then return (Failure (NotVerified (reason verificationResult)))
         else case transactionDate verificationResult of
                None \<Rightarrow> return (Failure NoTransactionDate)
              | Some dateText \<Rightarrow>
                  if dateText = [] then return (Failure NoTransactionDate)
                  else if dateBefore (dateParse e dateText) (registrationWeekStart state)
                  then return (Failure PreviousWeek)
                  else saveRegistration e now state weeklyData v)"

text \<open>
  The body of the \<^verbatim>\<open>try\<close>. The clock is read at \<open>t1\<close> by the first
  \<^verbatim>\<open>manageWeeklyState\<close>, at \<open>t2\<close> and \<open>t3\<close> by \<^verbatim>\<open>getRegistrationStatus\<close>, and at \<open>t4\<close>
  for the registration time. \<open>state\<close> and \<open>weeklyData\<close> are those of the first call.
\<close>

definition registerTeamTry ::
    "env \<Rightarrow> int \<Rightarrow> int \<Rightarrow> int \<Rightarrow> int \<Rightarrow> FormData \<Rightarrow> registerResult io" where
  "registerTeamTry e t1 t2 t3 t4 formData =
     await (manageWeeklyState e t1) (\<lambda>(state, weeklyData).
     await (getRegistrationStatus e t2 t3) (\<lambda>status.
       if \<not> isOpen status then return (Failure Closed)
       else case safeParse e formData of
              Inl issue \<Rightarrow> return (Failure (Invalid issue))
            | Inr v \<Rightarrow> verifyAndSave e t4 state weeklyData v))"

definition registerTeam ::
    "env \<Rightarrow> int \<Rightarrow> int \<Rightarrow> int \<Rightarrow> int \<Rightarrow> FormData \<Rightarrow> world \<Rightarrow> registerResult \<times> world" where
  "registerTeam e t1 t2 t3 t4 formData w =
     (case registerTeamTry e t1 t2 t3 t4 formData w of
        (Inl err, w') \<Rightarrow> (Failure (Unexpected err), w')
      | (Inr result, w') \<Rightarrow> (result, w'))"

text \<open>
  The world after step 1 of \<^verbatim>\<open>registerTeam\<close>, the two reads of the weekly state. A
  registration that is turned down by one of the checks leaves exactly this world: it
  has written nothing of its own.
\<close>

definition afterStatusCheck :: "env \<Rightarrow> int \<Rightarrow> int \<Rightarrow> int \<Rightarrow> world \<Rightarrow> world" where
  "afterStatusCheck e t1 t2 t3 w =
     (case manageWeeklyState e t1 w of
        (Inl err, w1) \<Rightarrow> w1
      | (Inr x, w1) \<Rightarrow> snd (getRegistrationStatus e t2 t3 w1))"

subsection \<open>Roster queries\<close>

definition getWeeklyRegistrations :: "env \<Rightarrow> int \<Rightarrow> (string \<times> Player list) list io" where
  "getWeeklyRegistrations e now =
     await (manageWeeklyState e now) (\<lambda>(state, weeklyData).
       return (map (\<lambda>team. (teamName team, players team)) (teams weeklyData)))"

definition getWeeklyRegistrationsForAdmin :: "env \<Rightarrow> int \<Rightarrow> TeamRegistrationData list io" where
  "getWeeklyRegistrationsForAdmin e now =
     await (manageWeeklyState e now) (\<lambda>(state, weeklyData). return (teams weeklyData))"

subsection \<open>Winners\<close>

definition readWinnersHistory :: "env \<Rightarrow> WeeklyWinner list io" where
  "readWinnersHistory e =
     await (readJsonFile e winnersFile) (\<lambda>winners.
       return (case winners of None \<Rightarrow> [] | Some ws \<Rightarrow> ws))"

definition sendWinnerEmail :: "env \<Rightarrow> TeamRegistrationData \<Rightarrow> rank \<Rightarrow> unit io" where
  "sendWinnerEmail e teamData r w =
     (if falsy (RESEND_API_KEY e)
      then (Inl (Error ''Resend API key is missing. Cannot send winner email.''), w)
      else if falsy (EMAIL_USER e)
      then (Inl (Error ''Sender email not configured. Cannot send winner email.''), w)
      else if resendThrows e (contactEmail teamData) (WinnerMail r (teamName teamData))
      then (Inl (Error ''Failed to send the congratulatory email.''), w)
      else if resendRefuses e (contactEmail teamData) (WinnerMail r (teamName teamData))
      then (Inr (), w)
      else (Inr (), w\<lparr>outbox := outbox w @ [(contactEmail teamData, WinnerMail r (teamName teamData))]\<rparr>))"

definition processAndEmailWinners ::
    "env \<Rightarrow> int \<Rightarrow> TeamRegistrationData \<Rightarrow> TeamRegistrationData \<Rightarrow> unit io" where
  "processAndEmailWinners e now firstPlaceTeam secondPlaceTeam =
     await (manageWeeklyState e now) (\<lambda>(state, weeklyData).
     await (sendWinnerEmail e firstPlaceTeam First) (\<lambda>u.
     await (sendWinnerEmail e secondPlaceTeam Second) (\<lambda>u.
       let newWinnerRecord =
             \<lparr>weekStart = registrationWeekStart state,
              winners = [\<lparr>winner_rank = First, winner_teamName = teamName firstPlaceTeam\<rparr>,
                         \<lparr>winner_rank = Second, winner_teamName = teamName secondPlaceTeam\<rparr>],
              totalTeams = registeredTeamsCount state\<rparr>
       in await (readWinnersHistory e) (\<lambda>allWinners.
            let kept = filter (\<lambda>w. weekStart w \<noteq> weekStart newWinnerRecord) allWinners
            in writeJsonFile e (putWinners (newWinnerRecord # kept))))))"

section \<open>Sequences of actions\<close>

text \<open>
  The server actions that go through \<^verbatim>\<open>manageWeeklyState\<close>, each with the clock values it
  reads, and the world a sequence of them leaves behind (whether an action returns or
  throws, its writes stay).
\<close>

datatype action =
    GetRegistrationStatus int int
  | RegisterTeam int int int int FormData
  | GetWeeklyRegistrations int
  | GetWeeklyRegistrationsForAdmin int
  | ProcessAndEmailWinners int TeamRegistrationData TeamRegistrationData

fun perform :: "env \<Rightarrow> action \<Rightarrow> world \<Rightarrow> world" where
  "perform e (GetRegistrationStatus t1 t2) w = snd (getRegistrationStatus e t1 t2 w)"
| "perform e (RegisterTeam t1 t2 t3 t4 formData) w = snd (registerTeam e t1 t2 t3 t4 formData w)"
| "perform e (GetWeeklyRegistrations t) w = snd (getWeeklyRegistrations e t w)"
| "perform e (GetWeeklyRegistrationsForAdmin t) w = snd (getWeeklyRegistrationsForAdmin e t w)"
| "perform e (ProcessAndEmailWinners t a b) w = snd (processAndEmailWinners e t a b w)"

fun performAll :: "env \<Rightarrow> action list \<Rightarrow> world \<Rightarrow> world" where
  "performAll e [] w = w"
| "performAll e (a # as) w = performAll e as (perform e a w)"

text \<open>The persisted counter equals the length of the persisted roster.\<close>

definition counterInSync :: "world \<Rightarrow> bool" where
  "counterInSync w =
     (case stateFile w of
        None \<Rightarrow> False
      | Some st \<Rightarrow>
          (case registrationsFile w of
             None \<Rightarrow> False
           | Some wd \<Rightarrow> registeredTeamsCount st = int (length (teams wd))))"

text \<open>No file operation raises an I/O error.\<close>

definition reliable :: "env \<Rightarrow> bool" where
  "reliable e = (\<forall>n. \<not> ioFails e n)"

section \<open>Notions used in the statements\<close>

text \<open>The four duplicate checks of step 5, on one team of the roster.\<close>

definition duplicateOf :: "env \<Rightarrow> ValidatedForm \<Rightarrow> TeamRegistrationData \<Rightarrow> bool" where
  "duplicateOf e v team =
     (toLowerCase (trim (utrNumber team)) = toLowerCase (trim (v_utrNumber v))
      \<or> toLowerCase (trim (contactEmail team)) = toLowerCase (trim (v_contactEmail v))
      \<or> trim (contactPhone team) = trim (v_contactPhone v)
      \<or> screenshotHash team = sha256 e (file_bytes (v_screenshot v)))"

text \<open>The roster on disk, if there is one, has fewer teams than the 12 slots.\<close>

definition slotsLeftOnDisk :: "world \<Rightarrow> bool" where
  "slotsLeftOnDisk w =
     (case registrationsFile w of None \<Rightarrow> True | Some wd \<Rightarrow> length (teams wd) < 12)"

text \<open>
  \<^verbatim>\<open>sendWinnerEmail\<close> reaches one of its three \<^verbatim>\<open>throw\<close> statements: no API key, no
  sender address, or the mail API throws.
\<close>

definition winnerEmailThrows :: "env \<Rightarrow> TeamRegistrationData \<Rightarrow> rank \<Rightarrow> bool" where
  "winnerEmailThrows e teamData r =
     (falsy (RESEND_API_KEY e) \<or> falsy (EMAIL_USER e)
      \<or> resendThrows e (contactEmail teamData) (WinnerMail r (teamName teamData)))"

text \<open>The winners history on disk, as \<^verbatim>\<open>readWinnersHistory\<close> sees it.\<close>

definition historyOnDisk :: "world \<Rightarrow> WeeklyWinner list" where
  "historyOnDisk w = (case winnersFile w of None \<Rightarrow> [] | Some ws \<Rightarrow> ws)"

text \<open>The persisted state, if there is one, is not of a week after the week of \<open>now\<close>.\<close>

definition stateNotAhead :: "env \<Rightarrow> int \<Rightarrow> world \<Rightarrow> bool" where
  "stateNotAhead e now w =
     (case stateFile w of
        None \<Rightarrow> True
      | Some st \<Rightarrow> registrationWeekStart st \<le> getRegistrationWeekStart (tzOffset e) now)"

text \<open>The calendar date that the local clock shows at the instant \<open>t\<close>.\<close>

definition localDate :: "int \<Rightarrow> int \<Rightarrow> string" where
  "localDate tz t = isoDate (localMs tz t)"

text \<open>
  The verdict on the validated form is a match with a transaction date that is not
  before the week start of \<open>state\<close>: steps 3 and 4 let the registration through.
\<close>

definition passesPaymentChecks :: "env \<Rightarrow> RegistrationState \<Rightarrow> ValidatedForm \<Rightarrow> bool" where
  "passesPaymentChecks e state v =
     (isUtrMatch (runAIVerification e (v_screenshot v) (v_utrNumber v))
      \<and> (case transactionDate (runAIVerification e (v_screenshot v) (v_utrNumber v)) of
            None \<Rightarrow> False
          | Some dateText \<Rightarrow>
              dateText \<noteq> [] \<and> \<not> dateBefore (dateParse e dateText) (registrationWeekStart state)))"

text \<open>The record that step 7 builds from the validated form, at the clock value \<open>now\<close>.\<close>

definition registrationRecord :: "env \<Rightarrow> int \<Rightarrow> ValidatedForm \<Rightarrow> TeamRegistrationData" where
  "registrationRecord e now v =
     \<lparr>teamName = v_teamName v, players = v_players v,
      contactEmail = v_contactEmail v, contactPhone = v_contactPhone v,
      utrNumber = v_utrNumber v, screenshotHash = sha256 e (file_bytes (v_screenshot v)),
      registrationTime = now\<rparr>"

section \<open>Example data\<close>

text \<open>
  A server in India (UTC+5:30) with a working mail configuration and collaborators that
  answer. Monday 8 January 2024, 00:00 local time, is the instant \<open>1704652200000\<close>;
  \<open>1704868200000\<close> is the Wednesday of that week, 12:00 local time, and
  \<open>1705473000000\<close> the Wednesday of the week after. The library functions are simple
  stand-ins: the hash of a file is its bytes with a prefix, an e-mail address is a
  string with an at sign, only the number 40 and one date are parsed.
\<close>

definition exampleVerdict :: VerifyUtrOutput where
  "exampleVerdict = \<lparr>isUtrMatch = True, reason = None, transactionDate = Some ''2024-01-10''\<rparr>"

definition exampleEnv :: env where
  "exampleEnv =
     \<lparr>tzOffset = 330,
      RESEND_API_KEY = Some ''key'', ADMIN_EMAIL = Some ''admin@example.org'',
      EMAIL_USER = Some ''noreply@example.org'',
      ioFails = (\<lambda>n. False),
      resendThrows = (\<lambda>recipient m. False),
      resendRefuses = (\<lambda>recipient m. False),
      verifyUtrFromScreenshot = (\<lambda>f utr. Inr exampleVerdict),
      uploadFileToStorage = (\<lambda>f prefix. Inr ''https://storage.example.org/shot''),
      sha256 = (\<lambda>bytes. ''h:'' @ bytes),
      isEmail = (\<lambda>s. CHR ''@'' \<in> set s),
      toNumber = (\<lambda>s. if s = ''40'' then Finite 40 else NaN),
      dateParse = (\<lambda>s. if s = ''2024-01-10'' then Some 1704844800000 else None),
      zodFirstIssue = (\<lambda>formData. ''teamName: Required'')\<rparr>"

definition exampleTeam :: "string \<Rightarrow> TeamRegistrationData" where
  "exampleTeam tag =
     \<lparr>teamName = ''Team '' @ tag, players = [],
      contactEmail = tag @ ''@example.org'', contactPhone = ''98765432'' @ tag,
      utrNumber = ''UTR00'' @ tag, screenshotHash = ''h:shot'' @ tag,
      registrationTime = 1704700000000\<rparr>"

definition exampleWorld :: "TeamRegistrationData list \<Rightarrow> world" where
  "exampleWorld ts =
     \<lparr>stateFile = Some \<lparr>registrationWeekStart = 1704652200000,
                          registeredTeamsCount = int (length ts)\<rparr>,
      registrationsFile = Some \<lparr>weekly_registrationWeekStart = 1704652200000, teams = ts\<rparr>,
      winnersFile = None,
      archiveFiles = (\<lambda>name. None),
      outbox = [],
      ioCount = 0\<rparr>"

definition exampleRoster :: "nat \<Rightarrow> TeamRegistrationData list" where
  "exampleRoster n =
     map exampleTeam (take n [''01'', ''02'', ''03'', ''04'', ''05'', ''06'',
                              ''07'', ''08'', ''09'', ''10'', ''11'', ''12''])"

definition exampleForm :: "string \<Rightarrow> FormData" where
  "exampleForm tag =
     map_of [(''teamName'', Text (''Team '' @ tag)),
             (''players.0.id'', Text ''p0''), (''players.0.level'', Text ''40''),
             (''players.1.id'', Text ''p1''), (''players.1.level'', Text ''40''),
             (''players.2.id'', Text ''p2''), (''players.2.level'', Text ''40''),
             (''players.3.id'', Text ''p3''), (''players.3.level'', Text ''40''),
             (''contactEmail'', Text (tag @ ''@example.org'')),
             (''contactPhone'', Text (''98765432'' @ tag)),
             (''utrNumber'', Text (''UTR00'' @ tag)),
             (''screenshot'', Blob \<lparr>file_bytes = ''shot'' @ tag, file_type = ''image/png''\<rparr>)]"

text \<open>The form of team 02, sent with the screenshot that team 01 used.\<close>

definition exampleReusedScreenshot :: FormData where
  "exampleReusedScreenshot =
     (exampleForm ''02'')(''screenshot'' \<mapsto> Blob \<lparr>file_bytes = ''shot01'', file_type = ''image/png''\<rparr>)"

text \<open>
  Servers whose verification adapter cannot be reached, finds no match, extracts no
  transaction date, or extracts Friday 5 January 2024, a date of the week before.
\<close>

definition offlineEnv :: env where
  "offlineEnv = exampleEnv\<lparr>verifyUtrFromScreenshot := (\<lambda>f utr. Inl (Error ''fetch failed''))\<rparr>"

definition mismatchEnv :: env where
  "mismatchEnv = exampleEnv\<lparr>verifyUtrFromScreenshot :=
     (\<lambda>f utr. Inr \<lparr>isUtrMatch = False, reason = Some ''UTR not found in the screenshot'',
                     transactionDate = None\<rparr>)\<rparr>"

definition noDateEnv :: env where
  "noDateEnv = exampleEnv\<lparr>verifyUtrFromScreenshot :=
     (\<lambda>f utr. Inr \<lparr>isUtrMatch = True, reason = None, transactionDate = None\<rparr>)\<rparr>"

definition staleEnv :: env where
  "staleEnv = exampleEnv\<lparr>verifyUtrFromScreenshot :=
       (\<lambda>f utr. Inr \<lparr>isUtrMatch = True, reason = None, transactionDate = Some ''2024-01-05''\<rparr>),
     dateParse := (\<lambda>s. if s = ''2024-01-05'' then Some 1704412800000 else None)\<rparr>"

text \<open>
  A server whose mail API refuses the mail to the second-placed team: it resolves with
  an error object and does not throw.
\<close>

definition mailRefusedEnv :: env where
  "mailRefusedEnv = exampleEnv\<lparr>resendRefuses := (\<lambda>recipient m. m = WinnerMail Second ''Team 02'')\<rparr>"

text \<open>A world with a winners history: a record for the current week and one for the week before.\<close>

definition exampleHistory :: "WeeklyWinner list" where
  "exampleHistory =
     [\<lparr>weekStart = 1704652200000,
       winners = [\<lparr>winner_rank = First, winner_teamName = ''Team 03''\<rparr>,
                  \<lparr>winner_rank = Second, winner_teamName = ''Team 01''\<rparr>],
       totalTeams = 3\<rparr>,
      \<lparr>weekStart = 1704047400000,
       winners = [\<lparr>winner_rank = First, winner_teamName = ''Old 1''\<rparr>,
                  \<lparr>winner_rank = Second, winner_teamName = ''Old 2''\<rparr>],
       totalTeams = 9\<rparr>]"

definition exampleWinnersWorld :: world where
  "exampleWinnersWorld = (exampleWorld (exampleRoster 3))\<lparr>winnersFile := Some exampleHistory\<rparr>"

text \<open>A world whose state file is missing while the roster file holds three teams.\<close>

definition exampleNoStateWorld :: world where
  "exampleNoStateWorld = (exampleWorld (exampleRoster 3))\<lparr>stateFile := None\<rparr>"

text \<open>A server on which the sixth file operation fails.\<close>

definition sixthWriteFailsEnv :: env where
  "sixthWriteFailsEnv = exampleEnv\<lparr>ioFails := (\<lambda>n. n = 5)\<rparr>"

text \<open>
  A server on UTC, and one on UTC whose third file operation fails. On UTC, Monday
  8 January 2024, 00:00, is the instant \<open>1704672000000\<close>, and \<open>1705492800000\<close> is the
  Wednesday of the week after, 12:00. \<open>utcWorld\<close> holds three teams of that first week.
\<close>

definition utcEnv :: env where
  "utcEnv = exampleEnv\<lparr>tzOffset := 0\<rparr>"

definition utcArchiveFailsEnv :: env where
  "utcArchiveFailsEnv = exampleEnv\<lparr>tzOffset := 0, ioFails := (\<lambda>n. n = 2)\<rparr>"

definition utcWorld :: world where
  "utcWorld = (exampleWorld (exampleRoster 3))
     \<lparr>stateFile := Some \<lparr>registrationWeekStart = 1704672000000, registeredTeamsCount = 3\<rparr>,
      registrationsFile :=
        Some \<lparr>weekly_registrationWeekStart = 1704672000000, teams = exampleRoster 3\<rparr>\<rparr>"

text \<open>A world whose counter has drifted: one team on the roster, a counter of 7.\<close>

definition driftedWorld :: world where
  "driftedWorld = (exampleWorld (exampleRoster 1))
     \<lparr>stateFile := Some \<lparr>registrationWeekStart = 1704652200000, registeredTeamsCount = 7\<rparr>\<rparr>"

section \<open>Properties of the week calculation\<close>

lemma getHours_of_day: "getHours tz t = (localMs tz t mod 86400000) div 3600000"
proof -
  have "localMs tz t mod (3600000 * 24)
          = 3600000 * (localMs tz t div 3600000 mod 24) + localMs tz t mod 3600000"
    by (rule zmod_zmult2_eq) simp
  then show ?thesis unfolding getHours_def by simp
qed

lemma getMinutes_of_day: "getMinutes tz t = ((localMs tz t mod 86400000) div 60000) mod 60"
proof -
  have "localMs tz t mod (60000 * 1440)
          = 60000 * (localMs tz t div 60000 mod 1440) + localMs tz t mod 60000"
    by (rule zmod_zmult2_eq) simp
  then have "(localMs tz t mod 86400000) div 60000 = (localMs tz t div 60000) mod 1440"
    by simp
  moreover have "((localMs tz t div 60000) mod 1440) mod 60 = (localMs tz t div 60000) mod 60"
    by (simp add: mod_mod_cancel)
  ultimately show ?thesis unfolding getMinutes_def by simp
qed

lemma mod7_shift: "((x + 4) mod 7 + 6) mod 7 = (x + 3) mod (7::int)"
  by presburger

lemma distanceToMonday_eq:
  "(getDay tz t + 6) mod 7 = (localMs tz t div 86400000 + 3) mod 7"
  unfolding getDay_def by (rule mod7_shift)

lemma localMs_days_back:
  "localMs tz (now - k * 86400000) div 86400000 = localMs tz now div 86400000 - k"
proof -
  have "localMs tz (now - k * 86400000) = localMs tz now + (- k) * 86400000"
    unfolding localMs_def by simp
  then show ?thesis by simp
qed

lemma weekStart_eq:
  "getRegistrationWeekStart tz now =
     (localMs tz now div 86400000 - (localMs tz now div 86400000 + 3) mod 7) * 86400000
       - tz * 60000"
  unfolding getRegistrationWeekStart_def Let_def distanceToMonday_eq localMs_days_back by simp

lemma since_weekStart:
  "now - getRegistrationWeekStart tz now =
     localMs tz now mod 86400000 + ((localMs tz now div 86400000 + 3) mod 7) * 86400000"
proof -
  have "localMs tz now = (localMs tz now div 86400000) * 86400000 + localMs tz now mod 86400000"
    by simp
  moreover have "now = localMs tz now - tz * 60000" unfolding localMs_def by simp
  ultimately show ?thesis unfolding weekStart_eq
    by (simp add: algebra_simps)
qed

lemma weekStart_le: "getRegistrationWeekStart tz now \<le> now"
proof -
  have "0 \<le> localMs tz now mod 86400000 + ((localMs tz now div 86400000 + 3) mod 7) * 86400000"
    by simp
  then show ?thesis using since_weekStart[of now tz] by linarith
qed

lemma weekStart_within_week: "now < getRegistrationWeekStart tz now + 604800000"
proof -
  have "localMs tz now mod 86400000 < 86400000" by simp
  moreover have "(localMs tz now div 86400000 + 3) mod 7 \<le> 6"
    using pos_mod_bound[of 7 "localMs tz now div 86400000 + 3"] by linarith
  ultimately have
    "localMs tz now mod 86400000 + ((localMs tz now div 86400000 + 3) mod 7) * 86400000 < 604800000"
    by linarith
  then show ?thesis using since_weekStart[of now tz] by linarith
qed

lemma weekStart_local:
  "localMs tz (getRegistrationWeekStart tz now) =
     (localMs tz now div 86400000 - (localMs tz now div 86400000 + 3) mod 7) * 86400000"
  unfolding weekStart_eq by (simp add: localMs_def)

lemma mod7_monday: "(q - (q + 3) mod 7 + 4) mod 7 = (1::int)"
  by presburger

lemma weekStart_is_monday_midnight:
  "getDay tz (getRegistrationWeekStart tz now) = 1"
  "getHours tz (getRegistrationWeekStart tz now) = 0"
  "getMinutes tz (getRegistrationWeekStart tz now) = 0"
  unfolding getDay_def getHours_of_day getMinutes_of_day weekStart_local
  by (simp_all add: mod7_monday)

lemma window_open_iff:
  "isRegistrationWindowOpen tz now \<longleftrightarrow>
     getRegistrationWeekStart tz now + 1800000 \<le> now
     \<and> now < getRegistrationWeekStart tz now + 597600000"
proof -
  define r where "r = localMs tz now mod 86400000"
  define q where "q = localMs tz now div 86400000"
  define k where "k = (q + 3) mod 7"
  have r: "0 \<le> r" "r < 86400000" unfolding r_def by simp_all
  have k: "0 \<le> k" "k < 7" unfolding k_def by simp_all
  have s: "now - getRegistrationWeekStart tz now = r + k * 86400000"
    unfolding r_def q_def k_def by (rule since_weekStart)
  have "(q + 4) mod 7 = (k + 1) mod 7" unfolding k_def by presburger
  then have d: "getDay tz now = (k + 1) mod 7" unfolding getDay_def q_def by simp
  have h: "getHours tz now = r div 3600000" unfolding r_def by (rule getHours_of_day)
  have m: "getMinutes tz now = (r div 60000) mod 60" unfolding r_def by (rule getMinutes_of_day)
  have h22: "r div 3600000 \<ge> 22 \<longleftrightarrow> r \<ge> 79200000" by linarith
  have h0: "r div 3600000 = 0 \<and> (r div 60000) mod 60 < 30 \<longleftrightarrow> r < 1800000"
  proof
    assume a: "r div 3600000 = 0 \<and> (r div 60000) mod 60 < 30"
    then have "r < 3600000" using r by linarith
    then have "r div 60000 < 60" by linarith
    moreover have "0 \<le> r div 60000" using r by simp
    ultimately have "(r div 60000) mod 60 = r div 60000" by simp
    with a show "r < 1800000" by linarith
  next
    assume a: "r < 1800000"
    then have 1: "r div 3600000 = 0" using r by simp
    have "r div 60000 < 30" using a by linarith
    moreover have "0 \<le> r div 60000" using r by simp
    ultimately have "(r div 60000) mod 60 < 30" by simp
    with 1 show "r div 3600000 = 0 \<and> (r div 60000) mod 60 < 30" by simp
  qed
  have d0: "(k + 1) mod 7 = 0 \<longleftrightarrow> k = 6" using k by presburger
  have d1: "(k + 1) mod 7 = 1 \<longleftrightarrow> k = 0" using k by presburger
  have "isRegistrationWindowOpen tz now
          \<longleftrightarrow> \<not> (k = 6 \<and> r \<ge> 79200000) \<and> \<not> (k = 0 \<and> r < 1800000)"
    unfolding isRegistrationWindowOpen_def Let_def d h m d0 d1 h22 using h0 by auto
  also have "\<dots> \<longleftrightarrow> 1800000 \<le> r + k * 86400000 \<and> r + k * 86400000 < 597600000"
    using r k by auto
  finally show ?thesis using s by linarith
qed

section \<open>Properties of the weekly state\<close>

lemmas io_defs = await_def return_def readJsonFile_def writeJsonFile_def
  putState_def putRegistrations_def putWinners_def putArchive_def

lemma archive_keeps:
  "archiveWeeklyData e wd w = (r, w') \<Longrightarrow>
     r = Inr () \<and> stateFile w' = stateFile w \<and> registrationsFile w' = registrationsFile w
     \<and> winnersFile w' = winnersFile w \<and> outbox w' = outbox w"
  by (auto simp: archiveWeeklyData_def io_defs Let_def split: if_splits prod.splits sum.splits)

lemma startWeek_returns:
  "startWeek e c w = (Inr (st, wd), w') \<Longrightarrow>
     st = \<lparr>registrationWeekStart = c, registeredTeamsCount = 0\<rparr>
     \<and> wd = \<lparr>weekly_registrationWeekStart = c, teams = []\<rparr>
     \<and> stateFile w' = Some st \<and> registrationsFile w' = Some wd
     \<and> archiveFiles w' = archiveFiles w"
  by (auto simp: startWeek_def io_defs Let_def split: if_splits)

lemma startWeek_keeps:
  "startWeek e c w = (r, w') \<Longrightarrow> winnersFile w' = winnersFile w \<and> outbox w' = outbox w"
  by (auto simp: startWeek_def io_defs Let_def split: if_splits)

lemma startWeek_roster:
  "startWeek e c w = (r, w') \<Longrightarrow>
     registrationsFile w' = registrationsFile w
     \<or> registrationsFile w' = Some \<lparr>weekly_registrationWeekStart = c, teams = []\<rparr>"
  by (auto simp: startWeek_def io_defs Let_def split: if_splits)

lemma manage_keeps:
  "manageWeeklyState e now w = (r, w') \<Longrightarrow> winnersFile w' = winnersFile w \<and> outbox w' = outbox w"
  by (auto simp: manageWeeklyState_def io_defs Let_def
      split: if_splits option.splits prod.splits sum.splits
      dest!: startWeek_keeps archive_keeps)

lemma manage_returns:
  "manageWeeklyState e now w = (Inr (st, wd), w') \<Longrightarrow>
     stateFile w' = Some st \<and> registrationsFile w' = Some wd
     \<and> registeredTeamsCount st = int (length (teams wd))"
  by (auto simp: manageWeeklyState_def io_defs Let_def
      split: if_splits option.splits prod.splits sum.splits
      dest!: startWeek_returns archive_keeps)

lemma manage_roster:
  "manageWeeklyState e now w = (r, w') \<Longrightarrow>
     registrationsFile w' = registrationsFile w
     \<or> registrationsFile w' = Some \<lparr>weekly_registrationWeekStart = getRegistrationWeekStart (tzOffset e) now, teams = []\<rparr>"
  by (auto simp: manageWeeklyState_def io_defs Let_def
      split: if_splits option.splits prod.splits sum.splits
      dest!: startWeek_roster archive_keeps)

lemma manage_reliable:
  "reliable e \<Longrightarrow> \<exists>x w'. manageWeeklyState e now w = (Inr x, w')"
  by (auto simp: manageWeeklyState_def startWeek_def archiveWeeklyData_def io_defs Let_def reliable_def
      split: if_splits option.splits prod.splits sum.splits)

lemma manage_same_week:
  assumes "stateFile w = Some st" "registrationsFile w = Some wd"
    and "\<not> registrationWeekStart st < getRegistrationWeekStart (tzOffset e) now"
    and "manageWeeklyState e now w = (r, w')"
  shows "registrationsFile w' = Some wd \<and> archiveFiles w' = archiveFiles w
     \<and> (\<exists>c. stateFile w' = Some (st\<lparr>registeredTeamsCount := c\<rparr>))
     \<and> (\<forall>x. r = Inr x \<longrightarrow> x = (st\<lparr>registeredTeamsCount := int (length (teams wd))\<rparr>, wd))"
proof -
  have self: "st\<lparr>registeredTeamsCount := registeredTeamsCount st\<rparr> = st" by simp
  show ?thesis
    using assms
    apply (auto simp: manageWeeklyState_def io_defs Let_def
      split: if_splits option.splits prod.splits sum.splits)
    apply (metis self)+
    done
qed

section \<open>Properties of the registration pipeline\<close>

lemma status_unfold:
  "getRegistrationStatus e t2 t3 w =
     (case manageWeeklyState e t2 w of
        (Inl err, w') \<Rightarrow> (Inl err, w')
      | (Inr (st, wd), w') \<Rightarrow>
          (Inr \<lparr>slotsFilled = registeredTeamsCount st, totalSlots = 12,
                isOpen = (isRegistrationWindowOpen (tzOffset e) t3 \<and> registeredTeamsCount st < 12),
                status_weekStart = registrationWeekStart st\<rparr>, w'))"
  by (simp add: getRegistrationStatus_def await_def return_def Let_def split: prod.splits sum.splits)

lemma mail_keeps_files:
  "stateFile (sendNewRegistrationEmail e n u w) = stateFile w"
  "registrationsFile (sendNewRegistrationEmail e n u w) = registrationsFile w"
  "winnersFile (sendNewRegistrationEmail e n u w) = winnersFile w"
  "archiveFiles (sendNewRegistrationEmail e n u w) = archiveFiles w"
  "stateFile (sendConfirmationEmailToUser e d w) = stateFile w"
  "registrationsFile (sendConfirmationEmailToUser e d w) = registrationsFile w"
  "winnersFile (sendConfirmationEmailToUser e d w) = winnersFile w"
  "archiveFiles (sendConfirmationEmailToUser e d w) = archiveFiles w"
  by (simp_all add: sendNewRegistrationEmail_def sendConfirmationEmailToUser_def split: option.splits)

lemma save_duplicate:
  assumes "team \<in> set (teams wd)" "duplicateOf e v team"
  shows "\<exists>r. saveRegistration e t st wd v w = (Inr (Failure r), w)
           \<and> r \<in> {DuplicateUtr, DuplicateEmail, DuplicatePhone, DuplicateScreenshot}"
  using assms unfolding saveRegistration_def duplicateOf_def Let_def return_def list_ex_iff
  by auto

lemma save_failure:
  "saveRegistration e t st wd v w = (Inr (Failure r), w') \<Longrightarrow> w' = w"
  unfolding saveRegistration_def Let_def
  by (auto simp: io_defs split: if_splits)

lemma save_success:
  assumes "saveRegistration e t st wd v w = (Inr (Success d), w')"
  shows "registrationsFile w' = Some (wd\<lparr>teams := teams wd @ [d]\<rparr>)
       \<and> stateFile w' = Some (st\<lparr>registeredTeamsCount := int (length (teams wd @ [d]))\<rparr>)"
  using assms unfolding saveRegistration_def Let_def
  by (auto simp: io_defs mail_keeps_files split: if_splits)

lemma save_reliable:
  assumes "reliable e"
  shows "\<exists>r w'. saveRegistration e t st wd v w = (Inr r, w')"
  using assms unfolding saveRegistration_def Let_def reliable_def
  by (auto simp: io_defs)

lemma register_read1_throws:
  assumes "manageWeeklyState e t1 w = (Inl x, w1)"
  shows "registerTeam e t1 t2 t3 t4 fd w = (Failure (Unexpected x), w1)"
    and "afterStatusCheck e t1 t2 t3 w = w1"
  using assms by (simp_all add: registerTeam_def registerTeamTry_def afterStatusCheck_def await_def)

lemma register_read2_throws:
  assumes "manageWeeklyState e t1 w = (Inr (st, wd), w1)"
    and "getRegistrationStatus e t2 t3 w1 = (Inl x, w2)"
  shows "registerTeam e t1 t2 t3 t4 fd w = (Failure (Unexpected x), w2)"
    and "afterStatusCheck e t1 t2 t3 w = w2"
  using assms by (simp_all add: registerTeam_def registerTeamTry_def afterStatusCheck_def await_def)

lemma register_after_reads:
  assumes "manageWeeklyState e t1 w = (Inr (st, wd), w1)"
    and "getRegistrationStatus e t2 t3 w1 = (Inr status, w2)"
  shows "registerTeam e t1 t2 t3 t4 fd w =
     (if \<not> isOpen status then (Failure Closed, w2)
      else case safeParse e fd of
             Inl issue \<Rightarrow> (Failure (Invalid issue), w2)
           | Inr v \<Rightarrow>
               (case verifyAndSave e t4 st wd v w2 of
                  (Inl err, w3) \<Rightarrow> (Failure (Unexpected err), w3)
                | (Inr r, w3) \<Rightarrow> (r, w3)))"
    and "afterStatusCheck e t1 t2 t3 w = w2"
  using assms
  by (simp_all add: registerTeam_def registerTeamTry_def afterStatusCheck_def await_def return_def
      split: sum.splits)

text \<open>
  The ways a registration can end: turned down at the status check, by an error of the
  two reads, or by the validation, each time with nothing written; or it reaches the
  payment verification with the state and roster of the first read.
\<close>

lemma register_cases:
  obtains
    (closed) "registerTeam e t1 t2 t3 t4 fd w = (Failure Closed, afterStatusCheck e t1 t2 t3 w)"
  | (threw) x where
      "registerTeam e t1 t2 t3 t4 fd w = (Failure (Unexpected x), afterStatusCheck e t1 t2 t3 w)"
  | (invalid) st wd w1 status issue where
      "manageWeeklyState e t1 w = (Inr (st, wd), w1)"
      "getRegistrationStatus e t2 t3 w1 = (Inr status, afterStatusCheck e t1 t2 t3 w)"
      "isOpen status" "safeParse e fd = Inl issue"
      "registerTeam e t1 t2 t3 t4 fd w = (Failure (Invalid issue), afterStatusCheck e t1 t2 t3 w)"
  | (verify) st wd w1 status v where
      "manageWeeklyState e t1 w = (Inr (st, wd), w1)"
      "getRegistrationStatus e t2 t3 w1 = (Inr status, afterStatusCheck e t1 t2 t3 w)"
      "isOpen status" "safeParse e fd = Inr v"
      "registerTeam e t1 t2 t3 t4 fd w =
         (case verifyAndSave e t4 st wd v (afterStatusCheck e t1 t2 t3 w) of
            (Inl err, w3) \<Rightarrow> (Failure (Unexpected err), w3)
          | (Inr r, w3) \<Rightarrow> (r, w3))"
proof (cases "manageWeeklyState e t1 w")
  case (Pair r1 w1)
  show ?thesis
  proof (cases r1)
    case (Inl x)
    with Pair show ?thesis using threw by (simp add: register_read1_throws)
  next
    case (Inr x)
    obtain st wd where x: "x = (st, wd)" by (cases x)
    with Pair Inr have m1: "manageWeeklyState e t1 w = (Inr (st, wd), w1)" by simp
    show ?thesis
    proof (cases "getRegistrationStatus e t2 t3 w1")
      case (Pair r2 w2)
      show ?thesis
      proof (cases r2)
        case (Inl y)
        with Pair m1 show ?thesis using threw by (simp add: register_read2_throws)
      next
        case (Inr status)
        with Pair have s: "getRegistrationStatus e t2 t3 w1 = (Inr status, w2)" by simp
        note unf = register_after_reads[OF m1 s]
        show ?thesis
        proof (cases "isOpen status")
          case False
          then show ?thesis using closed by (simp add: unf)
        next
          case op: True
          show ?thesis
          proof (cases "safeParse e fd")
            case (Inl issue)
            with op m1 s show ?thesis using invalid[of st wd w1 status issue] by (simp add: unf)
          next
            case (Inr v)
            with op m1 s show ?thesis using verify[of st wd w1 status v] by (simp add: unf)
          qed
        qed
      qed
    qed
  qed
qed

text \<open>A registration that does not get past the payment verification is rejected and writes nothing.\<close>

lemma register_rejected:
  assumes "\<And>st wd w1 status w2 v.
     manageWeeklyState e t1 w = (Inr (st, wd), w1) \<Longrightarrow>
     getRegistrationStatus e t2 t3 w1 = (Inr status, w2) \<Longrightarrow>
     isOpen status \<Longrightarrow> safeParse e fd = Inr v \<Longrightarrow>
     \<exists>r. verifyAndSave e t4 st wd v w2 = (Inr (Failure r), w2)"
  shows "(\<exists>r. fst (registerTeam e t1 t2 t3 t4 fd w) = Failure r)
       \<and> snd (registerTeam e t1 t2 t3 t4 fd w) = afterStatusCheck e t1 t2 t3 w"
proof (cases rule: register_cases[of e t1 t2 t3 t4 fd w])
  case (verify st wd w1 status v)
  from assms[OF verify(1-4)] obtain r where
    "verifyAndSave e t4 st wd v (afterStatusCheck e t1 t2 t3 w)
       = (Inr (Failure r), afterStatusCheck e t1 t2 t3 w)" by blast
  with verify(5) show ?thesis by simp
qed simp_all

lemma status_open:
  assumes "getRegistrationStatus e t2 t3 w1 = (Inr status, w2)"
  shows "isOpen status \<longleftrightarrow> isRegistrationWindowOpen (tzOffset e) t3
            \<and> (\<exists>st wd. manageWeeklyState e t2 w1 = (Inr (st, wd), w2) \<and> registeredTeamsCount st < 12)"
    and "\<exists>st wd. manageWeeklyState e t2 w1 = (Inr (st, wd), w2)"
  using assms unfolding status_unfold
  by (auto split: prod.splits sum.splits)

lemma save_not_closed:
  "saveRegistration e t st wd v w = (Inr r, w') \<Longrightarrow> r \<noteq> Failure Closed"
  unfolding saveRegistration_def Let_def
  by (auto simp: io_defs split: if_splits)

lemma verify_not_closed:
  "verifyAndSave e t st wd v w = (Inr r, w') \<Longrightarrow> r \<noteq> Failure Closed"
  unfolding verifyAndSave_def Let_def
  by (auto simp: return_def dest: save_not_closed split: if_splits option.splits)

lemma manage_slots:
  assumes "slotsLeftOnDisk w" "manageWeeklyState e now w = (r, w')"
  shows "slotsLeftOnDisk w'"
  using manage_roster[OF assms(2)] assms(1)
  by (auto simp: slotsLeftOnDisk_def)

lemma register_not_closed:
  assumes win: "isRegistrationWindowOpen (tzOffset e) t3" and slots: "slotsLeftOnDisk w"
  shows "fst (registerTeam e t1 t2 t3 t4 fd w) \<noteq> Failure Closed"
proof (cases "manageWeeklyState e t1 w")
  case (Pair r1 w1)
  have s1: "slotsLeftOnDisk w1" using manage_slots[OF slots Pair] .
  show ?thesis
  proof (cases r1)
    case (Inl x)
    with Pair show ?thesis by (simp add: register_read1_throws)
  next
    case (Inr x)
    obtain st wd where x: "x = (st, wd)" by (cases x)
    with Pair Inr have m1: "manageWeeklyState e t1 w = (Inr (st, wd), w1)" by simp
    show ?thesis
    proof (cases "getRegistrationStatus e t2 t3 w1")
      case (Pair r2 w2)
      show ?thesis
      proof (cases r2)
        case (Inl y)
        with Pair m1 show ?thesis by (simp add: register_read2_throws)
      next
        case (Inr status)
        with Pair have s: "getRegistrationStatus e t2 t3 w1 = (Inr status, w2)" by simp
        from status_open(2)[OF s] obtain st2 wd2
          where m2: "manageWeeklyState e t2 w1 = (Inr (st2, wd2), w2)" by blast
        have "slotsLeftOnDisk w2" using manage_slots[OF s1 m2] .
        moreover have "registrationsFile w2 = Some wd2"
          "registeredTeamsCount st2 = int (length (teams wd2))"
          using manage_returns[OF m2] by simp_all
        ultimately have "registeredTeamsCount st2 < 12" by (simp add: slotsLeftOnDisk_def)
        with win m2 have op: "isOpen status" using status_open(1)[OF s] by blast
        show ?thesis
          using op verify_not_closed[of e t4 st wd _ w2]
          by (auto simp: register_after_reads[OF m1 s] split: sum.splits prod.splits)
      qed
    qed
  qed
qed

lemma safeParse_fields:
  assumes "safeParse e fd = Inr v"
  shows "textField fd ''teamName'' = Some (v_teamName v)"
    "textField fd ''contactEmail'' = Some (v_contactEmail v)"
    "textField fd ''contactPhone'' = Some (v_contactPhone v)"
    "textField fd ''utrNumber'' = Some (v_utrNumber v)"
    "fileField fd ''screenshot'' = Some (v_screenshot v)"
  using assms unfolding safeParse_def registrationSchema_def screenshotSchema_def
  by (auto split: option.splits if_splits)

lemma manage_week_ge:
  "manageWeeklyState e now w = (Inr (st, wd), w') \<Longrightarrow>
     getRegistrationWeekStart (tzOffset e) now \<le> registrationWeekStart st"
  by (auto simp: manageWeeklyState_def io_defs Let_def
      split: if_splits option.splits prod.splits sum.splits
      dest!: startWeek_returns archive_keeps)

lemma status_keeps_roster:
  "getRegistrationStatus e t2 t3 w = (r, w') \<Longrightarrow>
     registrationsFile w' = registrationsFile w
     \<or> registrationsFile w' = Some \<lparr>weekly_registrationWeekStart = getRegistrationWeekStart (tzOffset e) t2, teams = []\<rparr>"
  unfolding status_unfold
  by (auto split: prod.splits sum.splits dest: manage_roster)

lemma afterStatusCheck_roster:
  "registrationsFile (afterStatusCheck e t1 t2 t3 w) = registrationsFile w
   \<or> (\<exists>c. registrationsFile (afterStatusCheck e t1 t2 t3 w)
              = Some \<lparr>weekly_registrationWeekStart = c, teams = []\<rparr>)"
proof (cases "manageWeeklyState e t1 w")
  case (Pair r1 w1)
  note m1 = manage_roster[OF Pair]
  show ?thesis
  proof (cases r1)
    case (Inl x)
    with Pair m1 show ?thesis by (auto simp: afterStatusCheck_def)
  next
    case (Inr x)
    obtain r2 w2 where s: "getRegistrationStatus e t2 t3 w1 = (r2, w2)" by (cases "getRegistrationStatus e t2 t3 w1")
    from status_keeps_roster[OF s] m1 Pair Inr s show ?thesis
      by (auto simp: afterStatusCheck_def)
  qed
qed

lemma status_same_week:
  assumes "stateFile w = Some st" "registrationsFile w = Some wd"
    and "\<not> registrationWeekStart st < getRegistrationWeekStart (tzOffset e) t2"
    and "getRegistrationStatus e t2 t3 w = (r, w')"
  shows "registrationsFile w' = Some wd \<and> archiveFiles w' = archiveFiles w
     \<and> (\<exists>c. stateFile w' = Some (st\<lparr>registeredTeamsCount := c\<rparr>))
     \<and> (\<forall>status. r = Inr status \<longrightarrow>
            isOpen status = (isRegistrationWindowOpen (tzOffset e) t3 \<and> length (teams wd) < 12))"
proof (cases "manageWeeklyState e t2 w")
  case (Pair r2 w2)
  from manage_same_week[OF assms(1-3) Pair] Pair assms(4) show ?thesis
    unfolding status_unfold by (auto split: sum.splits)
qed

lemma afterStatusCheck_same_week:
  assumes "stateFile w = Some st" "registrationsFile w = Some wd"
    and "\<not> registrationWeekStart st < getRegistrationWeekStart (tzOffset e) t1"
    and "\<not> registrationWeekStart st < getRegistrationWeekStart (tzOffset e) t2"
  shows "registrationsFile (afterStatusCheck e t1 t2 t3 w) = Some wd"
    and "archiveFiles (afterStatusCheck e t1 t2 t3 w) = archiveFiles w"
proof -
  obtain r1 w1 where m1: "manageWeeklyState e t1 w = (r1, w1)" by (cases "manageWeeklyState e t1 w")
  note a = manage_same_week[OF assms(1-3) m1]
  then obtain c where c: "stateFile w1 = Some (st\<lparr>registeredTeamsCount := c\<rparr>)" by blast
  obtain r2 w2 where s: "getRegistrationStatus e t2 t3 w1 = (r2, w2)" by (cases "getRegistrationStatus e t2 t3 w1")
  have "\<not> registrationWeekStart (st\<lparr>registeredTeamsCount := c\<rparr>) < getRegistrationWeekStart (tzOffset e) t2"
    using assms(4) by simp
  note b = status_same_week[OF c _ this s]
  show "registrationsFile (afterStatusCheck e t1 t2 t3 w) = Some wd"
    "archiveFiles (afterStatusCheck e t1 t2 t3 w) = archiveFiles w"
    using a b m1 s by (auto simp: afterStatusCheck_def split: sum.splits)
qed

lemma register_closed_when_full:
  assumes "stateFile w = Some st" "registrationsFile w = Some wd"
    and "\<not> registrationWeekStart st < getRegistrationWeekStart (tzOffset e) t1"
    and "\<not> registrationWeekStart st < getRegistrationWeekStart (tzOffset e) t2"
    and "12 \<le> length (teams wd)"
  shows "registerTeam e t1 t2 t3 t4 fd w = (Failure Closed, afterStatusCheck e t1 t2 t3 w)
    \<or> (\<exists>x. registerTeam e t1 t2 t3 t4 fd w = (Failure (Unexpected x), afterStatusCheck e t1 t2 t3 w))"
proof -
  have full: False
    if m1: "manageWeeklyState e t1 w = (Inr (st', wd'), w1)"
      and s: "getRegistrationStatus e t2 t3 w1 = (Inr status, w2)"
      and op: "isOpen status" for st' wd' w1 status w2
  proof -
    note a = manage_same_week[OF assms(1-3) m1]
    then obtain c where c: "stateFile w1 = Some (st\<lparr>registeredTeamsCount := c\<rparr>)" by blast
    have "\<not> registrationWeekStart (st\<lparr>registeredTeamsCount := c\<rparr>)
            < getRegistrationWeekStart (tzOffset e) t2"
      using assms(4) by simp
    from status_same_week[OF c _ this s] a assms(5) op show False by auto
  qed
  show ?thesis
  proof (cases rule: register_cases[of e t1 t2 t3 t4 fd w])
    case (invalid st' wd' w1 status issue)
    from full[OF invalid(1-3)] show ?thesis ..
  next
    case (verify st' wd' w1 status v)
    from full[OF verify(1-3)] show ?thesis ..
  qed simp_all
qed


lemma status_reliable:
  "reliable e \<Longrightarrow> \<exists>status w'. getRegistrationStatus e t2 t3 w = (Inr status, w')"
  using manage_reliable[of e t2 w] unfolding status_unfold by auto

lemma register_closed_when_full_reliable:
  assumes "stateFile w = Some st" "registrationsFile w = Some wd"
    and "\<not> registrationWeekStart st < getRegistrationWeekStart (tzOffset e) t1"
    and "\<not> registrationWeekStart st < getRegistrationWeekStart (tzOffset e) t2"
    and "12 \<le> length (teams wd)" and "reliable e"
  shows "fst (registerTeam e t1 t2 t3 t4 fd w) = Failure Closed"
proof -
  from manage_reliable[OF assms(6)] obtain x w1 where "manageWeeklyState e t1 w = (Inr x, w1)"
    by blast
  then obtain st' wd' where m1: "manageWeeklyState e t1 w = (Inr (st', wd'), w1)" by (cases x) auto
  from status_reliable[OF assms(6)] obtain status w2
    where s: "getRegistrationStatus e t2 t3 w1 = (Inr status, w2)" by blast
  note a = manage_same_week[OF assms(1-3) m1]
  then obtain c where c: "stateFile w1 = Some (st\<lparr>registeredTeamsCount := c\<rparr>)" by blast
  have "\<not> registrationWeekStart (st\<lparr>registeredTeamsCount := c\<rparr>)
          < getRegistrationWeekStart (tzOffset e) t2"
    using assms(4) by simp
  from status_same_week[OF c _ this s] a assms(5) have "\<not> isOpen status" by auto
  then show ?thesis by (simp add: register_after_reads[OF m1 s])
qed

lemma slots_left: "registrationsFile w = Some wd \<Longrightarrow> length (teams wd) < 12 \<Longrightarrow> slotsLeftOnDisk w"
  by (simp add: slotsLeftOnDisk_def)

lemma verify_failure_world:
  "verifyAndSave e t st wd v w = (Inr (Failure r), w') \<Longrightarrow> w' = w"
  unfolding verifyAndSave_def Let_def
  by (auto simp: return_def dest: save_failure split: if_splits option.splits)

lemma verify_duplicate:
  assumes "team \<in> set (teams wd)" "duplicateOf e v team"
  shows "\<exists>r. verifyAndSave e t st wd v w = (Inr (Failure r), w)"
  using save_duplicate[OF assms, of t st w]
  unfolding verifyAndSave_def Let_def
  by (auto simp: return_def split: option.splits)

lemma verify_no_match:
  assumes "\<not> isUtrMatch (runAIVerification e (v_screenshot v) (v_utrNumber v))"
  shows "verifyAndSave e t st wd v w
     = (Inr (Failure (NotVerified (reason (runAIVerification e (v_screenshot v) (v_utrNumber v))))), w)"
  using assms unfolding verifyAndSave_def Let_def by (simp add: return_def)

lemma verify_no_date:
  assumes "isUtrMatch (runAIVerification e (v_screenshot v) (v_utrNumber v))"
    and "falsy (transactionDate (runAIVerification e (v_screenshot v) (v_utrNumber v)))"
  shows "verifyAndSave e t st wd v w = (Inr (Failure NoTransactionDate), w)"
  using assms unfolding verifyAndSave_def Let_def falsy_def
  by (simp add: return_def split: option.splits)

lemma verify_stale:
  assumes "isUtrMatch (runAIVerification e (v_screenshot v) (v_utrNumber v))"
    and "transactionDate (runAIVerification e (v_screenshot v) (v_utrNumber v)) = Some ds"
    and "ds \<noteq> []" and "dateBefore (dateParse e ds) (registrationWeekStart st)"
  shows "verifyAndSave e t st wd v w = (Inr (Failure PreviousWeek), w)"
  using assms unfolding verifyAndSave_def Let_def
  by (simp add: return_def)

lemma form_duplicate:
  assumes "safeParse e fd = Inr v"
    and "(\<exists>u. textField fd ''utrNumber'' = Some u
            \<and> toLowerCase (trim (utrNumber team)) = toLowerCase (trim u))
       \<or> (\<exists>m. textField fd ''contactEmail'' = Some m
            \<and> toLowerCase (trim (contactEmail team)) = toLowerCase (trim m))
       \<or> textField fd ''contactPhone'' = Some (contactPhone team)
       \<or> (\<exists>f. fileField fd ''screenshot'' = Some f \<and> screenshotHash team = sha256 e (file_bytes f))"
  shows "duplicateOf e v team"
  using assms(2) safeParse_fields[OF assms(1)] unfolding duplicateOf_def by auto

lemma runAI_throws:
  "verifyUtrFromScreenshot e f u = Inl x \<Longrightarrow>
     runAIVerification e f u =
       \<lparr>isUtrMatch = False,
        reason = Some ''AI verification service is currently unavailable. Please try again later.'',
        transactionDate = None\<rparr>"
  by (simp add: runAIVerification_def)

lemma runAI_verdict:
  "verifyUtrFromScreenshot e f u = Inr verdict \<Longrightarrow> runAIVerification e f u = verdict"
  by (simp add: runAIVerification_def)

text \<open>The outcome of a registration whose payment check ends in the rejection \<open>r\<close>.\<close>

lemma register_stopped_at_verification:
  assumes f: "fileField fd ''screenshot'' = Some f" and u: "textField fd ''utrNumber'' = Some u"
    and stop: "\<And>v t st wd w'. v_screenshot v = f \<Longrightarrow> v_utrNumber v = u \<Longrightarrow>
        getRegistrationWeekStart (tzOffset e) t1 \<le> registrationWeekStart st \<Longrightarrow>
        verifyAndSave e t st wd v w' = (Inr (Failure r), w')"
  shows "snd (registerTeam e t1 t2 t3 t4 fd w) = afterStatusCheck e t1 t2 t3 w
       \<and> (fst (registerTeam e t1 t2 t3 t4 fd w) = Failure r
          \<or> fst (registerTeam e t1 t2 t3 t4 fd w) = Failure Closed
          \<or> (\<exists>issue. fst (registerTeam e t1 t2 t3 t4 fd w) = Failure (Invalid issue))
          \<or> (\<exists>x. fst (registerTeam e t1 t2 t3 t4 fd w) = Failure (Unexpected x)))"
proof (cases rule: register_cases[of e t1 t2 t3 t4 fd w])
  case (verify st wd w1 status v)
  have "v_screenshot v = f" "v_utrNumber v = u"
    using safeParse_fields[OF verify(4)] f u by simp_all
  from stop[OF this manage_week_ge[OF verify(1)]] verify(5) show ?thesis by simp
qed simp_all

lemma sendWinnerEmail_fails:
  "winnerEmailThrows e teamData r \<Longrightarrow> \<exists>msg. sendWinnerEmail e teamData r w = (Inl (Error msg), w)"
  by (auto simp: winnerEmailThrows_def sendWinnerEmail_def)

lemma sendWinnerEmail_keeps:
  "sendWinnerEmail e teamData r w = (res, w') \<Longrightarrow>
     winnersFile w' = winnersFile w \<and> stateFile w' = stateFile w
     \<and> registrationsFile w' = registrationsFile w \<and> archiveFiles w' = archiveFiles w
     \<and> ioCount w' = ioCount w"
  by (auto simp: sendWinnerEmail_def split: if_splits)

lemma sendWinnerEmail_ok:
  "sendWinnerEmail e teamData r w = (Inr u, w') \<Longrightarrow> \<not> winnerEmailThrows e teamData r"
  by (auto simp: winnerEmailThrows_def sendWinnerEmail_def split: if_splits)

lemma process_unfold:
  assumes "manageWeeklyState e now w = (Inr (st, wd), w1)"
    and "sendWinnerEmail e a First w1 = (Inr (), w2)"
    and "sendWinnerEmail e b Second w2 = (Inr (), w3)"
  shows "processAndEmailWinners e now a b w =
     (if ioFails e (ioCount w3) then (Inl IOError, w3\<lparr>ioCount := Suc (ioCount w3)\<rparr>)
      else if ioFails e (Suc (ioCount w3)) then (Inl IOError, w3\<lparr>ioCount := Suc (Suc (ioCount w3))\<rparr>)
      else (Inr (),
            w3\<lparr>winnersFile := Some (\<lparr>weekStart = registrationWeekStart st,
                   winners = [\<lparr>winner_rank = First, winner_teamName = teamName a\<rparr>,
                              \<lparr>winner_rank = Second, winner_teamName = teamName b\<rparr>],
                   totalTeams = registeredTeamsCount st\<rparr>
                 # filter (\<lambda>x. weekStart x \<noteq> registrationWeekStart st) (historyOnDisk w3)),
               ioCount := Suc (Suc (ioCount w3))\<rparr>))"
  using assms
  by (simp add: processAndEmailWinners_def readWinnersHistory_def io_defs Let_def historyOnDisk_def)

lemma process_throws_keeps_winners:
  "winnersFile (snd (processAndEmailWinners e now a b w)) = winnersFile w
   \<or> (\<exists>u. fst (processAndEmailWinners e now a b w) = Inr u)"
proof (cases "manageWeeklyState e now w")
  case (Pair r1 w1)
  note k1 = manage_keeps[OF Pair]
  show ?thesis
  proof (cases r1)
    case (Inl x)
    with Pair k1 show ?thesis by (simp add: processAndEmailWinners_def await_def)
  next
    case (Inr x)
    obtain st wd where "x = (st, wd)" by (cases x)
    with Pair Inr have m: "manageWeeklyState e now w = (Inr (st, wd), w1)" by simp
    obtain r2 w2 where s1: "sendWinnerEmail e a First w1 = (r2, w2)" by (cases "sendWinnerEmail e a First w1")
    note k2 = sendWinnerEmail_keeps[OF s1]
    show ?thesis
    proof (cases r2)
      case (Inl y)
      with m s1 k1 k2 show ?thesis by (simp add: processAndEmailWinners_def await_def)
    next
      case (Inr u2)
      obtain r3 w3 where s2: "sendWinnerEmail e b Second w2 = (r3, w3)" by (cases "sendWinnerEmail e b Second w2")
      note k3 = sendWinnerEmail_keeps[OF s2]
      show ?thesis
      proof (cases r3)
        case (Inl y)
        with m s1 s2 Inr k1 k2 k3 show ?thesis by (simp add: processAndEmailWinners_def await_def)
      next
        case (Inr u3)
        with m s1 s2 \<open>r2 = Inr u2\<close> k1 k2 k3 show ?thesis
          by (simp add: process_unfold)
      qed
    qed
  qed
qed

lemma process_email_fails:
  assumes "winnerEmailThrows e a First \<or> winnerEmailThrows e b Second"
  shows "\<exists>x. fst (processAndEmailWinners e now a b w) = Inl x"
    and "manageWeeklyState e now w = (Inr (st, wd), w1) \<Longrightarrow>
           \<exists>msg. fst (processAndEmailWinners e now a b w) = Inl (Error msg)"
proof -
  have main: "(\<exists>x. manageWeeklyState e now w = (Inl x, snd (manageWeeklyState e now w))
                  \<and> fst (processAndEmailWinners e now a b w) = Inl x)
            \<or> (\<exists>msg. fst (processAndEmailWinners e now a b w) = Inl (Error msg))"
  proof (cases "manageWeeklyState e now w")
    case (Pair r1 w1)
    show ?thesis
    proof (cases r1)
      case (Inl x)
      with Pair show ?thesis by (simp add: processAndEmailWinners_def await_def)
    next
      case (Inr x)
      obtain st wd where "x = (st, wd)" by (cases x)
      with Pair Inr have m: "manageWeeklyState e now w = (Inr (st, wd), w1)" by simp
      show ?thesis
      proof (cases "winnerEmailThrows e a First")
        case True
        from sendWinnerEmail_fails[OF True, of w1] m show ?thesis
          by (auto simp: processAndEmailWinners_def await_def)
      next
        case False
        with assms have f2: "winnerEmailThrows e b Second" by simp
        obtain r2 w2 where s1: "sendWinnerEmail e a First w1 = (r2, w2)"
          by (cases "sendWinnerEmail e a First w1")
        from False s1 have "\<exists>msg. r2 = Inl (Error msg) \<or> r2 = Inr ()"
          by (auto simp: sendWinnerEmail_def split: if_splits)
        with sendWinnerEmail_fails[OF f2, of w2] m s1 show ?thesis
          by (auto simp: processAndEmailWinners_def await_def)
      qed
    qed
  qed
  from main show "\<exists>x. fst (processAndEmailWinners e now a b w) = Inl x" by auto
  from main show "\<exists>msg. fst (processAndEmailWinners e now a b w) = Inl (Error msg)"
    if "manageWeeklyState e now w = (Inr (st, wd), w1)"
    using that by auto
qed

lemma manage_week_eq:
  assumes "manageWeeklyState e now w = (Inr (st, wd), w')" "stateNotAhead e now w"
  shows "registrationWeekStart st = getRegistrationWeekStart (tzOffset e) now"
  using assms
  by (auto simp: manageWeeklyState_def io_defs Let_def stateNotAhead_def
      split: if_splits option.splits prod.splits sum.splits
      dest!: startWeek_returns archive_keeps)

lemma process_returns:
  assumes "fst (processAndEmailWinners e now a b w) = Inr u"
  obtains st wd w1 w3 where
    "manageWeeklyState e now w = (Inr (st, wd), w1)"
    "winnersFile w3 = winnersFile w"
    "processAndEmailWinners e now a b w =
       (Inr (),
        w3\<lparr>winnersFile := Some (\<lparr>weekStart = registrationWeekStart st,
               winners = [\<lparr>winner_rank = First, winner_teamName = teamName a\<rparr>,
                          \<lparr>winner_rank = Second, winner_teamName = teamName b\<rparr>],
               totalTeams = registeredTeamsCount st\<rparr>
             # filter (\<lambda>x. weekStart x \<noteq> registrationWeekStart st) (historyOnDisk w3)),
           ioCount := Suc (Suc (ioCount w3))\<rparr>)"
proof (cases "manageWeeklyState e now w")
  case (Pair r1 w1)
  note k1 = manage_keeps[OF Pair]
  show ?thesis
  proof (cases r1)
    case (Inl x)
    with Pair assms show ?thesis by (simp add: processAndEmailWinners_def await_def)
  next
    case (Inr x)
    obtain st wd where "x = (st, wd)" by (cases x)
    with Pair Inr have m: "manageWeeklyState e now w = (Inr (st, wd), w1)" by simp
    obtain r2 w2 where s1: "sendWinnerEmail e a First w1 = (r2, w2)" by (cases "sendWinnerEmail e a First w1")
    note k2 = sendWinnerEmail_keeps[OF s1]
    show ?thesis
    proof (cases r2)
      case (Inl y)
      with m s1 assms show ?thesis by (simp add: processAndEmailWinners_def await_def)
    next
      case (Inr u2)
      obtain r3 w3 where s2: "sendWinnerEmail e b Second w2 = (r3, w3)" by (cases "sendWinnerEmail e b Second w2")
      note k3 = sendWinnerEmail_keeps[OF s2]
      show ?thesis
      proof (cases r3)
        case (Inl y)
        with m s1 s2 Inr assms show ?thesis by (simp add: processAndEmailWinners_def await_def)
      next
        case (Inr u3)
        note unf = process_unfold[OF m s1[unfolded \<open>r2 = Inr u2\<close>, simplified] s2[unfolded Inr, simplified]]
        from assms have "\<not> ioFails e (ioCount w3)" "\<not> ioFails e (Suc (ioCount w3))"
          unfolding unf by (auto split: if_splits)
        with unf m k1 k2 k3 show ?thesis using that[of st wd w1 w3] by simp
      qed
    qed
  qed
qed

lemma startWeek_archive:
  "startWeek e c w = (r, w') \<Longrightarrow> archiveFiles w' = archiveFiles w"
  by (auto simp: startWeek_def io_defs Let_def split: if_splits)

lemma manage_missing:
  assumes "stateFile w = None \<or> registrationsFile w = None"
  shows "manageWeeklyState e now w =
     (if ioFails e (ioCount w) then (Inl IOError, w\<lparr>ioCount := Suc (ioCount w)\<rparr>)
      else if ioFails e (Suc (ioCount w)) then (Inl IOError, w\<lparr>ioCount := Suc (Suc (ioCount w))\<rparr>)
      else startWeek e (getRegistrationWeekStart (tzOffset e) now)
             (w\<lparr>ioCount := Suc (Suc (ioCount w))\<rparr>))"
  using assms
  by (auto simp: manageWeeklyState_def readJsonFile_def await_def Let_def split: option.splits)

lemma digit_in: "digit n \<in> set ''0123456789''"
proof -
  have "nat (n mod 10) < length ''0123456789''" by simp
  then show ?thesis unfolding digit_def by (rule nth_mem)
qed

lemma digit_not_T: "digit n \<noteq> CHR ''T''" "CHR ''T'' \<noteq> digit n"
  using digit_in[of n] by auto

lemma isoDate_no_T: "CHR ''T'' \<notin> set (isoDate t)"
  by (auto simp: isoDate_def isoYear_def pad2_def pad4_def pad6_def digit_not_T
      split: prod.splits)

lemma takeWhile_prefix: "c \<notin> set xs \<Longrightarrow> takeWhile (\<lambda>x. x \<noteq> c) (xs @ c # ys) = xs"
  by (induction xs) auto

lemma dateString_eq: "takeWhile (\<lambda>c. c \<noteq> CHR ''T'') (toISOString t) = isoDate t"
  unfolding toISOString_def Let_def
  using takeWhile_prefix[OF isoDate_no_T, of t] by simp

lemma archive_effect:
  "archiveWeeklyData e wd w =
     (Inr (),
      if teams wd = [] then w
      else if ioFails e (ioCount w) then w\<lparr>ioCount := Suc (ioCount w)\<rparr>
      else w\<lparr>archiveFiles := (archiveFiles w)
                 (archiveName (isoDate (weekly_registrationWeekStart wd)) \<mapsto> wd),
             ioCount := Suc (ioCount w)\<rparr>)"
  by (simp add: archiveWeeklyData_def dateString_eq writeJsonFile_def putArchive_def Let_def)

lemma manage_new_week:
  assumes "stateFile w = Some st" "registrationsFile w = Some wd"
    and "registrationWeekStart st < getRegistrationWeekStart (tzOffset e) now"
  shows "manageWeeklyState e now w =
     (if ioFails e (ioCount w) then (Inl IOError, w\<lparr>ioCount := Suc (ioCount w)\<rparr>)
      else if ioFails e (Suc (ioCount w)) then (Inl IOError, w\<lparr>ioCount := Suc (Suc (ioCount w))\<rparr>)
      else startWeek e (getRegistrationWeekStart (tzOffset e) now)
             (snd (archiveWeeklyData e wd (w\<lparr>ioCount := Suc (Suc (ioCount w))\<rparr>))))"
  using assms
  by (simp add: manageWeeklyState_def readJsonFile_def await_def Let_def archive_effect)

lemma isoDate_days: "t div 86400000 = t' div 86400000 \<Longrightarrow> isoDate t = isoDate t'"
  by (simp add: isoDate_def)

lemma weekStart_utc_day:
  assumes "- 1440 < tz" "tz \<le> 1440"
  shows "getRegistrationWeekStart tz t0 div 86400000
       = (localMs tz (getRegistrationWeekStart tz t0) - (if 0 < tz then 86400000 else 0))
           div 86400000"
proof -
  define k where "k = localMs tz t0 div 86400000 - (localMs tz t0 div 86400000 + 3) mod 7"
  have l: "localMs tz (getRegistrationWeekStart tz t0) = k * 86400000"
    unfolding k_def by (rule weekStart_local)
  have w: "getRegistrationWeekStart tz t0 = k * 86400000 - tz * 60000"
    unfolding k_def by (rule weekStart_eq)
  show ?thesis
  proof (cases "0 < tz")
    case True
    have "k * 86400000 - tz * 60000 = (86400000 - tz * 60000) + (k - 1) * 86400000"
      by (simp add: algebra_simps)
    then have "(k * 86400000 - tz * 60000) div 86400000
         = (86400000 - tz * 60000) div 86400000 + (k - 1)"
      by simp
    moreover have "(86400000 - tz * 60000) div 86400000 = 0"
      using True assms by (simp add: div_pos_pos_trivial)
    ultimately have a: "getRegistrationWeekStart tz t0 div 86400000 = k - 1"
      by (simp add: w)
    have "k * 86400000 - 86400000 = 0 + (k - 1) * 86400000" by (simp add: algebra_simps)
    then have "(k * 86400000 - 86400000) div 86400000 = k - 1" by simp
    then have b: "(localMs tz (getRegistrationWeekStart tz t0) - 86400000) div 86400000 = k - 1"
      by (simp only: l)
    from a b True show ?thesis by simp
  next
    case False
    have "k * 86400000 - tz * 60000 = (- tz * 60000) + k * 86400000" by simp
    then have "(k * 86400000 - tz * 60000) div 86400000 = (- tz * 60000) div 86400000 + k"
      by simp
    moreover have "(- tz * 60000) div 86400000 = 0"
      using False assms by (simp add: div_pos_pos_trivial)
    ultimately have a: "getRegistrationWeekStart tz t0 div 86400000 = k"
      by (simp add: w)
    have b: "localMs tz (getRegistrationWeekStart tz t0) div 86400000 = k"
      by (simp add: l)
    from a b False show ?thesis by simp
  qed
qed


lemma startWeek_unfold:
  "startWeek e c w =
     (if ioFails e (ioCount w) then (Inl IOError, w\<lparr>ioCount := Suc (ioCount w)\<rparr>)
      else if ioFails e (Suc (ioCount w))
      then (Inl IOError,
            w\<lparr>stateFile := Some \<lparr>registrationWeekStart = c, registeredTeamsCount = 0\<rparr>,
              ioCount := Suc (Suc (ioCount w))\<rparr>)
      else (Inr (\<lparr>registrationWeekStart = c, registeredTeamsCount = 0\<rparr>,
                 \<lparr>weekly_registrationWeekStart = c, teams = []\<rparr>),
            w\<lparr>stateFile := Some \<lparr>registrationWeekStart = c, registeredTeamsCount = 0\<rparr>,
              registrationsFile := Some \<lparr>weekly_registrationWeekStart = c, teams = []\<rparr>,
              ioCount := Suc (Suc (ioCount w))\<rparr>))"
  by (simp add: startWeek_def io_defs Let_def)

lemma save_reliable_sync:
  assumes "reliable e" "counterInSync w"
  shows "\<exists>r w'. saveRegistration e t st wd v w = (Inr r, w') \<and> counterInSync w'"
proof -
  from save_reliable[OF assms(1), of t st wd v w] obtain r w'
    where s: "saveRegistration e t st wd v w = (Inr r, w')" by blast
  show ?thesis
  proof (cases r)
    case (Success d)
    with s save_success[of e t st wd v w d w'] show ?thesis by (simp add: counterInSync_def)
  next
    case (Failure x)
    with s save_failure[of e t st wd v w x w'] assms(2) show ?thesis by simp
  qed
qed

lemma verify_reliable_sync:
  assumes "reliable e" "counterInSync w"
  shows "\<exists>r w'. verifyAndSave e t st wd v w = (Inr r, w') \<and> counterInSync w'"
  using save_reliable_sync[OF assms, of t st wd v] assms(2)
  unfolding verifyAndSave_def Let_def
  by (auto simp: return_def split: option.splits)

lemma manage_sync:
  "manageWeeklyState e now w = (Inr x, w') \<Longrightarrow> counterInSync w'"
  using manage_returns[of e now w "fst x" "snd x" w'] by (simp add: counterInSync_def)

lemma status_sync:
  "getRegistrationStatus e t2 t3 w = (Inr x, w') \<Longrightarrow> counterInSync w'"
  unfolding status_unfold by (auto split: prod.splits sum.splits dest: manage_sync)

lemma verify_sync:
  assumes "verifyAndSave e t st wd v w = (Inr r, w')" "counterInSync w"
  shows "counterInSync w'"
proof (cases r)
  case (Success d)
  with assms(1) have "saveRegistration e t st wd v w = (Inr (Success d), w')"
    unfolding verifyAndSave_def Let_def by (auto simp: return_def split: if_splits option.splits)
  from save_success[OF this] show ?thesis by (simp add: counterInSync_def)
next
  case (Failure x)
  with assms verify_failure_world[of e t st wd v w x w'] show ?thesis by simp
qed

lemma register_sync:
  assumes "\<And>x. fst (registerTeam e t1 t2 t3 t4 fd w) \<noteq> Failure (Unexpected x)"
  shows "counterInSync (snd (registerTeam e t1 t2 t3 t4 fd w))"
proof (cases "manageWeeklyState e t1 w")
  case (Pair r1 w1)
  show ?thesis
  proof (cases r1)
    case (Inl x)
    with Pair assms[of x] show ?thesis by (simp add: register_read1_throws)
  next
    case (Inr x)
    obtain st wd where x: "x = (st, wd)" by (cases x)
    with Pair Inr have m1: "manageWeeklyState e t1 w = (Inr (st, wd), w1)" by simp
    show ?thesis
    proof (cases "getRegistrationStatus e t2 t3 w1")
      case (Pair r2 w2)
      show ?thesis
      proof (cases r2)
        case (Inl y)
        with Pair m1 assms[of y] show ?thesis by (simp add: register_read2_throws)
      next
        case (Inr status)
        with Pair have s: "getRegistrationStatus e t2 t3 w1 = (Inr status, w2)" by simp
        note sync2 = status_sync[OF s]
        note unf = register_after_reads(1)[OF m1 s, of t4 fd]
        show ?thesis
        proof (cases "isOpen status")
          case False
          then show ?thesis using sync2 by (simp add: unf)
        next
          case op: True
          show ?thesis
          proof (cases "safeParse e fd")
            case (Inl issue)
            with op show ?thesis using sync2 by (simp add: unf)
          next
            case (Inr v)
            obtain r3 w3 where v: "verifyAndSave e t4 st wd v w2 = (r3, w3)"
              by (cases "verifyAndSave e t4 st wd v w2")
            show ?thesis
            proof (cases r3)
              case (Inl z)
              with v op Inr assms[of z] show ?thesis by (simp add: unf)
            next
              case r: (Inr res)
              with v verify_sync[of e t4 st wd v w2 res w3] sync2 op Inr
              show ?thesis by (simp add: unf)
            qed
          qed
        qed
      qed
    qed
  qed
qed

lemma save_not_unexpected:
  "saveRegistration e t st wd v w = (Inr r, w') \<Longrightarrow> r \<noteq> Failure (Unexpected x)"
  unfolding saveRegistration_def Let_def
  by (auto simp: io_defs split: if_splits)

lemma verify_not_unexpected:
  "verifyAndSave e t st wd v w = (Inr r, w') \<Longrightarrow> r \<noteq> Failure (Unexpected x)"
  unfolding verifyAndSave_def Let_def
  by (auto simp: return_def dest: save_not_unexpected split: if_splits option.splits)

lemma register_reliable:
  assumes "reliable e"
  shows "fst (registerTeam e t1 t2 t3 t4 fd w) \<noteq> Failure (Unexpected x)"
proof -
  from manage_reliable[OF assms, of t1 w] obtain y w1
    where "manageWeeklyState e t1 w = (Inr y, w1)" by blast
  then obtain st wd where m1: "manageWeeklyState e t1 w = (Inr (st, wd), w1)" by (cases y) auto
  from status_reliable[OF assms, of t2 t3 w1] obtain status w2
    where s: "getRegistrationStatus e t2 t3 w1 = (Inr status, w2)" by blast
  note unf = register_after_reads(1)[OF m1 s, of t4 fd]
  show ?thesis
  proof (cases "isOpen status")
    case False
    then show ?thesis by (simp add: unf)
  next
    case op: True
    show ?thesis
    proof (cases "safeParse e fd")
      case (Inl issue)
      with op show ?thesis by (simp add: unf)
    next
      case (Inr v)
      from verify_reliable_sync[OF assms status_sync[OF s], of t4 st wd v] obtain r w'
        where v: "verifyAndSave e t4 st wd v w2 = (Inr r, w')" by blast
      with op Inr verify_not_unexpected[OF v, of x] show ?thesis by (simp add: unf)
    qed
  qed
qed

lemma process_keeps_state:
  assumes "manageWeeklyState e now w = (Inr x, w1)"
  shows "stateFile (snd (processAndEmailWinners e now a b w)) = stateFile w1
       \<and> registrationsFile (snd (processAndEmailWinners e now a b w)) = registrationsFile w1"
  using assms
  by (auto simp: processAndEmailWinners_def readWinnersHistory_def sendWinnerEmail_def io_defs Let_def
      split: prod.splits sum.splits if_splits)

lemma perform_sync:
  assumes "reliable e"
  shows "counterInSync (perform e a w)"
proof (cases a)
  case (GetRegistrationStatus t1 t2)
  from status_reliable[OF assms, of t1 t2 w] show ?thesis
    unfolding GetRegistrationStatus by (auto dest: status_sync)
next
  case (RegisterTeam t1 t2 t3 t4 fd)
  show ?thesis unfolding RegisterTeam
    using register_sync[of e t1 t2 t3 t4 fd w] register_reliable[OF assms] by simp
next
  case (GetWeeklyRegistrations t)
  from manage_reliable[OF assms, of t w] show ?thesis
    unfolding GetWeeklyRegistrations
    by (auto simp: getWeeklyRegistrations_def await_def return_def dest: manage_sync split: prod.splits)
next
  case (GetWeeklyRegistrationsForAdmin t)
  from manage_reliable[OF assms, of t w] show ?thesis
    unfolding GetWeeklyRegistrationsForAdmin
    by (auto simp: getWeeklyRegistrationsForAdmin_def await_def return_def dest: manage_sync
        split: prod.splits)
next
  case (ProcessAndEmailWinners t x y)
  from manage_reliable[OF assms, of t w] obtain r w1
    where m: "manageWeeklyState e t w = (Inr r, w1)" by blast
  from process_keeps_state[OF m, of x y] manage_sync[OF m] show ?thesis
    unfolding ProcessAndEmailWinners by (auto simp: counterInSync_def split: option.splits)
qed

lemma performAll_sync:
  assumes "reliable e"
  shows "as \<noteq> [] \<Longrightarrow> counterInSync (performAll e as w)"
proof (induction as arbitrary: w)
  case Nil
  then show ?case by simp
next
  case (Cons a as)
  show ?case
  proof (cases as)
    case Nil
    then show ?thesis using perform_sync[OF assms, of a w] by simp
  next
    case (Cons b bs)
    then have "as \<noteq> []" by simp
    from Cons.IH[OF this, of "perform e a w"] show ?thesis by simp
  qed
qed

text \<open>
  A winner mail whose sending throws: \<open>processAndEmailWinners\<close> throws, and the winners
  file is what it was before the call.
\<close>

lemma winner_email_throw_propagates:
  assumes "winnerEmailThrows e firstPlaceTeam First \<or> winnerEmailThrows e secondPlaceTeam Second"
  shows "(\<exists>x. fst (processAndEmailWinners e now firstPlaceTeam secondPlaceTeam w) = Inl x)
       \<and> winnersFile (snd (processAndEmailWinners e now firstPlaceTeam secondPlaceTeam w))
           = winnersFile w
       \<and> ((\<exists>x. fst (manageWeeklyState e now w) = Inr x) \<longrightarrow>
            (\<exists>msg. fst (processAndEmailWinners e now firstPlaceTeam secondPlaceTeam w)
                      = Inl (Error msg)))"
proof -
  note f = process_email_fails[OF assms, of now w]
  have "\<exists>msg. fst (processAndEmailWinners e now firstPlaceTeam secondPlaceTeam w) = Inl (Error msg)"
    if "\<exists>x. fst (manageWeeklyState e now w) = Inr x"
  proof -
    from that obtain st wd where "manageWeeklyState e now w = (Inr (st, wd), snd (manageWeeklyState e now w))"
      by (cases "manageWeeklyState e now w") auto
    then show ?thesis by (rule f(2))
  qed
  then show ?thesis
    using f(1) process_throws_keeps_winners[of e now firstPlaceTeam secondPlaceTeam w] by auto
qed

lemma safeParse_same_library:
  assumes "isEmail e = isEmail e'" "toNumber e = toNumber e'" "zodFirstIssue e = zodFirstIssue e'"
  shows "safeParse e fd = safeParse e' fd"
proof -
  have "playerSchema e = playerSchema e'"
    by (rule ext)+ (simp add: playerSchema_def coerceNumber_def assms(2)
        split: option.splits formEntry.splits)
  then show ?thesis
    by (simp add: safeParse_def registrationSchema_def assms split: option.splits)
qed


lemma register_not_verified:
  assumes "fileField fd ''screenshot'' = Some f" "textField fd ''utrNumber'' = Some u"
    and "manageWeeklyState e t1 w = (Inr (st, wd), w1)"
    and "getRegistrationStatus e t2 t3 w1 = (Inr status, w2)"
    and "isOpen status" "safeParse e fd = Inr v"
    and "\<not> isUtrMatch (runAIVerification e f u)"
  shows "registerTeam e t1 t2 t3 t4 fd w
     = (Failure (NotVerified (reason (runAIVerification e f u))), w2)"
proof -
  have "v_screenshot v = f" "v_utrNumber v = u"
    using safeParse_fields[OF assms(6)] assms(1,2) by simp_all
  then show ?thesis
    using assms(5-7) verify_no_match[of e v t4 st wd w2]
    by (simp add: register_after_reads(1)[OF assms(3,4)])
qed


lemma weekStart_date_west:
  assumes "- 1440 < tz" "tz \<le> 0"
  shows "isoDate (getRegistrationWeekStart tz t0) = localDate tz (getRegistrationWeekStart tz t0)"
  unfolding localDate_def
  using weekStart_utc_day[of tz t0] assms by (intro isoDate_days) simp


lemma no_duplicate_checks:
  assumes "\<forall>team \<in> set (teams wd). \<not> duplicateOf e v team"
  shows "\<not> list_ex (\<lambda>team. toLowerCase (trim (utrNumber team)) = toLowerCase (trim (v_utrNumber v)))
              (teams wd)"
    and "\<not> list_ex (\<lambda>team. toLowerCase (trim (contactEmail team))
                                    = toLowerCase (trim (v_contactEmail v))) (teams wd)"
    and "\<not> list_ex (\<lambda>team. trim (contactPhone team) = trim (v_contactPhone v)) (teams wd)"
    and "\<not> list_ex (\<lambda>team. screenshotHash team = sha256 e (file_bytes (v_screenshot v))) (teams wd)"
  using assms unfolding duplicateOf_def list_ex_iff by blast+

lemma save_writes_both:
  assumes "\<forall>team \<in> set (teams wd). \<not> duplicateOf e v team"
    and "\<not> ioFails e (ioCount w)" "\<not> ioFails e (Suc (ioCount w))"
  shows "fst (saveRegistration e t st wd v w) = Inr (Success (registrationRecord e t v))"
  using assms(2,3) no_duplicate_checks[OF assms(1)]
  unfolding saveRegistration_def Let_def registrationRecord_def
  by (simp add: io_defs)

lemma save_second_write_fails:
  assumes "\<forall>team \<in> set (teams wd). \<not> duplicateOf e v team"
    and "\<not> ioFails e (ioCount w)" "ioFails e (Suc (ioCount w))"
  shows "saveRegistration e t st wd v w
     = (Inl IOError,
        w\<lparr>registrationsFile := Some (wd\<lparr>teams := teams wd @ [registrationRecord e t v]\<rparr>),
          ioCount := Suc (Suc (ioCount w))\<rparr>)"
  using assms(2,3) no_duplicate_checks[OF assms(1)]
  unfolding saveRegistration_def Let_def registrationRecord_def
  by (simp add: io_defs putRegistrations_def)

lemma save_success_record:
  "saveRegistration e t st wd v w = (Inr (Success d), w') \<Longrightarrow> d = registrationRecord e t v"
  unfolding saveRegistration_def Let_def registrationRecord_def
  by (auto simp: io_defs split: if_splits)

lemma verify_passes:
  "passesPaymentChecks e st v \<Longrightarrow> verifyAndSave e t st wd v w = saveRegistration e t st wd v w"
  unfolding passesPaymentChecks_def verifyAndSave_def Let_def
  by (auto split: option.splits)

lemma verify_success:
  "verifyAndSave e t st wd v w = (Inr (Success d), w') \<Longrightarrow>
     saveRegistration e t st wd v w = (Inr (Success d), w')"
  unfolding verifyAndSave_def Let_def
  by (auto simp: return_def split: if_splits option.splits)

lemma register_success:
  assumes "manageWeeklyState e t1 w = (Inr (st, wd), w1)"
    and "fst (registerTeam e t1 t2 t3 t4 fd w) = Success d"
  shows "registrationsFile (snd (registerTeam e t1 t2 t3 t4 fd w))
            = Some (wd\<lparr>teams := teams wd @ [d]\<rparr>)"
    and "stateFile (snd (registerTeam e t1 t2 t3 t4 fd w))
            = Some (st\<lparr>registeredTeamsCount := int (length (teams wd @ [d]))\<rparr>)"
    and "\<exists>v. safeParse e fd = Inr v \<and> d = registrationRecord e t4 v"
proof -
  have "registrationsFile (snd (registerTeam e t1 t2 t3 t4 fd w))
            = Some (wd\<lparr>teams := teams wd @ [d]\<rparr>)
     \<and> stateFile (snd (registerTeam e t1 t2 t3 t4 fd w))
            = Some (st\<lparr>registeredTeamsCount := int (length (teams wd @ [d]))\<rparr>)
     \<and> (\<exists>v. safeParse e fd = Inr v \<and> d = registrationRecord e t4 v)"
  proof (cases rule: register_cases[of e t1 t2 t3 t4 fd w])
    case (verify st' wd' w1' status v)
    from verify(1) assms(1) have eq: "st' = st" "wd' = wd" by simp_all
    obtain r w3 where vs: "verifyAndSave e t4 st wd v (afterStatusCheck e t1 t2 t3 w) = (r, w3)"
      by (cases "verifyAndSave e t4 st wd v (afterStatusCheck e t1 t2 t3 w)")
    from verify(5) assms(2) vs eq have r: "r = Inr (Success d)"
      and w3: "snd (registerTeam e t1 t2 t3 t4 fd w) = w3"
      by (cases r; simp)+
    from verify_success[OF vs[unfolded r]] have
      s: "saveRegistration e t4 st wd v (afterStatusCheck e t1 t2 t3 w) = (Inr (Success d), w3)" .
    from save_success[OF s] save_success_record[OF s] verify(4) w3 show ?thesis by simp
  qed (use assms(2) in simp_all)
  then show "registrationsFile (snd (registerTeam e t1 t2 t3 t4 fd w))
            = Some (wd\<lparr>teams := teams wd @ [d]\<rparr>)"
    and "stateFile (snd (registerTeam e t1 t2 t3 t4 fd w))
            = Some (st\<lparr>registeredTeamsCount := int (length (teams wd @ [d]))\<rparr>)"
    and "\<exists>v. safeParse e fd = Inr v \<and> d = registrationRecord e t4 v"
    by blast+
qed

lemma register_saves:
  assumes "manageWeeklyState e t1 w = (Inr (st, wd), w1)"
    and "getRegistrationStatus e t2 t3 w1 = (Inr status, w2)"
    and "isOpen status" "safeParse e fd = Inr v" "passesPaymentChecks e st v"
  shows "registerTeam e t1 t2 t3 t4 fd w
     = (case saveRegistration e t4 st wd v w2 of
          (Inl err, w3) \<Rightarrow> (Failure (Unexpected err), w3)
        | (Inr r, w3) \<Rightarrow> (r, w3))"
  using assms(3-5) by (simp add: register_after_reads(1)[OF assms(1,2)] verify_passes)

lemma register_succeeds:
  assumes "manageWeeklyState e t1 w = (Inr (st, wd), w1)"
    and "getRegistrationStatus e t2 t3 w1 = (Inr status, w2)"
    and "isOpen status" "safeParse e fd = Inr v" "passesPaymentChecks e st v"
    and "\<forall>team \<in> set (teams wd). \<not> duplicateOf e v team"
    and "\<not> ioFails e (ioCount w2)" "\<not> ioFails e (Suc (ioCount w2))"
  shows "fst (registerTeam e t1 t2 t3 t4 fd w) = Success (registrationRecord e t4 v)"
  using save_writes_both[OF assms(6-8), of t4 st]
  unfolding register_saves[OF assms(1-5)]
  by (cases "saveRegistration e t4 st wd v w2") auto

lemma register_second_write_fails:
  assumes "manageWeeklyState e t1 w = (Inr (st, wd), w1)"
    and "getRegistrationStatus e t2 t3 w1 = (Inr status, w2)"
    and "isOpen status" "safeParse e fd = Inr v" "passesPaymentChecks e st v"
    and "\<forall>team \<in> set (teams wd). \<not> duplicateOf e v team"
    and "\<not> ioFails e (ioCount w2)" "ioFails e (Suc (ioCount w2))"
  shows "registerTeam e t1 t2 t3 t4 fd w
     = (Failure (Unexpected IOError),
        w2\<lparr>registrationsFile := Some (wd\<lparr>teams := teams wd @ [registrationRecord e t4 v]\<rparr>),
           ioCount := Suc (Suc (ioCount w2))\<rparr>)"
  unfolding register_saves[OF assms(1-5)]
  by (simp add: save_second_write_fails[OF assms(6-8)])

lemma status_keeps_state:
  assumes "manageWeeklyState e t1 w = (Inr (st, wd), w1)"
    and "getRegistrationStatus e t2 t3 w1 = (Inr status, w2)"
    and "\<not> registrationWeekStart st < getRegistrationWeekStart (tzOffset e) t2"
  shows "stateFile w2 = Some st" "registeredTeamsCount st = int (length (teams wd))"
proof -
  note a = manage_returns[OF assms(1)]
  obtain x w2' where m2: "manageWeeklyState e t2 w1 = (Inr x, w2')" and w2: "w2' = w2"
    using assms(2) unfolding status_unfold by (auto split: prod.splits sum.splits)
  from manage_same_week[OF _ _ assms(3) m2] a
  have x: "x = (st\<lparr>registeredTeamsCount := int (length (teams wd))\<rparr>, wd)" by simp
  from a have "st\<lparr>registeredTeamsCount := int (length (teams wd))\<rparr> = st" by simp
  with x manage_returns[of e t2 w1 st wd w2'] m2 w2 show "stateFile w2 = Some st" by simp
  from a show "registeredTeamsCount st = int (length (teams wd))" by simp
qed

lemma manage_returns_same_week:
  assumes "stateFile w = Some st0" "registrationsFile w = Some wd0"
    and "\<not> registrationWeekStart st0 < getRegistrationWeekStart (tzOffset e) now"
    and "\<not> ioFails e (ioCount w)" "\<not> ioFails e (ioCount w + 1)" "\<not> ioFails e (ioCount w + 2)"
  shows "\<exists>x. fst (manageWeeklyState e now w) = Inr x"
  using assms by (simp add: manageWeeklyState_def io_defs Let_def)

section \<open>Evaluation of the example data\<close>

lemma example_tz: "tzOffset exampleEnv = 330"
  by (simp add: exampleEnv_def)

lemma example_weekStart:
  "getRegistrationWeekStart 330 1704652200000 = 1704652200000"
  "getRegistrationWeekStart 330 1704654000000 = 1704652200000"
  "getRegistrationWeekStart 330 1704868200000 = 1704652200000"
  by (simp_all add: weekStart_eq localMs_def)

lemma example_reliable: "reliable exampleEnv"
  by (simp add: reliable_def exampleEnv_def)

lemma example_window: "isRegistrationWindowOpen 330 1704868200000"
  by (simp add: window_open_iff example_weekStart)

lemma example_manage:
  "manageWeeklyState exampleEnv 1704868200000 ((exampleWorld ts)\<lparr>ioCount := n\<rparr>)
     = (Inr (\<lparr>registrationWeekStart = 1704652200000, registeredTeamsCount = int (length ts)\<rparr>,
             \<lparr>weekly_registrationWeekStart = 1704652200000, teams = ts\<rparr>),
        (exampleWorld ts)\<lparr>ioCount := Suc (Suc n)\<rparr>)"
  by (simp add: manageWeeklyState_def io_defs exampleWorld_def example_tz example_weekStart)
     (simp add: exampleEnv_def)

lemma example_parse:
  "safeParse exampleEnv (exampleForm ''02'')
     = Inr \<lparr>v_teamName = ''Team 02'',
            v_players = [\<lparr>player_id = ''p0'', level = 40\<rparr>, \<lparr>player_id = ''p1'', level = 40\<rparr>,
                         \<lparr>player_id = ''p2'', level = 40\<rparr>, \<lparr>player_id = ''p3'', level = 40\<rparr>],
            v_contactEmail = ''02@example.org'', v_contactPhone = ''9876543202'',
            v_utrNumber = ''UTR0002'',
            v_screenshot = \<lparr>file_bytes = ''shot02'', file_type = ''image/png''\<rparr>\<rparr>"
  by (simp add: safeParse_def registrationSchema_def screenshotSchema_def playerSchema_def
      textField_def fileField_def coerceNumber_def exampleForm_def exampleEnv_def lengthWithin_def
      isPhone_def file_size_def MAX_FILE_SIZE_def ACCEPTED_IMAGE_TYPES_def)

lemma example_form_fields:
  "textField (exampleForm tag) ''utrNumber'' = Some (''UTR00'' @ tag)"
  "fileField (exampleForm tag) ''screenshot''
     = Some \<lparr>file_bytes = ''shot'' @ tag, file_type = ''image/png''\<rparr>"
  "textField exampleReusedScreenshot ''utrNumber'' = Some ''UTR0002''"
  "fileField exampleReusedScreenshot ''screenshot''
     = Some \<lparr>file_bytes = ''shot01'', file_type = ''image/png''\<rparr>"
  by (simp_all add: textField_def fileField_def exampleForm_def exampleReusedScreenshot_def)

lemma example_env_variants:
  "tzOffset offlineEnv = 330" "tzOffset mismatchEnv = 330"
  "tzOffset noDateEnv = 330" "tzOffset staleEnv = 330"
  "verifyUtrFromScreenshot offlineEnv f u = Inl (Error ''fetch failed'')"
  "verifyUtrFromScreenshot mismatchEnv f u
     = Inr \<lparr>isUtrMatch = False, reason = Some ''UTR not found in the screenshot'',
            transactionDate = None\<rparr>"
  "verifyUtrFromScreenshot noDateEnv f u
     = Inr \<lparr>isUtrMatch = True, reason = None, transactionDate = None\<rparr>"
  "verifyUtrFromScreenshot staleEnv f u
     = Inr \<lparr>isUtrMatch = True, reason = None, transactionDate = Some ''2024-01-05''\<rparr>"
  "dateParse staleEnv ''2024-01-05'' = Some 1704412800000"
  by (simp_all add: offlineEnv_def mismatchEnv_def noDateEnv_def staleEnv_def exampleEnv_def)

lemma example_process:
  "fst (processAndEmailWinners exampleEnv 1704868200000 (exampleTeam ''01'') (exampleTeam ''02'')
         exampleWinnersWorld) = Inr ()"
  by (simp add: processAndEmailWinners_def readWinnersHistory_def sendWinnerEmail_def
      manageWeeklyState_def io_defs exampleWinnersWorld_def exampleWorld_def example_tz
      example_weekStart falsy_def)
     (simp add: exampleEnv_def)

lemma example_notAhead: "stateNotAhead exampleEnv 1704868200000 exampleWinnersWorld"
  by (simp add: stateNotAhead_def exampleWinnersWorld_def exampleWorld_def example_tz example_weekStart)

lemma example_next_week:
  "getRegistrationWeekStart 330 1705473000000 = 1705257000000"
  by (simp add: weekStart_eq localMs_def)

lemma example_dates:
  "isoDate 1704652200000 = ''2024-01-07''"
  "isoDate (localMs 330 1704652200000) = ''2024-01-08''"
  "getDay 330 1704652200000 = 1"
  by code_simp+

lemma example_roster3: "length (exampleRoster 3) = 3" "exampleRoster 3 \<noteq> []"
  by (simp_all add: exampleRoster_def)

lemma example_faults:
  "ioFails exampleEnv n = False"
  "ioFails utcEnv n = False"
  "ioFails utcArchiveFailsEnv n = (n = 2)"
  "tzOffset utcEnv = 0"
  "tzOffset utcArchiveFailsEnv = 0"
  by (simp_all add: exampleEnv_def utcEnv_def utcArchiveFailsEnv_def)

lemma example_normalised:
  "toLowerCase (trim ''UTR0001'') \<noteq> toLowerCase (trim ''UTR0002'')"
  "toLowerCase (trim ''01@example.org'') \<noteq> toLowerCase (trim ''02@example.org'')"
  "trim ''9876543201'' \<noteq> trim ''9876543202''"
  by code_simp+

lemma playerSchema_ioFails: "playerSchema (e\<lparr>ioFails := f\<rparr>) = playerSchema e"
  by (rule ext)+ (simp add: playerSchema_def coerceNumber_def split: option.splits formEntry.splits)

lemma safeParse_ioFails: "safeParse (e\<lparr>ioFails := f\<rparr>) fd = safeParse e fd"
  by (simp add: safeParse_def registrationSchema_def playerSchema_ioFails split: option.splits)

lemma example_sixth:
  "tzOffset sixthWriteFailsEnv = 330"
  "ioFails sixthWriteFailsEnv n = (n = 5)"
  "safeParse sixthWriteFailsEnv fd = safeParse exampleEnv fd"
  "verifyUtrFromScreenshot sixthWriteFailsEnv f u = Inr exampleVerdict"
  "dateParse sixthWriteFailsEnv ''2024-01-10'' = Some 1704844800000"
  "sha256 sixthWriteFailsEnv bytes = ''h:'' @ bytes"
  "uploadFileToStorage sixthWriteFailsEnv f p = Inr ''https://storage.example.org/shot''"
  by (simp_all add: sixthWriteFailsEnv_def safeParse_ioFails) (simp_all add: exampleEnv_def)

lemma example_register_fails_late:
  "registerTeam sixthWriteFailsEnv 1704868200000 1704868200000 1704868200000 1704868200000
      (exampleForm ''02'') (exampleWorld (exampleRoster 1))
   = (Failure (Unexpected IOError),
      (exampleWorld (exampleRoster 1))
        \<lparr>registrationsFile := Some \<lparr>weekly_registrationWeekStart = 1704652200000,
            teams = exampleRoster 1 @
              [\<lparr>teamName = ''Team 02'',
                players = [\<lparr>player_id = ''p0'', level = 40\<rparr>, \<lparr>player_id = ''p1'', level = 40\<rparr>,
                           \<lparr>player_id = ''p2'', level = 40\<rparr>, \<lparr>player_id = ''p3'', level = 40\<rparr>],
                contactEmail = ''02@example.org'', contactPhone = ''9876543202'',
                utrNumber = ''UTR0002'', screenshotHash = ''h:shot02'',
                registrationTime = 1704868200000\<rparr>]\<rparr>,
         ioCount := 6\<rparr>)"
proof -
  have m: "manageWeeklyState sixthWriteFailsEnv 1704868200000 ((exampleWorld ts)\<lparr>ioCount := n\<rparr>)
     = (Inr (\<lparr>registrationWeekStart = 1704652200000, registeredTeamsCount = int (length ts)\<rparr>,
             \<lparr>weekly_registrationWeekStart = 1704652200000, teams = ts\<rparr>),
        (exampleWorld ts)\<lparr>ioCount := Suc (Suc n)\<rparr>)" if "n < 4" for ts n
    using that
    by (simp add: manageWeeklyState_def io_defs exampleWorld_def example_sixth example_weekStart)
  have m1: "manageWeeklyState sixthWriteFailsEnv 1704868200000 (exampleWorld ts)
     = (Inr (\<lparr>registrationWeekStart = 1704652200000, registeredTeamsCount = int (length ts)\<rparr>,
             \<lparr>weekly_registrationWeekStart = 1704652200000, teams = ts\<rparr>),
        (exampleWorld ts)\<lparr>ioCount := 2\<rparr>)" for ts
    using m[of 0 ts] by (simp add: exampleWorld_def)
  have s: "getRegistrationStatus sixthWriteFailsEnv 1704868200000 1704868200000
        ((exampleWorld (exampleRoster 1))\<lparr>ioCount := 2\<rparr>)
     = (Inr \<lparr>slotsFilled = 1, totalSlots = 12, isOpen = True, status_weekStart = 1704652200000\<rparr>,
        (exampleWorld (exampleRoster 1))\<lparr>ioCount := 4\<rparr>)"
    using m[of 2 "exampleRoster 1"]
    by (simp add: status_unfold example_sixth example_window exampleRoster_def)
  have v: "verifyAndSave sixthWriteFailsEnv 1704868200000
        \<lparr>registrationWeekStart = 1704652200000, registeredTeamsCount = 1\<rparr>
        \<lparr>weekly_registrationWeekStart = 1704652200000, teams = exampleRoster 1\<rparr>
        \<lparr>v_teamName = ''Team 02'',
            v_players = [\<lparr>player_id = ''p0'', level = 40\<rparr>, \<lparr>player_id = ''p1'', level = 40\<rparr>,
                         \<lparr>player_id = ''p2'', level = 40\<rparr>, \<lparr>player_id = ''p3'', level = 40\<rparr>],
            v_contactEmail = ''02@example.org'', v_contactPhone = ''9876543202'',
            v_utrNumber = ''UTR0002'',
            v_screenshot = \<lparr>file_bytes = ''shot02'', file_type = ''image/png''\<rparr>\<rparr>
        ((exampleWorld (exampleRoster 1))\<lparr>ioCount := 4\<rparr>)
     = (Inl IOError,
        (exampleWorld (exampleRoster 1))
        \<lparr>registrationsFile := Some \<lparr>weekly_registrationWeekStart = 1704652200000,
            teams = exampleRoster 1 @
              [\<lparr>teamName = ''Team 02'',
                players = [\<lparr>player_id = ''p0'', level = 40\<rparr>, \<lparr>player_id = ''p1'', level = 40\<rparr>,
                           \<lparr>player_id = ''p2'', level = 40\<rparr>, \<lparr>player_id = ''p3'', level = 40\<rparr>],
                contactEmail = ''02@example.org'', contactPhone = ''9876543202'',
                utrNumber = ''UTR0002'', screenshotHash = ''h:shot02'',
                registrationTime = 1704868200000\<rparr>]\<rparr>,
         ioCount := 6\<rparr>)"
    by (simp add: verifyAndSave_def saveRegistration_def runAIVerification_def example_sixth
        exampleVerdict_def dateBefore_def exampleRoster_def exampleTeam_def example_normalised
        io_defs exampleWorld_def Let_def)
  show ?thesis
    using m1[of "exampleRoster 1"] s v
    by (simp add: register_after_reads(1)[where st = "\<lparr>registrationWeekStart = 1704652200000, registeredTeamsCount = 1\<rparr>"
          and wd = "\<lparr>weekly_registrationWeekStart = 1704652200000, teams = exampleRoster 1\<rparr>"
          and ?w1.0 = "(exampleWorld (exampleRoster 1))\<lparr>ioCount := 2\<rparr>"
          and ?w2.0 = "(exampleWorld (exampleRoster 1))\<lparr>ioCount := 4\<rparr>"
          and status = "\<lparr>slotsFilled = 1, totalSlots = 12, isOpen = True, status_weekStart = 1704652200000\<rparr>"]
        example_sixth example_parse exampleRoster_def)
qed

lemma example_drifted: "\<not> counterInSync driftedWorld"
  by (simp add: counterInSync_def driftedWorld_def exampleWorld_def exampleRoster_def)

lemma exampleWorld_count0: "(exampleWorld ts)\<lparr>ioCount := 0\<rparr> = exampleWorld ts"
  by (simp add: exampleWorld_def)

lemma example_manage_at:
  assumes "tzOffset e = 330" "\<not> ioFails e n" "\<not> ioFails e (n + 1)"
  shows "manageWeeklyState e 1704868200000 ((exampleWorld ts)\<lparr>ioCount := n\<rparr>)
     = (Inr (\<lparr>registrationWeekStart = 1704652200000, registeredTeamsCount = int (length ts)\<rparr>,
             \<lparr>weekly_registrationWeekStart = 1704652200000, teams = ts\<rparr>),
        (exampleWorld ts)\<lparr>ioCount := n + 2\<rparr>)"
  using assms
  by (simp add: manageWeeklyState_def io_defs exampleWorld_def example_weekStart)

lemma example_status_at:
  assumes "tzOffset e = 330" "\<not> ioFails e n" "\<not> ioFails e (n + 1)"
  shows "getRegistrationStatus e 1704868200000 1704868200000 ((exampleWorld ts)\<lparr>ioCount := n\<rparr>)
     = (Inr \<lparr>slotsFilled = int (length ts), totalSlots = 12, isOpen = (length ts < 12),
             status_weekStart = 1704652200000\<rparr>,
        (exampleWorld ts)\<lparr>ioCount := n + 2\<rparr>)"
  using assms
  by (simp add: status_unfold example_manage_at example_window)


lemma example_parse_variants:
  "safeParse offlineEnv fd = safeParse exampleEnv fd"
  "safeParse mismatchEnv fd = safeParse exampleEnv fd"
  by (rule safeParse_same_library; simp add: offlineEnv_def mismatchEnv_def)+

lemma example_variant_faults:
  "ioFails offlineEnv n = False" "ioFails mismatchEnv n = False"
  by (simp_all add: offlineEnv_def mismatchEnv_def exampleEnv_def)


lemma example_utc_week:
  "getRegistrationWeekStart 0 1705492800000 = 1705276800000"
  "getRegistrationWeekStart 0 1704672000000 = 1704672000000"
  by (simp_all add: weekStart_eq localMs_def)

lemma example_utc_dates:
  "localDate 0 1704672000000 = ''2024-01-08''"
  "isoDate 1704672000000 = ''2024-01-08''"
  "getDay 0 1704672000000 = 1"
  by code_simp+

lemma example_utc_world:
  "stateFile utcWorld = Some \<lparr>registrationWeekStart = 1704672000000, registeredTeamsCount = 3\<rparr>"
  "registrationsFile utcWorld
     = Some \<lparr>weekly_registrationWeekStart = 1704672000000, teams = exampleRoster 3\<rparr>"
  "archiveFiles utcWorld = (\<lambda>name. None)"
  "ioCount utcWorld = 0"
  by (simp_all add: utcWorld_def exampleWorld_def)

lemma example_utc_reliable: "reliable utcEnv"
  by (simp add: reliable_def example_faults)


text \<open>
  East of UTC the name of the archive file carries the UTC date of the week start, which
  is the Sunday before the local Monday: on the example server the roster of the week of
  Monday 8 January 2024 is archived as \<^verbatim>\<open>registrations-2024-01-07.json\<close>.
\<close>

lemma archive_name_east_of_utc:
  "getDay (tzOffset exampleEnv) 1704652200000 = 1
   \<and> localDate (tzOffset exampleEnv) 1704652200000 = ''2024-01-08''
   \<and> stateFile (exampleWorld (exampleRoster 3))
        = Some \<lparr>registrationWeekStart = 1704652200000, registeredTeamsCount = 3\<rparr>
   \<and> 1704652200000 < getRegistrationWeekStart (tzOffset exampleEnv) 1705473000000
   \<and> archiveFiles (snd (manageWeeklyState exampleEnv 1705473000000
         (exampleWorld (exampleRoster 3)))) (archiveName ''2024-01-08'') = None
   \<and> archiveFiles (snd (manageWeeklyState exampleEnv 1705473000000
         (exampleWorld (exampleRoster 3)))) (archiveName ''2024-01-07'')
      = Some \<lparr>weekly_registrationWeekStart = 1704652200000, teams = exampleRoster 3\<rparr>"
proof -
  have m: "manageWeeklyState exampleEnv 1705473000000 (exampleWorld (exampleRoster 3))
      = startWeek exampleEnv 1705257000000
          (snd (archiveWeeklyData exampleEnv
             \<lparr>weekly_registrationWeekStart = 1704652200000, teams = exampleRoster 3\<rparr>
             ((exampleWorld (exampleRoster 3))\<lparr>ioCount := Suc (Suc 0)\<rparr>)))"
    using manage_new_week[of "exampleWorld (exampleRoster 3)"
      "\<lparr>registrationWeekStart = 1704652200000, registeredTeamsCount = 3\<rparr>"
      "\<lparr>weekly_registrationWeekStart = 1704652200000, teams = exampleRoster 3\<rparr>"
      exampleEnv 1705473000000]
    by (simp add: exampleWorld_def example_tz example_next_week example_faults example_roster3)
  show ?thesis
    unfolding m
    by (simp add: archive_effect startWeek_unfold example_faults example_dates example_tz
        example_next_week example_roster3 archiveName_def localDate_def)
       (simp add: exampleWorld_def example_roster3)
qed

lemma example_passes:
  "passesPaymentChecks exampleEnv
     \<lparr>registrationWeekStart = 1704652200000, registeredTeamsCount = c\<rparr> v"
  "passesPaymentChecks sixthWriteFailsEnv
     \<lparr>registrationWeekStart = 1704652200000, registeredTeamsCount = c\<rparr> v"
  by (simp_all add: passesPaymentChecks_def runAIVerification_def example_sixth exampleVerdict_def
      dateBefore_def)
     (simp add: exampleEnv_def exampleVerdict_def dateBefore_def)

lemma example_no_duplicate:
  "\<forall>team \<in> set (exampleRoster 1). \<not> duplicateOf exampleEnv
      \<lparr>v_teamName = ''Team 02'',
            v_players = [\<lparr>player_id = ''p0'', level = 40\<rparr>, \<lparr>player_id = ''p1'', level = 40\<rparr>,
                         \<lparr>player_id = ''p2'', level = 40\<rparr>, \<lparr>player_id = ''p3'', level = 40\<rparr>],
            v_contactEmail = ''02@example.org'', v_contactPhone = ''9876543202'',
            v_utrNumber = ''UTR0002'',
            v_screenshot = \<lparr>file_bytes = ''shot02'', file_type = ''image/png''\<rparr>\<rparr> team"
  "\<forall>team \<in> set (exampleRoster 1). \<not> duplicateOf sixthWriteFailsEnv
      \<lparr>v_teamName = ''Team 02'',
            v_players = [\<lparr>player_id = ''p0'', level = 40\<rparr>, \<lparr>player_id = ''p1'', level = 40\<rparr>,
                         \<lparr>player_id = ''p2'', level = 40\<rparr>, \<lparr>player_id = ''p3'', level = 40\<rparr>],
            v_contactEmail = ''02@example.org'', v_contactPhone = ''9876543202'',
            v_utrNumber = ''UTR0002'',
            v_screenshot = \<lparr>file_bytes = ''shot02'', file_type = ''image/png''\<rparr>\<rparr> team"
  by (simp_all add: duplicateOf_def exampleRoster_def exampleTeam_def example_normalised
      example_sixth)
     (simp add: exampleEnv_def)

lemma example_record:
  "registrationRecord exampleEnv t
      \<lparr>v_teamName = ''Team 02'',
            v_players = [\<lparr>player_id = ''p0'', level = 40\<rparr>, \<lparr>player_id = ''p1'', level = 40\<rparr>,
                         \<lparr>player_id = ''p2'', level = 40\<rparr>, \<lparr>player_id = ''p3'', level = 40\<rparr>],
            v_contactEmail = ''02@example.org'', v_contactPhone = ''9876543202'',
            v_utrNumber = ''UTR0002'',
            v_screenshot = \<lparr>file_bytes = ''shot02'', file_type = ''image/png''\<rparr>\<rparr>
   = \<lparr>teamName = ''Team 02'',
      players = [\<lparr>player_id = ''p0'', level = 40\<rparr>, \<lparr>player_id = ''p1'', level = 40\<rparr>,
                 \<lparr>player_id = ''p2'', level = 40\<rparr>, \<lparr>player_id = ''p3'', level = 40\<rparr>],
      contactEmail = ''02@example.org'', contactPhone = ''9876543202'',
      utrNumber = ''UTR0002'', screenshotHash = ''h:shot02'', registrationTime = t\<rparr>"
  "registrationRecord sixthWriteFailsEnv t v = registrationRecord exampleEnv t v"
  by (simp_all add: registrationRecord_def example_sixth) (simp_all add: exampleEnv_def)

lemma example_drifted_files:
  "stateFile driftedWorld
     = Some \<lparr>registrationWeekStart = 1704652200000, registeredTeamsCount = 7\<rparr>"
  "registrationsFile driftedWorld
     = Some \<lparr>weekly_registrationWeekStart = 1704652200000, teams = exampleRoster 1\<rparr>"
  "ioCount driftedWorld = 0"
  by (simp_all add: driftedWorld_def exampleWorld_def)

section \<open>The claims\<close>

subsection \<open>C3: the registration window\<close>

text \<open>
  C3. For every local time \<open>t\<close>, \<open>isRegistrationWindowOpen\<close> holds exactly when \<open>t\<close> lies
  from 30 minutes (1 800 000 ms) to 6 days 22 hours (597 600 000 ms) after the start of
  its week, the end excluded; that start is a Monday, 00:00 local time, and \<open>t\<close> lies in
  the seven days after it. So the window is [Monday 00:30, Sunday 22:00) local time. A
  \<open>registerTeam\<close> whose window test (at \<open>tc\<close>) finds the window closed is rejected and
  writes nothing; one whose window test is at the opening instant Monday 00:30, with
  fewer than 12 teams on the roster, is not rejected as closed.
\<close>

theorem registration_window:
  "(isRegistrationWindowOpen (tzOffset e) t \<longleftrightarrow>
       getRegistrationWeekStart (tzOffset e) t + 1800000 \<le> t
       \<and> t < getRegistrationWeekStart (tzOffset e) t + 597600000)
   \<and> getDay (tzOffset e) (getRegistrationWeekStart (tzOffset e) t) = 1
   \<and> getHours (tzOffset e) (getRegistrationWeekStart (tzOffset e) t) = 0
   \<and> getMinutes (tzOffset e) (getRegistrationWeekStart (tzOffset e) t) = 0
   \<and> getRegistrationWeekStart (tzOffset e) t \<le> t
   \<and> t < getRegistrationWeekStart (tzOffset e) t + 604800000
   \<and> (\<not> isRegistrationWindowOpen (tzOffset e) tc \<longrightarrow>
        (\<exists>r. fst (registerTeam e t1 t2 tc t4 fd w) = Failure r)
        \<and> snd (registerTeam e t1 t2 tc t4 fd w) = afterStatusCheck e t1 t2 tc w)
   \<and> (topen = getRegistrationWeekStart (tzOffset e) topen + 1800000 \<and> slotsLeftOnDisk w \<longrightarrow>
        fst (registerTeam e t1 t2 topen t4 fd w) \<noteq> Failure Closed)"
proof -
  have closed: "(\<exists>r. fst (registerTeam e t1 t2 tc t4 fd w) = Failure r)
        \<and> snd (registerTeam e t1 t2 tc t4 fd w) = afterStatusCheck e t1 t2 tc w"
    if "\<not> isRegistrationWindowOpen (tzOffset e) tc"
    by (rule register_rejected) (use that status_open(1) in blast)
  have at_open: "fst (registerTeam e t1 t2 topen t4 fd w) \<noteq> Failure Closed"
    if "topen = getRegistrationWeekStart (tzOffset e) topen + 1800000" "slotsLeftOnDisk w"
  proof -
    have "isRegistrationWindowOpen (tzOffset e) topen"
      unfolding window_open_iff using that(1) by linarith
    then show ?thesis using that(2) by (rule register_not_closed)
  qed
  show ?thesis
    using closed at_open window_open_iff[of "tzOffset e" t]
      weekStart_is_monday_midnight[of "tzOffset e" t] weekStart_le[of "tzOffset e" t]
      weekStart_within_week[of t "tzOffset e"]
    by blast
qed

theorem registration_window_witness:
  "\<not> isRegistrationWindowOpen (tzOffset exampleEnv) 1704652200000
   \<and> (\<exists>r. fst (registerTeam exampleEnv 1704652200000 1704652200000 1704652200000 1704652200000
              (exampleForm ''01'') (exampleWorld [])) = Failure r)
   \<and> 1704654000000 = getRegistrationWeekStart (tzOffset exampleEnv) 1704654000000 + 1800000
   \<and> slotsLeftOnDisk (exampleWorld [])
   \<and> fst (registerTeam exampleEnv 1704654000000 1704654000000 1704654000000 1704654000000
              (exampleForm ''01'') (exampleWorld [])) \<noteq> Failure Closed"
  using registration_window[of exampleEnv 1704654000000 1704652200000
      1704652200000 1704652200000 1704652200000 "exampleForm ''01''" "exampleWorld []"]
    registration_window[of exampleEnv 1704654000000 1704652200000
      1704654000000 1704654000000 1704654000000 "exampleForm ''01''" "exampleWorld []"
      1704654000000]
  by (simp add: example_tz example_weekStart window_open_iff slotsLeftOnDisk_def exampleWorld_def)

subsection \<open>C2: the capacity of 12 teams\<close>

text \<open>
  C2. In a state whose persisted week is the current one (neither read of the weekly
  state finds a new week) and whose roster has 12 teams or more, \<open>registerTeam\<close> is
  rejected whatever the time \<open>t3\<close> of the window test, open or closed: it returns the
  failure "registrations closed" (or, if a file operation of the two reads raises, the
  failure of the catch-all), and the roster file is left as it was. With a file system
  that does not fail the result is "registrations closed". The capacity is exactly 12:
  with fewer than 12 teams and the window open the registration is not rejected as
  closed.
\<close>

theorem full_week_rejects_registration:
  assumes "stateFile w = Some st" "registrationsFile w = Some wd"
    and "\<not> registrationWeekStart st < getRegistrationWeekStart (tzOffset e) t1"
    and "\<not> registrationWeekStart st < getRegistrationWeekStart (tzOffset e) t2"
  shows "(12 \<le> length (teams wd) \<longrightarrow>
            (fst (registerTeam e t1 t2 t3 t4 fd w) = Failure Closed
               \<or> (\<exists>x. fst (registerTeam e t1 t2 t3 t4 fd w) = Failure (Unexpected x)))
            \<and> (reliable e \<longrightarrow> fst (registerTeam e t1 t2 t3 t4 fd w) = Failure Closed)
            \<and> registrationsFile (snd (registerTeam e t1 t2 t3 t4 fd w)) = Some wd)
       \<and> (length (teams wd) < 12 \<and> isRegistrationWindowOpen (tzOffset e) t3 \<longrightarrow>
            fst (registerTeam e t1 t2 t3 t4 fd w) \<noteq> Failure Closed)"
proof (intro conjI impI)
  assume full: "12 \<le> length (teams wd)"
  from register_closed_when_full[OF assms full, of t3 t4 fd]
  show "fst (registerTeam e t1 t2 t3 t4 fd w) = Failure Closed
          \<or> (\<exists>x. fst (registerTeam e t1 t2 t3 t4 fd w) = Failure (Unexpected x))"
    by auto
  from register_closed_when_full[OF assms full, of t3 t4 fd]
  show "registrationsFile (snd (registerTeam e t1 t2 t3 t4 fd w)) = Some wd"
    using afterStatusCheck_same_week(1)[OF assms, of t3] by auto
  show "fst (registerTeam e t1 t2 t3 t4 fd w) = Failure Closed" if "reliable e"
    using register_closed_when_full_reliable[OF assms full that] .
next
  assume "length (teams wd) < 12 \<and> isRegistrationWindowOpen (tzOffset e) t3"
  then show "fst (registerTeam e t1 t2 t3 t4 fd w) \<noteq> Failure Closed"
    using register_not_closed[of e t3 w t1 t2 t4 fd] slots_left[OF assms(2)] by blast
qed

theorem full_week_rejects_registration_witness:
  "stateFile (exampleWorld (exampleRoster 12))
      = Some \<lparr>registrationWeekStart = 1704652200000, registeredTeamsCount = 12\<rparr>
   \<and> registrationsFile (exampleWorld (exampleRoster 12))
      = Some \<lparr>weekly_registrationWeekStart = 1704652200000, teams = exampleRoster 12\<rparr>
   \<and> \<not> 1704652200000 < getRegistrationWeekStart (tzOffset exampleEnv) 1704868200000
   \<and> 12 \<le> length (exampleRoster 12) \<and> reliable exampleEnv
   \<and> fst (registerTeam exampleEnv 1704868200000 1704868200000 1704868200000 1704868200000
            (exampleForm ''13'') (exampleWorld (exampleRoster 12))) = Failure Closed
   \<and> registrationsFile (snd (registerTeam exampleEnv 1704868200000 1704868200000 1704868200000
            1704868200000 (exampleForm ''13'') (exampleWorld (exampleRoster 12))))
      = Some \<lparr>weekly_registrationWeekStart = 1704652200000, teams = exampleRoster 12\<rparr>
   \<and> length (exampleRoster 11) < 12
   \<and> isRegistrationWindowOpen (tzOffset exampleEnv) 1704868200000
   \<and> fst (registerTeam exampleEnv 1704868200000 1704868200000 1704868200000 1704868200000
            (exampleForm ''12'') (exampleWorld (exampleRoster 11))) \<noteq> Failure Closed"
  using full_week_rejects_registration[of "exampleWorld (exampleRoster 12)"
      "\<lparr>registrationWeekStart = 1704652200000, registeredTeamsCount = 12\<rparr>"
      "\<lparr>weekly_registrationWeekStart = 1704652200000, teams = exampleRoster 12\<rparr>"
      exampleEnv 1704868200000 1704868200000 1704868200000 1704868200000 "exampleForm ''13''"]
    full_week_rejects_registration[of "exampleWorld (exampleRoster 11)"
      "\<lparr>registrationWeekStart = 1704652200000, registeredTeamsCount = 11\<rparr>"
      "\<lparr>weekly_registrationWeekStart = 1704652200000, teams = exampleRoster 11\<rparr>"
      exampleEnv 1704868200000 1704868200000 1704868200000 1704868200000 "exampleForm ''12''"]
  by (simp add: exampleWorld_def exampleRoster_def example_tz example_weekStart example_reliable
      example_window)

subsection \<open>C5: duplicates within the week\<close>

text \<open>
  C5. When the persisted week is the current one at the first read and its roster has a
  team that matches the submitted form on the UTR (compared after \<open>trim\<close> and
  \<open>toLowerCase\<close>), on the contact e-mail (likewise), on the contact phone (equal), or on
  the hash of the screenshot (equal), \<open>registerTeam\<close> returns a failure and writes
  nothing of its own: the roster file is the old roster, or the empty roster of a new
  week if the second read found one. The four cases are independent, so a screenshot
  used before is rejected also with a different UTR.
\<close>

theorem duplicate_submission_rejected:
  assumes "stateFile w = Some st" "registrationsFile w = Some wd"
    and "\<not> registrationWeekStart st < getRegistrationWeekStart (tzOffset e) t1"
    and "team \<in> set (teams wd)"
    and "(\<exists>u. textField fd ''utrNumber'' = Some u
            \<and> toLowerCase (trim (utrNumber team)) = toLowerCase (trim u))
       \<or> (\<exists>m. textField fd ''contactEmail'' = Some m
            \<and> toLowerCase (trim (contactEmail team)) = toLowerCase (trim m))
       \<or> textField fd ''contactPhone'' = Some (contactPhone team)
       \<or> (\<exists>f. fileField fd ''screenshot'' = Some f \<and> screenshotHash team = sha256 e (file_bytes f))"
  shows "(\<exists>r. fst (registerTeam e t1 t2 t3 t4 fd w) = Failure r)
       \<and> snd (registerTeam e t1 t2 t3 t4 fd w) = afterStatusCheck e t1 t2 t3 w
       \<and> (registrationsFile (snd (registerTeam e t1 t2 t3 t4 fd w)) = Some wd
           \<or> (\<exists>c. registrationsFile (snd (registerTeam e t1 t2 t3 t4 fd w))
                     = Some \<lparr>weekly_registrationWeekStart = c, teams = []\<rparr>))"
proof -
  have "(\<exists>r. fst (registerTeam e t1 t2 t3 t4 fd w) = Failure r)
       \<and> snd (registerTeam e t1 t2 t3 t4 fd w) = afterStatusCheck e t1 t2 t3 w"
  proof (rule register_rejected)
    fix st' wd' w1 status w2 v
    assume m1: "manageWeeklyState e t1 w = (Inr (st', wd'), w1)" and v: "safeParse e fd = Inr v"
    from manage_same_week[OF assms(1-3) m1] have "wd' = wd" by simp
    with assms(4) have "team \<in> set (teams wd')" by simp
    then show "\<exists>r. verifyAndSave e t4 st' wd' v w2 = (Inr (Failure r), w2)"
      using form_duplicate[OF v assms(5)] by (rule verify_duplicate)
  qed
  then show ?thesis
    using afterStatusCheck_roster[of e t1 t2 t3 w] assms(2) by auto
qed

theorem duplicate_submission_rejected_witness:
  "stateFile (exampleWorld (exampleRoster 1))
      = Some \<lparr>registrationWeekStart = 1704652200000, registeredTeamsCount = 1\<rparr>
   \<and> registrationsFile (exampleWorld (exampleRoster 1))
      = Some \<lparr>weekly_registrationWeekStart = 1704652200000, teams = exampleRoster 1\<rparr>
   \<and> \<not> 1704652200000 < getRegistrationWeekStart (tzOffset exampleEnv) 1704868200000
   \<and> exampleTeam ''01'' \<in> set (exampleRoster 1)
   \<and> fileField exampleReusedScreenshot ''screenshot''
        = Some \<lparr>file_bytes = ''shot01'', file_type = ''image/png''\<rparr>
   \<and> screenshotHash (exampleTeam ''01'') = sha256 exampleEnv ''shot01''
   \<and> textField exampleReusedScreenshot ''utrNumber'' = Some ''UTR0002''
   \<and> utrNumber (exampleTeam ''01'') = ''UTR0001''
   \<and> (\<exists>r. fst (registerTeam exampleEnv 1704868200000 1704868200000 1704868200000 1704868200000
                 exampleReusedScreenshot (exampleWorld (exampleRoster 1))) = Failure r)
   \<and> snd (registerTeam exampleEnv 1704868200000 1704868200000 1704868200000 1704868200000
                 exampleReusedScreenshot (exampleWorld (exampleRoster 1)))
      = afterStatusCheck exampleEnv 1704868200000 1704868200000 1704868200000
          (exampleWorld (exampleRoster 1))"
  using duplicate_submission_rejected[of "exampleWorld (exampleRoster 1)"
      "\<lparr>registrationWeekStart = 1704652200000, registeredTeamsCount = 1\<rparr>"
      "\<lparr>weekly_registrationWeekStart = 1704652200000, teams = exampleRoster 1\<rparr>"
      exampleEnv 1704868200000 "exampleTeam ''01''" exampleReusedScreenshot
      1704868200000 1704868200000 1704868200000]
  by (simp add: exampleWorld_def exampleRoster_def example_tz example_weekStart
      example_form_fields exampleTeam_def)
     (simp add: exampleEnv_def)


subsection \<open>C6: the verification adapter fails or finds no match\<close>

text \<open>
  C6. For a form with a screenshot \<open>f\<close> and a UTR \<open>u\<close>: if the adapter throws,
  \<open>runAIVerification\<close> returns the verdict "no match" with the reason that the service
  is unavailable; otherwise it returns the adapter's verdict. Whenever the verdict is
  not a match, \<open>registerTeam\<close> writes nothing of its own and fails: with the verdict's
  reason, unless it had already stopped as closed, on an invalid form, or on an error
  of the two reads. And it does fail with the verdict's reason: whenever the two reads
  return, registration is open and the form is valid, a verdict that is not a match
  makes \<open>registerTeam\<close> return the failure carrying exactly that verdict's reason, in
  the world the two reads left.
\<close>

theorem verification_failure_rejects:
  assumes "fileField fd ''screenshot'' = Some f" "textField fd ''utrNumber'' = Some u"
  shows "((\<exists>x. verifyUtrFromScreenshot e f u = Inl x) \<longrightarrow>
            runAIVerification e f u =
              \<lparr>isUtrMatch = False,
               reason = Some ''AI verification service is currently unavailable. Please try again later.'',
               transactionDate = None\<rparr>)
       \<and> (\<forall>verdict. verifyUtrFromScreenshot e f u = Inr verdict \<longrightarrow>
             runAIVerification e f u = verdict)
       \<and> (\<not> isUtrMatch (runAIVerification e f u) \<longrightarrow>
            snd (registerTeam e t1 t2 t3 t4 fd w) = afterStatusCheck e t1 t2 t3 w
            \<and> (fst (registerTeam e t1 t2 t3 t4 fd w)
                  = Failure (NotVerified (reason (runAIVerification e f u)))
               \<or> fst (registerTeam e t1 t2 t3 t4 fd w) = Failure Closed
               \<or> (\<exists>issue. fst (registerTeam e t1 t2 t3 t4 fd w) = Failure (Invalid issue))
               \<or> (\<exists>x. fst (registerTeam e t1 t2 t3 t4 fd w) = Failure (Unexpected x))))
       \<and> (\<not> isUtrMatch (runAIVerification e f u)
            \<and> manageWeeklyState e t1 w = (Inr (st, wd), w1)
            \<and> getRegistrationStatus e t2 t3 w1 = (Inr status, w2)
            \<and> isOpen status \<and> safeParse e fd = Inr v \<longrightarrow>
            registerTeam e t1 t2 t3 t4 fd w
              = (Failure (NotVerified (reason (runAIVerification e f u))), w2))"
proof (intro conjI impI allI)
  assume "\<not> isUtrMatch (runAIVerification e f u)"
  then have "verifyAndSave e t st wd v w'
      = (Inr (Failure (NotVerified (reason (runAIVerification e f u)))), w')"
    if "v_screenshot v = f" "v_utrNumber v = u" for v t st wd w'
    using verify_no_match[of e v t st wd w'] that by simp
  from register_stopped_at_verification[OF assms this]
  show "snd (registerTeam e t1 t2 t3 t4 fd w) = afterStatusCheck e t1 t2 t3 w"
    and "fst (registerTeam e t1 t2 t3 t4 fd w)
                  = Failure (NotVerified (reason (runAIVerification e f u)))
               \<or> fst (registerTeam e t1 t2 t3 t4 fd w) = Failure Closed
               \<or> (\<exists>issue. fst (registerTeam e t1 t2 t3 t4 fd w) = Failure (Invalid issue))
               \<or> (\<exists>x. fst (registerTeam e t1 t2 t3 t4 fd w) = Failure (Unexpected x))"
    by blast+
next
  assume "\<not> isUtrMatch (runAIVerification e f u)
            \<and> manageWeeklyState e t1 w = (Inr (st, wd), w1)
            \<and> getRegistrationStatus e t2 t3 w1 = (Inr status, w2)
            \<and> isOpen status \<and> safeParse e fd = Inr v"
  then show "registerTeam e t1 t2 t3 t4 fd w
              = (Failure (NotVerified (reason (runAIVerification e f u))), w2)"
    using register_not_verified[OF assms, of e t1 w st wd w1 t2 t3 status w2 v t4] by blast
qed (auto simp: runAI_throws runAI_verdict)

theorem verification_failure_rejects_witness:
  "fileField (exampleForm ''02'') ''screenshot''
      = Some \<lparr>file_bytes = ''shot02'', file_type = ''image/png''\<rparr>
   \<and> textField (exampleForm ''02'') ''utrNumber'' = Some ''UTR0002''
   \<and> verifyUtrFromScreenshot offlineEnv \<lparr>file_bytes = ''shot02'', file_type = ''image/png''\<rparr>
        ''UTR0002'' = Inl (Error ''fetch failed'')
   \<and> \<not> isUtrMatch (runAIVerification offlineEnv
          \<lparr>file_bytes = ''shot02'', file_type = ''image/png''\<rparr> ''UTR0002'')
   \<and> snd (registerTeam offlineEnv 1704868200000 1704868200000 1704868200000 1704868200000
            (exampleForm ''02'') (exampleWorld (exampleRoster 1)))
      = afterStatusCheck offlineEnv 1704868200000 1704868200000 1704868200000
          (exampleWorld (exampleRoster 1))
   \<and> \<not> isUtrMatch (runAIVerification mismatchEnv
          \<lparr>file_bytes = ''shot02'', file_type = ''image/png''\<rparr> ''UTR0002'')
   \<and> snd (registerTeam mismatchEnv 1704868200000 1704868200000 1704868200000 1704868200000
            (exampleForm ''02'') (exampleWorld (exampleRoster 1)))
      = afterStatusCheck mismatchEnv 1704868200000 1704868200000 1704868200000
          (exampleWorld (exampleRoster 1))
   \<and> manageWeeklyState offlineEnv 1704868200000 (exampleWorld (exampleRoster 1))
      = (Inr (\<lparr>registrationWeekStart = 1704652200000, registeredTeamsCount = 1\<rparr>,
              \<lparr>weekly_registrationWeekStart = 1704652200000, teams = exampleRoster 1\<rparr>),
         (exampleWorld (exampleRoster 1))\<lparr>ioCount := 2\<rparr>)
   \<and> getRegistrationStatus offlineEnv 1704868200000 1704868200000
        ((exampleWorld (exampleRoster 1))\<lparr>ioCount := 2\<rparr>)
      = (Inr \<lparr>slotsFilled = 1, totalSlots = 12, isOpen = True, status_weekStart = 1704652200000\<rparr>,
         (exampleWorld (exampleRoster 1))\<lparr>ioCount := 4\<rparr>)
   \<and> (\<exists>v. safeParse offlineEnv (exampleForm ''02'') = Inr v)
   \<and> registerTeam offlineEnv 1704868200000 1704868200000 1704868200000 1704868200000
        (exampleForm ''02'') (exampleWorld (exampleRoster 1))
      = (Failure (NotVerified
           (Some ''AI verification service is currently unavailable. Please try again later.'')),
         (exampleWorld (exampleRoster 1))\<lparr>ioCount := 4\<rparr>)
   \<and> registerTeam mismatchEnv 1704868200000 1704868200000 1704868200000 1704868200000
        (exampleForm ''02'') (exampleWorld (exampleRoster 1))
      = (Failure (NotVerified (Some ''UTR not found in the screenshot'')),
         (exampleWorld (exampleRoster 1))\<lparr>ioCount := 4\<rparr>)"
proof -
  let ?f = "\<lparr>file_bytes = ''shot02'', file_type = ''image/png''\<rparr>"
  let ?st = "\<lparr>registrationWeekStart = 1704652200000, registeredTeamsCount = 1\<rparr>"
  let ?wd = "\<lparr>weekly_registrationWeekStart = 1704652200000, teams = exampleRoster 1\<rparr>"
  let ?status = "\<lparr>slotsFilled = 1, totalSlots = 12, isOpen = True, status_weekStart = 1704652200000\<rparr>"
  have len: "length (exampleRoster 1) = 1" "length (exampleRoster (Suc 0)) = Suc 0"
    by (simp_all add: exampleRoster_def)
  have m: "manageWeeklyState e 1704868200000 (exampleWorld (exampleRoster 1))
      = (Inr (?st, ?wd), (exampleWorld (exampleRoster 1))\<lparr>ioCount := 2\<rparr>)"
    and s: "getRegistrationStatus e 1704868200000 1704868200000
        ((exampleWorld (exampleRoster 1))\<lparr>ioCount := 2\<rparr>)
      = (Inr ?status, (exampleWorld (exampleRoster 1))\<lparr>ioCount := 4\<rparr>)"
    if "tzOffset e = 330" "\<And>n. \<not> ioFails e n" for e
    using example_manage_at[of e 0 "exampleRoster 1"] example_status_at[of e 2 "exampleRoster 1"] that
    by (simp_all add: exampleWorld_count0 len)
  note mo = m[of offlineEnv, simplified example_env_variants example_variant_faults, simplified]
  note so = s[of offlineEnv, simplified example_env_variants example_variant_faults, simplified]
  note mm = m[of mismatchEnv, simplified example_env_variants example_variant_faults, simplified]
  note sm = s[of mismatchEnv, simplified example_env_variants example_variant_faults, simplified]
  show ?thesis
    using verification_failure_rejects[where fd = "exampleForm ''02''" and f = ?f
        and u = "''UTR0002''" and e = offlineEnv and ?t1.0 = 1704868200000
        and ?t2.0 = 1704868200000 and ?t3.0 = 1704868200000 and ?t4.0 = 1704868200000
        and w = "exampleWorld (exampleRoster 1)" and st = ?st and wd = ?wd
        and ?w1.0 = "(exampleWorld (exampleRoster 1))\<lparr>ioCount := 2\<rparr>" and status = ?status
        and ?w2.0 = "(exampleWorld (exampleRoster 1))\<lparr>ioCount := 4\<rparr>"
        and v = "\<lparr>v_teamName = ''Team 02'',
            v_players = [\<lparr>player_id = ''p0'', level = 40\<rparr>, \<lparr>player_id = ''p1'', level = 40\<rparr>,
                         \<lparr>player_id = ''p2'', level = 40\<rparr>, \<lparr>player_id = ''p3'', level = 40\<rparr>],
            v_contactEmail = ''02@example.org'', v_contactPhone = ''9876543202'',
            v_utrNumber = ''UTR0002'', v_screenshot = ?f\<rparr>"]
      verification_failure_rejects[where fd = "exampleForm ''02''" and f = ?f
        and u = "''UTR0002''" and e = mismatchEnv and ?t1.0 = 1704868200000
        and ?t2.0 = 1704868200000 and ?t3.0 = 1704868200000 and ?t4.0 = 1704868200000
        and w = "exampleWorld (exampleRoster 1)" and st = ?st and wd = ?wd
        and ?w1.0 = "(exampleWorld (exampleRoster 1))\<lparr>ioCount := 2\<rparr>" and status = ?status
        and ?w2.0 = "(exampleWorld (exampleRoster 1))\<lparr>ioCount := 4\<rparr>"
        and v = "\<lparr>v_teamName = ''Team 02'',
            v_players = [\<lparr>player_id = ''p0'', level = 40\<rparr>, \<lparr>player_id = ''p1'', level = 40\<rparr>,
                         \<lparr>player_id = ''p2'', level = 40\<rparr>, \<lparr>player_id = ''p3'', level = 40\<rparr>],
            v_contactEmail = ''02@example.org'', v_contactPhone = ''9876543202'',
            v_utrNumber = ''UTR0002'', v_screenshot = ?f\<rparr>"]
      mo so mm sm register_after_reads(2)[OF mo so] register_after_reads(2)[OF mm sm]
    by (simp add: example_form_fields example_env_variants runAIVerification_def
        example_parse_variants example_parse)
qed


subsection \<open>C7: the transaction date\<close>

text \<open>
  C7. For a form with a screenshot \<open>f\<close> and a UTR \<open>u\<close> on which the adapter returns a
  match: if the verdict has no transaction date (absent or empty), or if its date \<open>ds\<close>
  parses to an instant \<open>td\<close> before the start of the current week (Monday 00:00 of the
  week of the first read), \<open>registerTeam\<close> writes nothing of its own and fails, with the
  reason "no transaction date" respectively "previous week" unless it had already
  stopped as closed, on an invalid form, or on an error of the two reads. Nothing is
  assumed about the roster, so this holds also when UTR, e-mail, phone and hash are new.
\<close>

theorem transaction_date_required:
  assumes "fileField fd ''screenshot'' = Some f" "textField fd ''utrNumber'' = Some u"
    and "verifyUtrFromScreenshot e f u = Inr verdict" "isUtrMatch verdict"
  shows "(falsy (transactionDate verdict) \<longrightarrow>
            snd (registerTeam e t1 t2 t3 t4 fd w) = afterStatusCheck e t1 t2 t3 w
            \<and> (fst (registerTeam e t1 t2 t3 t4 fd w) = Failure NoTransactionDate
               \<or> fst (registerTeam e t1 t2 t3 t4 fd w) = Failure Closed
               \<or> (\<exists>issue. fst (registerTeam e t1 t2 t3 t4 fd w) = Failure (Invalid issue))
               \<or> (\<exists>x. fst (registerTeam e t1 t2 t3 t4 fd w) = Failure (Unexpected x))))
       \<and> (transactionDate verdict = Some ds \<and> ds \<noteq> [] \<and> dateParse e ds = Some td
            \<and> td < getRegistrationWeekStart (tzOffset e) t1 \<longrightarrow>
            snd (registerTeam e t1 t2 t3 t4 fd w) = afterStatusCheck e t1 t2 t3 w
            \<and> (fst (registerTeam e t1 t2 t3 t4 fd w) = Failure PreviousWeek
               \<or> fst (registerTeam e t1 t2 t3 t4 fd w) = Failure Closed
               \<or> (\<exists>issue. fst (registerTeam e t1 t2 t3 t4 fd w) = Failure (Invalid issue))
               \<or> (\<exists>x. fst (registerTeam e t1 t2 t3 t4 fd w) = Failure (Unexpected x))))"
proof (intro conjI impI)
  note vr = runAI_verdict[OF assms(3)]
  {
    assume "falsy (transactionDate verdict)"
    then have "verifyAndSave e t st wd v w' = (Inr (Failure NoTransactionDate), w')"
      if "v_screenshot v = f" "v_utrNumber v = u" for v t st wd w'
      using verify_no_date[of e v t st wd w'] that vr assms(4) by simp
    from register_stopped_at_verification[OF assms(1,2) this]
    show "snd (registerTeam e t1 t2 t3 t4 fd w) = afterStatusCheck e t1 t2 t3 w"
      and "fst (registerTeam e t1 t2 t3 t4 fd w) = Failure NoTransactionDate
               \<or> fst (registerTeam e t1 t2 t3 t4 fd w) = Failure Closed
               \<or> (\<exists>issue. fst (registerTeam e t1 t2 t3 t4 fd w) = Failure (Invalid issue))
               \<or> (\<exists>x. fst (registerTeam e t1 t2 t3 t4 fd w) = Failure (Unexpected x))"
      by blast+
  }
  {
    assume a: "transactionDate verdict = Some ds \<and> ds \<noteq> [] \<and> dateParse e ds = Some td
            \<and> td < getRegistrationWeekStart (tzOffset e) t1"
    have "verifyAndSave e t st wd v w' = (Inr (Failure PreviousWeek), w')"
      if "v_screenshot v = f" "v_utrNumber v = u"
        "getRegistrationWeekStart (tzOffset e) t1 \<le> registrationWeekStart st" for v t st wd w'
    proof (rule verify_stale[where ds = ds])
      show "dateBefore (dateParse e ds) (registrationWeekStart st)"
        using a that(3) by (simp add: dateBefore_def)
    qed (use that vr assms(4) a in simp_all)
    from register_stopped_at_verification[OF assms(1,2) this]
    show "snd (registerTeam e t1 t2 t3 t4 fd w) = afterStatusCheck e t1 t2 t3 w"
      and "fst (registerTeam e t1 t2 t3 t4 fd w) = Failure PreviousWeek
               \<or> fst (registerTeam e t1 t2 t3 t4 fd w) = Failure Closed
               \<or> (\<exists>issue. fst (registerTeam e t1 t2 t3 t4 fd w) = Failure (Invalid issue))
               \<or> (\<exists>x. fst (registerTeam e t1 t2 t3 t4 fd w) = Failure (Unexpected x))"
      by blast+
  }
qed


theorem transaction_date_required_witness:
  "fileField (exampleForm ''02'') ''screenshot''
      = Some \<lparr>file_bytes = ''shot02'', file_type = ''image/png''\<rparr>
   \<and> textField (exampleForm ''02'') ''utrNumber'' = Some ''UTR0002''
   \<and> verifyUtrFromScreenshot noDateEnv \<lparr>file_bytes = ''shot02'', file_type = ''image/png''\<rparr>
        ''UTR0002'' = Inr \<lparr>isUtrMatch = True, reason = None, transactionDate = None\<rparr>
   \<and> falsy None
   \<and> snd (registerTeam noDateEnv 1704868200000 1704868200000 1704868200000 1704868200000
            (exampleForm ''02'') (exampleWorld (exampleRoster 1)))
      = afterStatusCheck noDateEnv 1704868200000 1704868200000 1704868200000
          (exampleWorld (exampleRoster 1))
   \<and> verifyUtrFromScreenshot staleEnv \<lparr>file_bytes = ''shot02'', file_type = ''image/png''\<rparr>
        ''UTR0002''
      = Inr \<lparr>isUtrMatch = True, reason = None, transactionDate = Some ''2024-01-05''\<rparr>
   \<and> dateParse staleEnv ''2024-01-05'' = Some 1704412800000
   \<and> 1704412800000 < getRegistrationWeekStart (tzOffset staleEnv) 1704868200000
   \<and> snd (registerTeam staleEnv 1704868200000 1704868200000 1704868200000 1704868200000
            (exampleForm ''02'') (exampleWorld (exampleRoster 1)))
      = afterStatusCheck staleEnv 1704868200000 1704868200000 1704868200000
          (exampleWorld (exampleRoster 1))"
  using transaction_date_required[of "exampleForm ''02''"
      "\<lparr>file_bytes = ''shot02'', file_type = ''image/png''\<rparr>" "''UTR0002''" noDateEnv
      "\<lparr>isUtrMatch = True, reason = None, transactionDate = None\<rparr>"
      1704868200000 1704868200000 1704868200000 1704868200000 "exampleWorld (exampleRoster 1)"]
    transaction_date_required[where fd = "exampleForm ''02''"
      and f = "\<lparr>file_bytes = ''shot02'', file_type = ''image/png''\<rparr>" and u = "''UTR0002''"
      and e = staleEnv
      and verdict = "\<lparr>isUtrMatch = True, reason = None, transactionDate = Some ''2024-01-05''\<rparr>"
      and ds = "''2024-01-05''" and td = 1704412800000
      and ?t1.0 = 1704868200000 and ?t2.0 = 1704868200000 and ?t3.0 = 1704868200000
      and ?t4.0 = 1704868200000 and w = "exampleWorld (exampleRoster 1)"]
  by (simp add: example_form_fields example_env_variants example_weekStart falsy_def)

subsection \<open>C8: a winner mail that cannot be sent\<close>

text \<open>
  C8. The claim holds when sending throws (\<open>winner_email_throw_propagates\<close>). It fails
  for a mail that the mail API refuses without throwing: \<open>sendWinnerEmail\<close> does not look
  at the value of \<^verbatim>\<open>resend.emails.send\<close>, so it logs the mail as sent and returns. On
  a server whose mail API refuses the mail to the second-placed team,
  \<open>processAndEmailWinners\<close> returns instead of throwing, only the mail to the first-placed
  team has gone out, and the winners file is no longer the old history: it has the new
  record in first place, in place of the old record of the week.
\<close>

theorem winner_email_refused_not_propagated:
  "resendRefuses mailRefusedEnv (contactEmail (exampleTeam ''02''))
     (WinnerMail Second (teamName (exampleTeam ''02'')))
   \<and> winnersFile exampleWinnersWorld = Some exampleHistory
   \<and> fst (processAndEmailWinners mailRefusedEnv 1704868200000 (exampleTeam ''01'')
            (exampleTeam ''02'') exampleWinnersWorld) = Inr ()
   \<and> outbox (snd (processAndEmailWinners mailRefusedEnv 1704868200000 (exampleTeam ''01'')
            (exampleTeam ''02'') exampleWinnersWorld))
      = [(''01@example.org'', WinnerMail First ''Team 01'')]
   \<and> winnersFile (snd (processAndEmailWinners mailRefusedEnv 1704868200000 (exampleTeam ''01'')
            (exampleTeam ''02'') exampleWinnersWorld))
      = Some [\<lparr>weekStart = 1704652200000,
                winners = [\<lparr>winner_rank = First, winner_teamName = ''Team 01''\<rparr>,
                           \<lparr>winner_rank = Second, winner_teamName = ''Team 02''\<rparr>],
                totalTeams = 3\<rparr>,
               \<lparr>weekStart = 1704047400000,
                winners = [\<lparr>winner_rank = First, winner_teamName = ''Old 1''\<rparr>,
                           \<lparr>winner_rank = Second, winner_teamName = ''Old 2''\<rparr>],
                totalTeams = 9\<rparr>]
   \<and> winnersFile (snd (processAndEmailWinners mailRefusedEnv 1704868200000 (exampleTeam ''01'')
            (exampleTeam ''02'') exampleWinnersWorld))
      \<noteq> winnersFile exampleWinnersWorld"
  by (simp add: processAndEmailWinners_def readWinnersHistory_def sendWinnerEmail_def
      manageWeeklyState_def io_defs exampleWinnersWorld_def exampleWorld_def exampleRoster_def
      exampleTeam_def exampleHistory_def example_weekStart falsy_def mailRefusedEnv_def
      exampleEnv_def)

subsection \<open>C9: one winners record per week, newest first\<close>

text \<open>
  C9. When \<open>processAndEmailWinners\<close> returns, the winners file is the new record, whose
  \<open>weekStart\<close> is the week start of the state that \<open>manageWeeklyState\<close> returned,
  followed by the records of the old history for other weeks, in their order. So the
  history has exactly one record of that week, and it is the first. That week start is
  the Monday 00:00 of the week of \<open>now\<close>, provided the persisted state was not of a later
  week.
\<close>

theorem winners_history_replaces_week:
  assumes "fst (processAndEmailWinners e now firstPlaceTeam secondPlaceTeam w) = Inr ()"
  shows "\<exists>st wd w1.
      manageWeeklyState e now w = (Inr (st, wd), w1)
    \<and> winnersFile (snd (processAndEmailWinners e now firstPlaceTeam secondPlaceTeam w))
        = Some (\<lparr>weekStart = registrationWeekStart st,
                  winners = [\<lparr>winner_rank = First, winner_teamName = teamName firstPlaceTeam\<rparr>,
                             \<lparr>winner_rank = Second, winner_teamName = teamName secondPlaceTeam\<rparr>],
                  totalTeams = registeredTeamsCount st\<rparr>
                # filter (\<lambda>x. weekStart x \<noteq> registrationWeekStart st) (historyOnDisk w))
    \<and> length (filter (\<lambda>x. weekStart x = registrationWeekStart st)
         (historyOnDisk (snd (processAndEmailWinners e now firstPlaceTeam secondPlaceTeam w)))) = 1
    \<and> (stateNotAhead e now w \<longrightarrow>
         registrationWeekStart st = getRegistrationWeekStart (tzOffset e) now)"
proof -
  from assms obtain st wd w1 w3 where
    m: "manageWeeklyState e now w = (Inr (st, wd), w1)" and
    k: "winnersFile w3 = winnersFile w" and
    p: "processAndEmailWinners e now firstPlaceTeam secondPlaceTeam w =
       (Inr (),
        w3\<lparr>winnersFile := Some (\<lparr>weekStart = registrationWeekStart st,
               winners = [\<lparr>winner_rank = First, winner_teamName = teamName firstPlaceTeam\<rparr>,
                          \<lparr>winner_rank = Second, winner_teamName = teamName secondPlaceTeam\<rparr>],
               totalTeams = registeredTeamsCount st\<rparr>
             # filter (\<lambda>x. weekStart x \<noteq> registrationWeekStart st) (historyOnDisk w3)),
           ioCount := Suc (Suc (ioCount w3))\<rparr>)"
    by (rule process_returns)
  have h: "historyOnDisk w3 = historyOnDisk w" using k by (simp add: historyOnDisk_def)
  have one: "length (filter (\<lambda>x. weekStart x = c) (r # filter (\<lambda>x. weekStart x \<noteq> c) xs)) = 1"
    if "weekStart r = c" for r :: WeeklyWinner and c xs
    using that by (simp add: filter_empty_conv)
  show ?thesis
    using m manage_week_eq[OF m]
    by (intro exI[of _ st] exI[of _ wd] exI[of _ w1]) (simp add: p h k historyOnDisk_def one)
qed


theorem winners_history_replaces_week_witness:
  "fst (processAndEmailWinners exampleEnv 1704868200000 (exampleTeam ''01'') (exampleTeam ''02'')
         exampleWinnersWorld) = Inr ()
   \<and> stateNotAhead exampleEnv 1704868200000 exampleWinnersWorld
   \<and> length (filter (\<lambda>x. weekStart x = 1704652200000) (historyOnDisk exampleWinnersWorld)) = 1
   \<and> length (filter (\<lambda>x. weekStart x = 1704652200000)
        (historyOnDisk (snd (processAndEmailWinners exampleEnv 1704868200000 (exampleTeam ''01'')
           (exampleTeam ''02'') exampleWinnersWorld)))) = 1"
  using winners_history_replaces_week[of exampleEnv 1704868200000 "exampleTeam ''01''"
      "exampleTeam ''02''" exampleWinnersWorld] example_process example_notAhead
  by (auto simp: example_tz example_weekStart historyOnDisk_def exampleWinnersWorld_def
      exampleHistory_def)

subsection \<open>C10: a missing document\<close>

text \<open>
  C10. When the state file or the roster file is missing (one of them is enough), a call
  of \<open>manageWeeklyState\<close> that returns has written both documents anew for the current
  week, with counter 0 and an empty roster, and returns them; the archive is untouched
  whether the call returns or throws; and with a file system that does not fail the
  call returns. So a roster whose state file is missing is overwritten, and its teams
  are in no file afterwards.
\<close>

theorem missing_document_reinitializes:
  assumes "stateFile w = None \<or> registrationsFile w = None"
  shows "(\<forall>x. fst (manageWeeklyState e now w) = Inr x \<longrightarrow>
            x = (\<lparr>registrationWeekStart = getRegistrationWeekStart (tzOffset e) now,
                   registeredTeamsCount = 0\<rparr>,
                 \<lparr>weekly_registrationWeekStart = getRegistrationWeekStart (tzOffset e) now,
                   teams = []\<rparr>)
            \<and> stateFile (snd (manageWeeklyState e now w))
                = Some \<lparr>registrationWeekStart = getRegistrationWeekStart (tzOffset e) now,
                         registeredTeamsCount = 0\<rparr>
            \<and> registrationsFile (snd (manageWeeklyState e now w))
                = Some \<lparr>weekly_registrationWeekStart = getRegistrationWeekStart (tzOffset e) now,
                         teams = []\<rparr>)
       \<and> archiveFiles (snd (manageWeeklyState e now w)) = archiveFiles w
       \<and> (reliable e \<longrightarrow> (\<exists>x. fst (manageWeeklyState e now w) = Inr x))"
proof (intro conjI allI impI)
  fix x assume ret: "fst (manageWeeklyState e now w) = Inr x"
  obtain st wd where x: "x = (st, wd)" by (cases x)
  with ret have m: "manageWeeklyState e now w = (Inr (st, wd), snd (manageWeeklyState e now w))"
    by (cases "manageWeeklyState e now w") simp
  then have "startWeek e (getRegistrationWeekStart (tzOffset e) now)
             (w\<lparr>ioCount := Suc (Suc (ioCount w))\<rparr>) = (Inr (st, wd), snd (manageWeeklyState e now w))"
    unfolding manage_missing[OF assms] by (auto split: if_splits)
  from startWeek_returns[OF this] x
  show "x = (\<lparr>registrationWeekStart = getRegistrationWeekStart (tzOffset e) now,
                   registeredTeamsCount = 0\<rparr>,
                 \<lparr>weekly_registrationWeekStart = getRegistrationWeekStart (tzOffset e) now,
                   teams = []\<rparr>)"
    and "stateFile (snd (manageWeeklyState e now w))
                = Some \<lparr>registrationWeekStart = getRegistrationWeekStart (tzOffset e) now,
                         registeredTeamsCount = 0\<rparr>"
    and "registrationsFile (snd (manageWeeklyState e now w))
                = Some \<lparr>weekly_registrationWeekStart = getRegistrationWeekStart (tzOffset e) now,
                         teams = []\<rparr>"
    by simp_all
next
  show "archiveFiles (snd (manageWeeklyState e now w)) = archiveFiles w"
    unfolding manage_missing[OF assms]
    using startWeek_archive[of e "getRegistrationWeekStart (tzOffset e) now"
        "w\<lparr>ioCount := Suc (Suc (ioCount w))\<rparr>"]
    by (cases "startWeek e (getRegistrationWeekStart (tzOffset e) now)
                 (w\<lparr>ioCount := Suc (Suc (ioCount w))\<rparr>)") auto
next
  assume "reliable e"
  from manage_reliable[OF this, of now w]
  show "\<exists>x. fst (manageWeeklyState e now w) = Inr x" by auto
qed

theorem missing_document_reinitializes_witness:
  "stateFile exampleNoStateWorld = None
   \<and> registrationsFile exampleNoStateWorld
        = Some \<lparr>weekly_registrationWeekStart = 1704652200000, teams = exampleRoster 3\<rparr>
   \<and> length (exampleRoster 3) = 3
   \<and> reliable exampleEnv
   \<and> (\<exists>x. fst (manageWeeklyState exampleEnv 1704868200000 exampleNoStateWorld) = Inr x)
   \<and> registrationsFile (snd (manageWeeklyState exampleEnv 1704868200000 exampleNoStateWorld))
        = Some \<lparr>weekly_registrationWeekStart = 1704652200000, teams = []\<rparr>
   \<and> archiveFiles (snd (manageWeeklyState exampleEnv 1704868200000 exampleNoStateWorld))
        = (\<lambda>name. None)"
  using missing_document_reinitializes[of exampleNoStateWorld exampleEnv 1704868200000]
  by (auto simp: exampleNoStateWorld_def exampleWorld_def exampleRoster_def example_reliable
      example_tz example_weekStart)

subsection \<open>C4: a new week\<close>

text \<open>
  C4, as the code has it. Both documents exist and the persisted week start is before
  the current one. A call that returns has reset both documents to the current week
  with no teams. An old roster without teams is not archived. An old roster with teams
  is written verbatim to one archive file when no file operation up to the archive
  write fails; on a server at or west of UTC (and less than a day west) whose roster
  carries a week start computed by \<open>getRegistrationWeekStart\<close>, the name of that file
  is \<^verbatim>\<open>registrations-<date>.json\<close> with the local date of that week start, a Monday.
  If the archive write fails, the call still returns (when the two writes of the reset
  do not fail) and nothing is archived. On a server without I/O errors the call returns.
\<close>

theorem new_week_archives_and_resets:
  assumes "stateFile w = Some st" "registrationsFile w = Some wd"
    and "registrationWeekStart st < getRegistrationWeekStart (tzOffset e) now"
  shows
   "(\<forall>x. fst (manageWeeklyState e now w) = Inr x \<longrightarrow>
        x = (\<lparr>registrationWeekStart = getRegistrationWeekStart (tzOffset e) now,
               registeredTeamsCount = 0\<rparr>,
             \<lparr>weekly_registrationWeekStart = getRegistrationWeekStart (tzOffset e) now,
               teams = []\<rparr>)
        \<and> stateFile (snd (manageWeeklyState e now w))
            = Some \<lparr>registrationWeekStart = getRegistrationWeekStart (tzOffset e) now,
                     registeredTeamsCount = 0\<rparr>
        \<and> registrationsFile (snd (manageWeeklyState e now w))
            = Some \<lparr>weekly_registrationWeekStart = getRegistrationWeekStart (tzOffset e) now,
                     teams = []\<rparr>)
    \<and> (teams wd = [] \<longrightarrow> archiveFiles (snd (manageWeeklyState e now w)) = archiveFiles w)
    \<and> (teams wd \<noteq> [] \<and> \<not> ioFails e (ioCount w) \<and> \<not> ioFails e (ioCount w + 1)
          \<and> \<not> ioFails e (ioCount w + 2) \<longrightarrow>
        (\<exists>d. archiveFiles (snd (manageWeeklyState e now w))
               = (archiveFiles w)(archiveName d \<mapsto> wd)))
    \<and> (teams wd \<noteq> [] \<and> \<not> ioFails e (ioCount w) \<and> \<not> ioFails e (ioCount w + 1)
          \<and> \<not> ioFails e (ioCount w + 2)
          \<and> weekly_registrationWeekStart wd = getRegistrationWeekStart (tzOffset e) t0
          \<and> - 1440 < tzOffset e \<and> tzOffset e \<le> 0 \<longrightarrow>
        archiveFiles (snd (manageWeeklyState e now w))
          = (archiveFiles w)
              (archiveName (localDate (tzOffset e) (weekly_registrationWeekStart wd)) \<mapsto> wd))
    \<and> (teams wd \<noteq> [] \<and> \<not> ioFails e (ioCount w) \<and> \<not> ioFails e (ioCount w + 1)
          \<and> ioFails e (ioCount w + 2) \<and> \<not> ioFails e (ioCount w + 3)
          \<and> \<not> ioFails e (ioCount w + 4) \<longrightarrow>
        (\<exists>x. fst (manageWeeklyState e now w) = Inr x)
        \<and> archiveFiles (snd (manageWeeklyState e now w)) = archiveFiles w)
    \<and> (reliable e \<longrightarrow> (\<exists>x. fst (manageWeeklyState e now w) = Inr x))"
proof -
  note unf = manage_new_week[OF assms] archive_effect startWeek_unfold
  have dates: "isoDate (weekly_registrationWeekStart wd)
          = localDate (tzOffset e) (weekly_registrationWeekStart wd)"
    if "weekly_registrationWeekStart wd = getRegistrationWeekStart (tzOffset e) t0"
      "- 1440 < tzOffset e" "tzOffset e \<le> 0"
    using weekStart_date_west[OF that(2,3), of t0] that(1) by simp
  have ret: "\<exists>x. fst (manageWeeklyState e now w) = Inr x" if "reliable e"
    using manage_reliable[OF that, of now w] by auto
  have named: "\<exists>d. (archiveFiles w)(archiveName (isoDate (weekly_registrationWeekStart wd)) \<mapsto> wd)
         = (archiveFiles w)(archiveName d \<mapsto> wd)"
    by blast
  show ?thesis
    using dates ret named
    by (simp add: unf eval_nat_numeral)
qed

theorem new_week_archives_and_resets_witness:
  "stateFile utcWorld = Some \<lparr>registrationWeekStart = 1704672000000, registeredTeamsCount = 3\<rparr>
   \<and> registrationsFile utcWorld
      = Some \<lparr>weekly_registrationWeekStart = 1704672000000, teams = exampleRoster 3\<rparr>
   \<and> 1704672000000 < getRegistrationWeekStart (tzOffset utcEnv) 1705492800000
   \<and> exampleRoster 3 \<noteq> [] \<and> exampleRoster 0 = []
   \<and> reliable utcEnv
   \<and> 1704672000000 = getRegistrationWeekStart (tzOffset utcEnv) 1704672000000
   \<and> - 1440 < tzOffset utcEnv \<and> tzOffset utcEnv \<le> 0
   \<and> localDate (tzOffset utcEnv) 1704672000000 = ''2024-01-08''
   \<and> archiveFiles (snd (manageWeeklyState utcEnv 1705492800000 utcWorld))
      = (\<lambda>name. None)(archiveName ''2024-01-08'' \<mapsto>
           \<lparr>weekly_registrationWeekStart = 1704672000000, teams = exampleRoster 3\<rparr>)
   \<and> registrationsFile (snd (manageWeeklyState utcEnv 1705492800000 utcWorld))
      = Some \<lparr>weekly_registrationWeekStart = 1705276800000, teams = []\<rparr>
   \<and> stateFile (snd (manageWeeklyState utcEnv 1705492800000 utcWorld))
      = Some \<lparr>registrationWeekStart = 1705276800000, registeredTeamsCount = 0\<rparr>
   \<and> archiveFiles (snd (manageWeeklyState exampleEnv 1705473000000 (exampleWorld (exampleRoster 0))))
      = (\<lambda>name. None)
   \<and> ioFails utcArchiveFailsEnv 2
   \<and> (\<exists>x. fst (manageWeeklyState utcArchiveFailsEnv 1705492800000 utcWorld) = Inr x)
   \<and> archiveFiles (snd (manageWeeklyState utcArchiveFailsEnv 1705492800000 utcWorld))
      = (\<lambda>name. None)"
  using new_week_archives_and_resets[of utcWorld
      "\<lparr>registrationWeekStart = 1704672000000, registeredTeamsCount = 3\<rparr>"
      "\<lparr>weekly_registrationWeekStart = 1704672000000, teams = exampleRoster 3\<rparr>"
      utcEnv 1705492800000 1704672000000]
    new_week_archives_and_resets[of "exampleWorld (exampleRoster 0)"
      "\<lparr>registrationWeekStart = 1704652200000, registeredTeamsCount = 0\<rparr>"
      "\<lparr>weekly_registrationWeekStart = 1704652200000, teams = exampleRoster 0\<rparr>"
      exampleEnv 1705473000000 1704868200000]
    new_week_archives_and_resets[of utcWorld
      "\<lparr>registrationWeekStart = 1704672000000, registeredTeamsCount = 3\<rparr>"
      "\<lparr>weekly_registrationWeekStart = 1704672000000, teams = exampleRoster 3\<rparr>"
      utcArchiveFailsEnv 1705492800000 1704672000000]
  by (auto simp: example_utc_world example_utc_week example_utc_dates example_utc_reliable
      example_faults example_roster3 exampleWorld_def exampleRoster_def example_tz
      example_weekStart example_next_week)

text \<open>
  C4 as stated, the old roster is archived before the reset, fails when the archive
  write fails: \<^verbatim>\<open>archiveWeeklyData\<close> catches the error and only logs it. On a server on
  UTC whose third file operation, the archive write, fails, the call in the week after
  Monday 8 January 2024 returns, the roster file is reset, and no archive file of
  8 January exists: the three teams are lost.
\<close>

theorem archive_write_failure_counterexample:
  "getDay (tzOffset utcArchiveFailsEnv) 1704672000000 = 1
   \<and> localDate (tzOffset utcArchiveFailsEnv) 1704672000000 = ''2024-01-08''
   \<and> stateFile utcWorld
        = Some \<lparr>registrationWeekStart = 1704672000000, registeredTeamsCount = 3\<rparr>
   \<and> registrationsFile utcWorld
        = Some \<lparr>weekly_registrationWeekStart = 1704672000000, teams = exampleRoster 3\<rparr>
   \<and> length (exampleRoster 3) = 3
   \<and> 1704672000000 < getRegistrationWeekStart (tzOffset utcArchiveFailsEnv) 1705492800000
   \<and> fst (manageWeeklyState utcArchiveFailsEnv 1705492800000 utcWorld)
      = Inr (\<lparr>registrationWeekStart = 1705276800000, registeredTeamsCount = 0\<rparr>,
             \<lparr>weekly_registrationWeekStart = 1705276800000, teams = []\<rparr>)
   \<and> registrationsFile (snd (manageWeeklyState utcArchiveFailsEnv 1705492800000 utcWorld))
      = Some \<lparr>weekly_registrationWeekStart = 1705276800000, teams = []\<rparr>
   \<and> archiveFiles (snd (manageWeeklyState utcArchiveFailsEnv 1705492800000 utcWorld))
        (archiveName ''2024-01-08'') = None"
proof -
  have m: "manageWeeklyState utcArchiveFailsEnv 1705492800000 utcWorld
      = startWeek utcArchiveFailsEnv 1705276800000
          (snd (archiveWeeklyData utcArchiveFailsEnv
             \<lparr>weekly_registrationWeekStart = 1704672000000, teams = exampleRoster 3\<rparr>
             (utcWorld\<lparr>ioCount := Suc (Suc 0)\<rparr>)))"
    using manage_new_week[of utcWorld
      "\<lparr>registrationWeekStart = 1704672000000, registeredTeamsCount = 3\<rparr>"
      "\<lparr>weekly_registrationWeekStart = 1704672000000, teams = exampleRoster 3\<rparr>"
      utcArchiveFailsEnv 1705492800000]
    by (simp add: example_utc_world example_utc_week example_faults)
  show ?thesis
    unfolding m
    by (simp add: archive_effect startWeek_unfold example_faults example_utc_dates
        example_utc_week example_utc_world example_roster3)
qed


subsection \<open>C1: the counter and the roster\<close>

text \<open>
  C1, as the code has it. Along every sequence of server actions during which no file
  operation fails, after each action the persisted counter equals the length of the
  persisted roster, whatever the world before the first action. After every
  \<open>manageWeeklyState\<close> that returns, and after every \<open>registerTeam\<close> that does not end in
  its catch-all, the counter equals the roster length.

  A read in the week of the persisted state: if it returns, it returns and has
  persisted the state with the counter set to the roster length, the roster unchanged;
  and it returns when its (at most three) file operations do not fail.

  A successful \<open>registerTeam\<close>, where the first read returned \<open>(st, wd)\<close>: the roster
  file is \<open>wd\<close> with the new record appended, the state file is \<open>st\<close> with the counter
  set to the length of that new roster, and the record is the one built from the
  validated form. A registration succeeds whenever the two reads return, registration
  is open, the form is valid, the payment checks pass, no team of the roster is a
  duplicate, and the two writes do not fail.

  Under the same conditions, if the write of the roster succeeds and the write of the
  state fails, \<open>registerTeam\<close> returns the failure of its catch-all, the roster file holds
  the new record and the state file is as the reads left it; when the second read is in
  the week of the state, that is \<open>st\<close> with the counter at the old roster length, one
  short of the roster.
\<close>

theorem counter_in_sync_after_actions:
  "(reliable e \<and> as \<noteq> [] \<longrightarrow> counterInSync (performAll e as w))
   \<and> ((\<exists>x. fst (manageWeeklyState e now w) = Inr x) \<longrightarrow>
        counterInSync (snd (manageWeeklyState e now w)))
   \<and> ((\<forall>x. fst (registerTeam e t1 t2 t3 t4 fd w) \<noteq> Failure (Unexpected x)) \<longrightarrow>
        counterInSync (snd (registerTeam e t1 t2 t3 t4 fd w)))
   \<and> (stateFile w = Some st0 \<and> registrationsFile w = Some wd0
        \<and> \<not> registrationWeekStart st0 < getRegistrationWeekStart (tzOffset e) now \<longrightarrow>
        ((\<exists>x. fst (manageWeeklyState e now w) = Inr x) \<longrightarrow>
           fst (manageWeeklyState e now w)
             = Inr (st0\<lparr>registeredTeamsCount := int (length (teams wd0))\<rparr>, wd0)
           \<and> stateFile (snd (manageWeeklyState e now w))
               = Some (st0\<lparr>registeredTeamsCount := int (length (teams wd0))\<rparr>)
           \<and> registrationsFile (snd (manageWeeklyState e now w)) = Some wd0)
        \<and> (\<not> ioFails e (ioCount w) \<and> \<not> ioFails e (ioCount w + 1)
             \<and> \<not> ioFails e (ioCount w + 2) \<longrightarrow>
           (\<exists>x. fst (manageWeeklyState e now w) = Inr x)))
   \<and> (manageWeeklyState e t1 w = (Inr (st, wd), w1)
        \<and> fst (registerTeam e t1 t2 t3 t4 fd w) = Success d \<longrightarrow>
        registrationsFile (snd (registerTeam e t1 t2 t3 t4 fd w))
          = Some (wd\<lparr>teams := teams wd @ [d]\<rparr>)
        \<and> stateFile (snd (registerTeam e t1 t2 t3 t4 fd w))
          = Some (st\<lparr>registeredTeamsCount := int (length (teams wd @ [d]))\<rparr>)
        \<and> (\<exists>v. safeParse e fd = Inr v \<and> d = registrationRecord e t4 v))
   \<and> (manageWeeklyState e t1 w = (Inr (st, wd), w1)
        \<and> getRegistrationStatus e t2 t3 w1 = (Inr status, w2)
        \<and> isOpen status \<and> safeParse e fd = Inr v \<and> passesPaymentChecks e st v
        \<and> (\<forall>team \<in> set (teams wd). \<not> duplicateOf e v team)
        \<and> \<not> ioFails e (ioCount w2) \<longrightarrow>
        (\<not> ioFails e (Suc (ioCount w2)) \<longrightarrow>
           fst (registerTeam e t1 t2 t3 t4 fd w) = Success (registrationRecord e t4 v))
        \<and> (ioFails e (Suc (ioCount w2)) \<longrightarrow>
           fst (registerTeam e t1 t2 t3 t4 fd w) = Failure (Unexpected IOError)
           \<and> registrationsFile (snd (registerTeam e t1 t2 t3 t4 fd w))
               = Some (wd\<lparr>teams := teams wd @ [registrationRecord e t4 v]\<rparr>)
           \<and> stateFile (snd (registerTeam e t1 t2 t3 t4 fd w)) = stateFile w2
           \<and> (\<not> registrationWeekStart st < getRegistrationWeekStart (tzOffset e) t2 \<longrightarrow>
                stateFile w2 = Some st
                \<and> registeredTeamsCount st = int (length (teams wd))
                \<and> \<not> counterInSync (snd (registerTeam e t1 t2 t3 t4 fd w)))))"
proof (intro conjI impI; (elim conjE)?)
  assume "reliable e" "as \<noteq> []"
  then show "counterInSync (performAll e as w)" using performAll_sync by blast
next
  assume "\<exists>x. fst (manageWeeklyState e now w) = Inr x"
  then obtain x where "manageWeeklyState e now w = (Inr x, snd (manageWeeklyState e now w))"
    by (cases "manageWeeklyState e now w") auto
  then show "counterInSync (snd (manageWeeklyState e now w))" by (rule manage_sync)
next
  assume "\<forall>x. fst (registerTeam e t1 t2 t3 t4 fd w) \<noteq> Failure (Unexpected x)"
  then show "counterInSync (snd (registerTeam e t1 t2 t3 t4 fd w))"
    using register_sync[of e t1 t2 t3 t4 fd w] by blast
next
  assume a: "stateFile w = Some st0" "registrationsFile w = Some wd0"
    "\<not> registrationWeekStart st0 < getRegistrationWeekStart (tzOffset e) now"
    and "\<exists>x. fst (manageWeeklyState e now w) = Inr x"
  then obtain x where m: "manageWeeklyState e now w = (Inr x, snd (manageWeeklyState e now w))"
    by (cases "manageWeeklyState e now w") auto
  from manage_same_week[OF a m]
  have x: "x = (st0\<lparr>registeredTeamsCount := int (length (teams wd0))\<rparr>, wd0)" by simp
  with m show "fst (manageWeeklyState e now w)
             = Inr (st0\<lparr>registeredTeamsCount := int (length (teams wd0))\<rparr>, wd0)"
    by (metis fst_conv)
  from manage_returns[OF m[unfolded x]]
  show "stateFile (snd (manageWeeklyState e now w))
               = Some (st0\<lparr>registeredTeamsCount := int (length (teams wd0))\<rparr>)"
    and "registrationsFile (snd (manageWeeklyState e now w)) = Some wd0" by simp_all
next
  assume "stateFile w = Some st0" "registrationsFile w = Some wd0"
    "\<not> registrationWeekStart st0 < getRegistrationWeekStart (tzOffset e) now"
    "\<not> ioFails e (ioCount w)" "\<not> ioFails e (ioCount w + 1)" "\<not> ioFails e (ioCount w + 2)"
  then show "\<exists>x. fst (manageWeeklyState e now w) = Inr x" by (rule manage_returns_same_week)
next
  assume a: "manageWeeklyState e t1 w = (Inr (st, wd), w1)"
    "fst (registerTeam e t1 t2 t3 t4 fd w) = Success d"
  show "registrationsFile (snd (registerTeam e t1 t2 t3 t4 fd w))
          = Some (wd\<lparr>teams := teams wd @ [d]\<rparr>)"
    "stateFile (snd (registerTeam e t1 t2 t3 t4 fd w))
          = Some (st\<lparr>registeredTeamsCount := int (length (teams wd @ [d]))\<rparr>)"
    "\<exists>v. safeParse e fd = Inr v \<and> d = registrationRecord e t4 v"
    by (rule register_success[OF a])+
next
  assume "manageWeeklyState e t1 w = (Inr (st, wd), w1)"
    "getRegistrationStatus e t2 t3 w1 = (Inr status, w2)"
    "isOpen status" "safeParse e fd = Inr v" "passesPaymentChecks e st v"
    "\<forall>team \<in> set (teams wd). \<not> duplicateOf e v team"
    "\<not> ioFails e (ioCount w2)" "\<not> ioFails e (Suc (ioCount w2))"
  then show "fst (registerTeam e t1 t2 t3 t4 fd w) = Success (registrationRecord e t4 v)"
    by (rule register_succeeds)
next
  assume a: "manageWeeklyState e t1 w = (Inr (st, wd), w1)"
    "getRegistrationStatus e t2 t3 w1 = (Inr status, w2)"
    "isOpen status" "safeParse e fd = Inr v" "passesPaymentChecks e st v"
    "\<forall>team \<in> set (teams wd). \<not> duplicateOf e v team"
    "\<not> ioFails e (ioCount w2)" "ioFails e (Suc (ioCount w2))"
  note r = register_second_write_fails[OF a]
  show "fst (registerTeam e t1 t2 t3 t4 fd w) = Failure (Unexpected IOError)"
    "registrationsFile (snd (registerTeam e t1 t2 t3 t4 fd w))
               = Some (wd\<lparr>teams := teams wd @ [registrationRecord e t4 v]\<rparr>)"
    "stateFile (snd (registerTeam e t1 t2 t3 t4 fd w)) = stateFile w2"
    by (simp_all add: r)
  {
    assume s: "\<not> registrationWeekStart st < getRegistrationWeekStart (tzOffset e) t2"
    note k = status_keeps_state[OF a(1,2) s]
    show "stateFile w2 = Some st" "registeredTeamsCount st = int (length (teams wd))"
      by (rule k)+
    show "\<not> counterInSync (snd (registerTeam e t1 t2 t3 t4 fd w))"
      using k by (simp add: r counterInSync_def)
  }
qed

theorem counter_in_sync_after_actions_witness:
  "reliable exampleEnv
   \<and> [GetRegistrationStatus 1704868200000 1704868200000,
       RegisterTeam 1704868200000 1704868200000 1704868200000 1704868200000 (exampleForm ''02''),
       GetWeeklyRegistrationsForAdmin 1704868200000] \<noteq> []
   \<and> \<not> counterInSync driftedWorld
   \<and> counterInSync (performAll exampleEnv
        [GetRegistrationStatus 1704868200000 1704868200000,
         RegisterTeam 1704868200000 1704868200000 1704868200000 1704868200000 (exampleForm ''02''),
         GetWeeklyRegistrationsForAdmin 1704868200000] driftedWorld)
   \<and> (\<exists>x. fst (manageWeeklyState exampleEnv 1704868200000 driftedWorld) = Inr x)
   \<and> counterInSync (snd (manageWeeklyState exampleEnv 1704868200000 driftedWorld))
   \<and> (\<forall>x. fst (registerTeam exampleEnv 1704868200000 1704868200000 1704868200000 1704868200000
                 (exampleForm ''02'') driftedWorld) \<noteq> Failure (Unexpected x))
   \<and> counterInSync (snd (registerTeam exampleEnv 1704868200000 1704868200000 1704868200000
                 1704868200000 (exampleForm ''02'') driftedWorld))
   \<and> stateFile driftedWorld
       = Some \<lparr>registrationWeekStart = 1704652200000, registeredTeamsCount = 7\<rparr>
   \<and> registrationsFile driftedWorld
       = Some \<lparr>weekly_registrationWeekStart = 1704652200000, teams = exampleRoster 1\<rparr>
   \<and> length (exampleRoster 1) = 1
   \<and> \<not> 1704652200000 < getRegistrationWeekStart (tzOffset exampleEnv) 1704868200000
   \<and> fst (manageWeeklyState exampleEnv 1704868200000 driftedWorld)
       = Inr (\<lparr>registrationWeekStart = 1704652200000, registeredTeamsCount = 1\<rparr>,
              \<lparr>weekly_registrationWeekStart = 1704652200000, teams = exampleRoster 1\<rparr>)
   \<and> stateFile (snd (manageWeeklyState exampleEnv 1704868200000 driftedWorld))
       = Some \<lparr>registrationWeekStart = 1704652200000, registeredTeamsCount = 1\<rparr>
   \<and> registrationsFile (snd (manageWeeklyState exampleEnv 1704868200000 driftedWorld))
       = Some \<lparr>weekly_registrationWeekStart = 1704652200000, teams = exampleRoster 1\<rparr>
   \<and> manageWeeklyState exampleEnv 1704868200000 (exampleWorld (exampleRoster 1))
       = (Inr (\<lparr>registrationWeekStart = 1704652200000, registeredTeamsCount = 1\<rparr>,
               \<lparr>weekly_registrationWeekStart = 1704652200000, teams = exampleRoster 1\<rparr>),
          (exampleWorld (exampleRoster 1))\<lparr>ioCount := 2\<rparr>)
   \<and> getRegistrationStatus exampleEnv 1704868200000 1704868200000
         ((exampleWorld (exampleRoster 1))\<lparr>ioCount := 2\<rparr>)
       = (Inr \<lparr>slotsFilled = 1, totalSlots = 12, isOpen = True,
               status_weekStart = 1704652200000\<rparr>,
          (exampleWorld (exampleRoster 1))\<lparr>ioCount := 4\<rparr>)
   \<and> (\<exists>v. safeParse exampleEnv (exampleForm ''02'') = Inr v
          \<and> passesPaymentChecks exampleEnv
               \<lparr>registrationWeekStart = 1704652200000, registeredTeamsCount = 1\<rparr> v
          \<and> (\<forall>team \<in> set (exampleRoster 1). \<not> duplicateOf exampleEnv v team))
   \<and> \<not> ioFails exampleEnv 4 \<and> \<not> ioFails exampleEnv 5
   \<and> fst (registerTeam exampleEnv 1704868200000 1704868200000 1704868200000 1704868200000
            (exampleForm ''02'') (exampleWorld (exampleRoster 1)))
       = Success \<lparr>teamName = ''Team 02'',
           players = [\<lparr>player_id = ''p0'', level = 40\<rparr>, \<lparr>player_id = ''p1'', level = 40\<rparr>,
                      \<lparr>player_id = ''p2'', level = 40\<rparr>, \<lparr>player_id = ''p3'', level = 40\<rparr>],
           contactEmail = ''02@example.org'', contactPhone = ''9876543202'',
           utrNumber = ''UTR0002'', screenshotHash = ''h:shot02'',
           registrationTime = 1704868200000\<rparr>
   \<and> registrationsFile (snd (registerTeam exampleEnv 1704868200000 1704868200000 1704868200000
            1704868200000 (exampleForm ''02'') (exampleWorld (exampleRoster 1))))
       = Some \<lparr>weekly_registrationWeekStart = 1704652200000,
               teams = exampleRoster 1 @
                 [\<lparr>teamName = ''Team 02'',
                   players = [\<lparr>player_id = ''p0'', level = 40\<rparr>, \<lparr>player_id = ''p1'', level = 40\<rparr>,
                              \<lparr>player_id = ''p2'', level = 40\<rparr>, \<lparr>player_id = ''p3'', level = 40\<rparr>],
                   contactEmail = ''02@example.org'', contactPhone = ''9876543202'',
                   utrNumber = ''UTR0002'', screenshotHash = ''h:shot02'',
                   registrationTime = 1704868200000\<rparr>]\<rparr>
   \<and> stateFile (snd (registerTeam exampleEnv 1704868200000 1704868200000 1704868200000
            1704868200000 (exampleForm ''02'') (exampleWorld (exampleRoster 1))))
       = Some \<lparr>registrationWeekStart = 1704652200000, registeredTeamsCount = 2\<rparr>
   \<and> manageWeeklyState sixthWriteFailsEnv 1704868200000 (exampleWorld (exampleRoster 1))
       = (Inr (\<lparr>registrationWeekStart = 1704652200000, registeredTeamsCount = 1\<rparr>,
               \<lparr>weekly_registrationWeekStart = 1704652200000, teams = exampleRoster 1\<rparr>),
          (exampleWorld (exampleRoster 1))\<lparr>ioCount := 2\<rparr>)
   \<and> getRegistrationStatus sixthWriteFailsEnv 1704868200000 1704868200000
         ((exampleWorld (exampleRoster 1))\<lparr>ioCount := 2\<rparr>)
       = (Inr \<lparr>slotsFilled = 1, totalSlots = 12, isOpen = True,
               status_weekStart = 1704652200000\<rparr>,
          (exampleWorld (exampleRoster 1))\<lparr>ioCount := 4\<rparr>)
   \<and> (\<exists>v. safeParse sixthWriteFailsEnv (exampleForm ''02'') = Inr v
          \<and> passesPaymentChecks sixthWriteFailsEnv
               \<lparr>registrationWeekStart = 1704652200000, registeredTeamsCount = 1\<rparr> v
          \<and> (\<forall>team \<in> set (exampleRoster 1). \<not> duplicateOf sixthWriteFailsEnv v team))
   \<and> \<not> ioFails sixthWriteFailsEnv 4 \<and> ioFails sixthWriteFailsEnv 5
   \<and> \<not> 1704652200000 < getRegistrationWeekStart (tzOffset sixthWriteFailsEnv) 1704868200000
   \<and> fst (registerTeam sixthWriteFailsEnv 1704868200000 1704868200000 1704868200000
            1704868200000 (exampleForm ''02'') (exampleWorld (exampleRoster 1)))
       = Failure (Unexpected IOError)
   \<and> registrationsFile (snd (registerTeam sixthWriteFailsEnv 1704868200000 1704868200000
            1704868200000 1704868200000 (exampleForm ''02'') (exampleWorld (exampleRoster 1))))
       = Some \<lparr>weekly_registrationWeekStart = 1704652200000,
               teams = exampleRoster 1 @
                 [\<lparr>teamName = ''Team 02'',
                   players = [\<lparr>player_id = ''p0'', level = 40\<rparr>, \<lparr>player_id = ''p1'', level = 40\<rparr>,
                              \<lparr>player_id = ''p2'', level = 40\<rparr>, \<lparr>player_id = ''p3'', level = 40\<rparr>],
                   contactEmail = ''02@example.org'', contactPhone = ''9876543202'',
                   utrNumber = ''UTR0002'', screenshotHash = ''h:shot02'',
                   registrationTime = 1704868200000\<rparr>]\<rparr>
   \<and> stateFile (snd (registerTeam sixthWriteFailsEnv 1704868200000 1704868200000
            1704868200000 1704868200000 (exampleForm ''02'') (exampleWorld (exampleRoster 1))))
       = Some \<lparr>registrationWeekStart = 1704652200000, registeredTeamsCount = 1\<rparr>
   \<and> \<not> counterInSync (snd (registerTeam sixthWriteFailsEnv 1704868200000 1704868200000
            1704868200000 1704868200000 (exampleForm ''02'') (exampleWorld (exampleRoster 1))))"
proof -
  let ?t = "1704868200000 :: int"
  let ?st = "\<lparr>registrationWeekStart = 1704652200000, registeredTeamsCount = 1\<rparr>"
  let ?wd = "\<lparr>weekly_registrationWeekStart = 1704652200000, teams = exampleRoster 1\<rparr>"
  let ?w0 = "exampleWorld (exampleRoster 1)"
  let ?w1 = "(exampleWorld (exampleRoster 1))\<lparr>ioCount := 2\<rparr>"
  let ?w2 = "(exampleWorld (exampleRoster 1))\<lparr>ioCount := 4\<rparr>"
  let ?status = "\<lparr>slotsFilled = 1, totalSlots = 12, isOpen = True,
               status_weekStart = 1704652200000\<rparr>"
  let ?v = "\<lparr>v_teamName = ''Team 02'',
            v_players = [\<lparr>player_id = ''p0'', level = 40\<rparr>, \<lparr>player_id = ''p1'', level = 40\<rparr>,
                         \<lparr>player_id = ''p2'', level = 40\<rparr>, \<lparr>player_id = ''p3'', level = 40\<rparr>],
            v_contactEmail = ''02@example.org'', v_contactPhone = ''9876543202'',
            v_utrNumber = ''UTR0002'',
            v_screenshot = \<lparr>file_bytes = ''shot02'', file_type = ''image/png''\<rparr>\<rparr>"
  let ?d = "\<lparr>teamName = ''Team 02'',
           players = [\<lparr>player_id = ''p0'', level = 40\<rparr>, \<lparr>player_id = ''p1'', level = 40\<rparr>,
                      \<lparr>player_id = ''p2'', level = 40\<rparr>, \<lparr>player_id = ''p3'', level = 40\<rparr>],
           contactEmail = ''02@example.org'', contactPhone = ''9876543202'',
           utrNumber = ''UTR0002'', screenshotHash = ''h:shot02'',
           registrationTime = 1704868200000\<rparr>"
  let ?as = "[GetRegistrationStatus 1704868200000 1704868200000,
       RegisterTeam 1704868200000 1704868200000 1704868200000 1704868200000 (exampleForm ''02''),
       GetWeeklyRegistrationsForAdmin 1704868200000]"
  have len: "length (exampleRoster 1) = 1" "length (exampleRoster (Suc 0)) = Suc 0"
    by (simp_all add: exampleRoster_def)
  have ws: "\<not> 1704652200000 < getRegistrationWeekStart (tzOffset exampleEnv) 1704868200000"
    "\<not> 1704652200000 < getRegistrationWeekStart (tzOffset sixthWriteFailsEnv) 1704868200000"
    by (simp_all add: example_tz example_sixth example_weekStart)
  have mA: "\<exists>x. fst (manageWeeklyState exampleEnv ?t driftedWorld) = Inr x"
    using manage_reliable[OF example_reliable, of ?t driftedWorld] by auto
  have rA: "\<forall>x. fst (registerTeam exampleEnv ?t ?t ?t ?t (exampleForm ''02'') driftedWorld)
                \<noteq> Failure (Unexpected x)"
    using register_reliable[OF example_reliable] by blast
  have mB: "manageWeeklyState exampleEnv ?t ?w0 = (Inr (?st, ?wd), ?w1)"
    using example_manage_at[of exampleEnv 0 "exampleRoster 1"]
    by (simp add: example_tz example_faults exampleWorld_count0 len)
  have sB: "getRegistrationStatus exampleEnv ?t ?t ?w1 = (Inr ?status, ?w2)"
    using example_status_at[of exampleEnv 2 "exampleRoster 1"]
    by (simp add: example_tz example_faults len)
  have mC: "manageWeeklyState sixthWriteFailsEnv ?t ?w0 = (Inr (?st, ?wd), ?w1)"
    using example_manage_at[of sixthWriteFailsEnv 0 "exampleRoster 1"]
    by (simp add: example_sixth exampleWorld_count0 len)
  have sC: "getRegistrationStatus sixthWriteFailsEnv ?t ?t ?w1 = (Inr ?status, ?w2)"
    using example_status_at[of sixthWriteFailsEnv 2 "exampleRoster 1"]
    by (simp add: example_sixth len)
  have pB: "safeParse exampleEnv (exampleForm ''02'') = Inr ?v"
    and pC: "safeParse sixthWriteFailsEnv (exampleForm ''02'') = Inr ?v"
    by (simp_all add: example_parse example_sixth)
  have fB: "\<not> ioFails exampleEnv 4" "\<not> ioFails exampleEnv 5"
    and fC: "\<not> ioFails sixthWriteFailsEnv 4" "ioFails sixthWriteFailsEnv 5"
    by (simp_all add: example_faults example_sixth)
  have cnt: "ioCount ?w2 = 4" "Suc 4 = 5" by simp_all
  have isop: "isOpen ?status" by simp
  have wsst: "registrationWeekStart ?st = 1704652200000" by simp
  note A = counter_in_sync_after_actions[where e = exampleEnv and w = driftedWorld
        and as = ?as and now = ?t and ?t1.0 = ?t and ?t2.0 = ?t
        and ?t3.0 = ?t and ?t4.0 = ?t and fd = "exampleForm ''02''"
        and ?st0.0 = "\<lparr>registrationWeekStart = 1704652200000, registeredTeamsCount = 7\<rparr>"
        and ?wd0.0 = ?wd]
  note B = counter_in_sync_after_actions[where e = exampleEnv and w = ?w0
        and ?t1.0 = ?t and ?t2.0 = ?t and ?t3.0 = ?t and ?t4.0 = ?t
        and fd = "exampleForm ''02''" and st = ?st and wd = ?wd and ?w1.0 = ?w1
        and status = ?status and ?w2.0 = ?w2 and v = ?v and d = ?d]
  note C = counter_in_sync_after_actions[where e = sixthWriteFailsEnv and w = ?w0
        and ?t1.0 = ?t and ?t2.0 = ?t and ?t3.0 = ?t and ?t4.0 = ?t
        and fd = "exampleForm ''02''" and st = ?st and wd = ?wd and ?w1.0 = ?w1
        and status = ?status and ?w2.0 = ?w2 and v = ?v]
  have a: "counterInSync (performAll exampleEnv ?as driftedWorld)"
    "counterInSync (snd (manageWeeklyState exampleEnv ?t driftedWorld))"
    "counterInSync (snd (registerTeam exampleEnv ?t ?t ?t ?t (exampleForm ''02'') driftedWorld))"
    using A mA rA example_reliable by blast+
  have a4: "fst (manageWeeklyState exampleEnv ?t driftedWorld) = Inr (?st, ?wd)"
    "stateFile (snd (manageWeeklyState exampleEnv ?t driftedWorld)) = Some ?st"
    "registrationsFile (snd (manageWeeklyState exampleEnv ?t driftedWorld)) = Some ?wd"
    using A mA ws(1) by (simp_all add: example_drifted_files len)
  have b6: "fst (registerTeam exampleEnv ?t ?t ?t ?t (exampleForm ''02'') ?w0) = Success ?d"
    using B mB sB pB fB example_passes(1)[of 1 ?v] example_no_duplicate(1)
    by (simp add: example_record)
  have b5: "registrationsFile (snd (registerTeam exampleEnv ?t ?t ?t ?t (exampleForm ''02'') ?w0))
       = Some (?wd\<lparr>teams := teams ?wd @ [?d]\<rparr>)"
    "stateFile (snd (registerTeam exampleEnv ?t ?t ?t ?t (exampleForm ''02'') ?w0))
       = Some (?st\<lparr>registeredTeamsCount := int (length (teams ?wd @ [?d]))\<rparr>)"
    using B mB b6 by blast+
  have c: "fst (registerTeam sixthWriteFailsEnv ?t ?t ?t ?t (exampleForm ''02'') ?w0)
       = Failure (Unexpected IOError)"
    "registrationsFile (snd (registerTeam sixthWriteFailsEnv ?t ?t ?t ?t (exampleForm ''02'') ?w0))
       = Some (?wd\<lparr>teams := teams ?wd @ [?d]\<rparr>)"
    "stateFile (snd (registerTeam sixthWriteFailsEnv ?t ?t ?t ?t (exampleForm ''02'') ?w0))
       = Some ?st"
    "\<not> counterInSync (snd (registerTeam sixthWriteFailsEnv ?t ?t ?t ?t (exampleForm ''02'') ?w0))"
    using C mC sC pC fC ws(2) example_passes(2)[of 1 ?v] example_no_duplicate(2)
    by (simp_all add: example_record)
  show ?thesis
    using a a4 b5 b6 c mA rA mB sB mC sC pB pC fB fC ws len example_reliable example_drifted
      example_passes(1)[of 1 ?v] example_passes(2)[of 1 ?v] example_no_duplicate
    by (simp add: example_drifted_files)
qed

text \<open>
  C1 as stated, after every operation, fails for a \<open>registerTeam\<close> whose write of the
  roster succeeds and whose write of the state, the next statement, fails: the action
  returns the failure of the catch-all, the new team is on the roster, and the counter
  is one short (until the next read corrects it). All four clock reads are in the week
  of the persisted state.
\<close>

theorem counter_out_of_sync_counterexample:
  "counterInSync (exampleWorld (exampleRoster 1))
   \<and> fst (registerTeam sixthWriteFailsEnv 1704868200000 1704868200000 1704868200000 1704868200000
            (exampleForm ''02'') (exampleWorld (exampleRoster 1))) = Failure (Unexpected IOError)
   \<and> \<not> counterInSync (snd (registerTeam sixthWriteFailsEnv 1704868200000 1704868200000
            1704868200000 1704868200000 (exampleForm ''02'') (exampleWorld (exampleRoster 1))))"
  unfolding example_register_fails_late
  by (simp add: counterInSync_def exampleWorld_def exampleRoster_def)

end
